theory Spec2Isabelle
  imports Main "HOL-Library.Word"
begin

unbundle bit_operations_syntax

section \<open>RSA signature provider (providers/implementations/signature/rsa_sig.c)\<close>

text \<open>
  A shallow embedding of the signature context of \<^verbatim>\<open>rsa_sig.c\<close>, in the build
  without \<^verbatim>\<open>FIPS_MODULE\<close> (the FIPS indicator macros expand to nothing there).
  Every C function keeps its name. A function that returns \<^verbatim>\<open>0\<close> after
  \<^verbatim>\<open>ERR_raise\<close> returns \<open>Inl\<close> of the reason it raised; one that returns
  \<^verbatim>\<open>0\<close> and raises nothing itself returns \<open>Inl NO_REASON\<close>.
  The functions of libcrypto that the file calls (digests, RSA primitives, padding)
  are not part of the file: they are the fields of the record \<open>ext\<close>, and every
  theorem holds for every behaviour of them.
\<close>

subsection \<open>Constants of the public headers\<close>

type_synonym byte = "8 word"
type_synonym addr = nat

abbreviation (input) RSA_PKCS1_PADDING :: int where "RSA_PKCS1_PADDING \<equiv> 1"
abbreviation (input) RSA_NO_PADDING :: int where "RSA_NO_PADDING \<equiv> 3"
abbreviation (input) RSA_PKCS1_OAEP_PADDING :: int where "RSA_PKCS1_OAEP_PADDING \<equiv> 4"
abbreviation (input) RSA_X931_PADDING :: int where "RSA_X931_PADDING \<equiv> 5"
abbreviation (input) RSA_PKCS1_PSS_PADDING :: int where "RSA_PKCS1_PSS_PADDING \<equiv> 6"

abbreviation (input) RSA_PSS_SALTLEN_DIGEST :: int where "RSA_PSS_SALTLEN_DIGEST \<equiv> - 1"
abbreviation (input) RSA_PSS_SALTLEN_AUTO :: int where "RSA_PSS_SALTLEN_AUTO \<equiv> - 2"
abbreviation (input) RSA_PSS_SALTLEN_MAX :: int where "RSA_PSS_SALTLEN_MAX \<equiv> - 3"
abbreviation (input) RSA_PSS_SALTLEN_AUTO_DIGEST_MAX :: int where
  "RSA_PSS_SALTLEN_AUTO_DIGEST_MAX \<equiv> - 4"

abbreviation (input) NID_undef :: int where "NID_undef \<equiv> 0"

abbreviation (input) RSA_FLAG_TYPE_RSA :: int where "RSA_FLAG_TYPE_RSA \<equiv> 0"
abbreviation (input) RSA_FLAG_TYPE_RSASSAPSS :: int where "RSA_FLAG_TYPE_RSASSAPSS \<equiv> 4096"

abbreviation (input) OSSL_MAX_NAME_SIZE :: nat where "OSSL_MAX_NAME_SIZE \<equiv> 50"

abbreviation (input) OSSL_DIGEST_NAME_MDC2 :: string where "OSSL_DIGEST_NAME_MDC2 \<equiv> ''MDC2''"
abbreviation (input) OSSL_SIGNATURE_PARAM_SIGNATURE :: string where
  "OSSL_SIGNATURE_PARAM_SIGNATURE \<equiv> ''signature''"

text \<open>The operation codes are only ever compared for equality in the build modelled.\<close>

datatype pkey_op =
    EVP_PKEY_OP_UNDEFINED
  | EVP_PKEY_OP_SIGN
  | EVP_PKEY_OP_VERIFY
  | EVP_PKEY_OP_VERIFYRECOVER
  | EVP_PKEY_OP_SIGNMSG
  | EVP_PKEY_OP_VERIFYMSG

text \<open>
  The reasons put on the error queue. \<open>PROV_R_PSS_SALTLEN_TOO_SMALL\<close> carries the two
  numbers of its \<^verbatim>\<open>ERR_raise_data\<close> text: the floor, then the actual salt length.
  Two values are not reasons but undefined behaviour of the C code, kept visible:
  \<open>NULL_KEY_DEREFERENCE\<close> is \<^verbatim>\<open>RSA_size(NULL)\<close> and its like (the file reads
  the key without a check), \<open>INVALID_POINTER\<close> is a read or write through a pointer to
  an object that is not allocated, or past the end of a buffer.
\<close>

datatype error =
    NO_REASON
  | NULL_KEY_DEREFERENCE
  | INVALID_POINTER
  | ERR_R_INTERNAL_ERROR
  | ERR_R_PROV_LIB
  | ERR_R_RSA_LIB
  | PROV_R_ALGORITHM_MISMATCH
  | PROV_R_DIGEST_NOT_ALLOWED
  | PROV_R_FINAL_CALL_OUT_OF_ORDER
  | PROV_R_INVALID_DIGEST
  | PROV_R_INVALID_DIGEST_LENGTH
  | PROV_R_INVALID_KEY
  | PROV_R_INVALID_PADDING_MODE
  | PROV_R_INVALID_SALT_LENGTH
  | PROV_R_INVALID_SIGNATURE_SIZE
  | PROV_R_INVALID_X931_DIGEST
  | PROV_R_KEY_SIZE_TOO_SMALL
  | PROV_R_NO_KEY_SET
  | PROV_R_ONESHOT_CALL_OUT_OF_ORDER
  | PROV_R_OPERATION_NOT_SUPPORTED_FOR_THIS_KEYTYPE
  | PROV_R_OUTPUT_BUFFER_TOO_SMALL
  | PROV_R_PSS_SALTLEN_TOO_SMALL int int
  | PROV_R_UPDATE_CALL_OUT_OF_ORDER
  | PROV_R_XOF_DIGESTS_NOT_ALLOWED

subsection \<open>The collaborators: key object, digest engine, RSA primitives\<close>

text \<open>
  An \<^verbatim>\<open>RSA\<close> key is immutable once a context holds it, apart from its reference
  count. The record holds what the file reads of a key; \<open>key_id\<close> names the object, and
  the reference count of object \<open>i\<close> is \<open>rsa_refs h i\<close> in the heap below.
  \<open>pss_unrestricted\<close> is \<^verbatim>\<open>ossl_rsa_pss_params_30_is_unrestricted\<close> of the key's
  PSS parameters; the three fields after it are the parameters' hash, MGF1 hash and salt
  length.
\<close>

record RSA =
  key_id :: nat
  RSA_size :: int
  RSA_bits :: int
  RSA_type_flags :: int
  pss_unrestricted :: bool
  pss_hashalg :: int
  pss_maskgenhashalg :: int
  pss_saltlen :: int

text \<open>A fetched digest implementation is an opaque handle.\<close>

datatype EVP_MD = MD_HANDLE nat

text \<open>
  The state of a digest engine (\<^verbatim>\<open>EVP_MD_CTX\<close>) is opaque too: a byte string that
  only the digest functions of \<open>ext\<close> interpret.
\<close>

type_synonym EVP_MD_CTX = "byte list"

text \<open>An \<^verbatim>\<open>OSSL_PARAM\<close> entry: its key and its typed data.\<close>

datatype OSSL_PARAM =
    OSSL_PARAM_octet_string string "byte list"
  | OSSL_PARAM_utf8_string string string
  | OSSL_PARAM_int string int

fun param_key :: "OSSL_PARAM \<Rightarrow> string" where
  "param_key (OSSL_PARAM_octet_string k d) = k"
| "param_key (OSSL_PARAM_utf8_string k d) = k"
| "param_key (OSSL_PARAM_int k d) = k"

definition ossl_param_is_empty :: "OSSL_PARAM list \<Rightarrow> bool" where
  "ossl_param_is_empty params = (params = [])"

definition OSSL_PARAM_locate_const :: "OSSL_PARAM list \<Rightarrow> string \<Rightarrow> OSSL_PARAM option" where
  "OSSL_PARAM_locate_const params key = find (\<lambda>p. param_key p = key) params"

text \<open>
  The functions of libcrypto and of the provider core that the file calls. A function
  that can fail returns its success with what it left behind. The RSA primitives take
  the input bytes and return the C return value with the bytes they wrote.
  \<open>ossl_rsa_padding_add_PKCS1_PSS_mgf1\<close> returns its success, the bytes it wrote into the
  block, and the salt length it stored back through its last argument;
  \<open>ossl_rsa_verify_PKCS1_PSS_mgf1\<close> returns its return value and that salt length.
  The primitives are functions of their arguments: the randomness of the PSS salt is not
  modelled, and no claim settled here depends on it.
\<close>

record ext =
  ossl_prov_is_running :: bool
  EVP_MD_fetch :: "string \<Rightarrow> string option \<Rightarrow> EVP_MD option"
  EVP_MD_get_size :: "EVP_MD option \<Rightarrow> int"
  EVP_MD_xof :: "EVP_MD \<Rightarrow> bool"
  EVP_MD_is_a :: "EVP_MD option \<Rightarrow> string \<Rightarrow> bool"
  EVP_MD_up_ref :: "EVP_MD \<Rightarrow> bool"
  ossl_digest_rsa_sign_get_md_nid :: "EVP_MD \<Rightarrow> int"
  RSA_X931_hash_id :: "int \<Rightarrow> int"
  ossl_rsa_oaeppss_nid2name :: "int \<Rightarrow> string option"
  ossl_rsa_key_op_get_protect :: "RSA \<Rightarrow> pkey_op \<Rightarrow> bool"
  RSA_up_ref_ok :: "RSA \<Rightarrow> bool"
  EVP_DigestInit_ex2 :: "EVP_MD_CTX \<Rightarrow> EVP_MD option \<Rightarrow> OSSL_PARAM list \<Rightarrow> bool \<times> EVP_MD_CTX"
  EVP_DigestUpdate :: "EVP_MD_CTX \<Rightarrow> byte list \<Rightarrow> bool \<times> EVP_MD_CTX"
  EVP_DigestFinal_ex :: "EVP_MD_CTX \<Rightarrow> bool \<times> EVP_MD_CTX \<times> byte list"
  EVP_MD_CTX_copy_ex :: "EVP_MD_CTX \<Rightarrow> bool \<times> EVP_MD_CTX"
  RSA_private_encrypt :: "byte list \<Rightarrow> RSA \<Rightarrow> int \<Rightarrow> int \<times> byte list"
  RSA_public_decrypt :: "byte list \<Rightarrow> RSA \<Rightarrow> int \<Rightarrow> int \<times> byte list"
  RSA_sign :: "int \<Rightarrow> byte list \<Rightarrow> RSA \<Rightarrow> int \<times> nat \<times> byte list"
  RSA_sign_ASN1_OCTET_STRING :: "byte list \<Rightarrow> RSA \<Rightarrow> int \<times> nat \<times> byte list"
  RSA_verify :: "int \<Rightarrow> byte list \<Rightarrow> byte list \<Rightarrow> RSA \<Rightarrow> bool"
  ossl_rsa_verify :: "int \<Rightarrow> byte list \<Rightarrow> RSA \<Rightarrow> int \<times> nat \<times> byte list"
  ossl_rsa_padding_add_PKCS1_PSS_mgf1 ::
    "RSA \<Rightarrow> byte list \<Rightarrow> EVP_MD option \<Rightarrow> EVP_MD option \<Rightarrow> int \<Rightarrow> bool \<times> byte list \<times> int"
  ossl_rsa_verify_PKCS1_PSS_mgf1 ::
    "RSA \<Rightarrow> byte list \<Rightarrow> EVP_MD option \<Rightarrow> EVP_MD option \<Rightarrow> byte list \<Rightarrow> int \<Rightarrow> int \<times> int"

subsection \<open>The context and the heap\<close>

text \<open>
  \<^verbatim>\<open>PROV_RSA_CTX\<close>, field by field (\<^verbatim>\<open>libctx\<close> is a constant of the provider
  and is left out). The digests and the key are immutable objects and are held by value;
  \<open>mdctx\<close>, \<open>sig\<close> and \<open>tbuf\<close> point to mutable objects and are addresses into the heap.
  The model covers the calls that pass a context: every entry point returns 0 at once
  for a NULL context, or reads through it.
\<close>

record PROV_RSA_CTX =
  propq :: "string option"
  rsa :: "RSA option"
  operation :: pkey_op
  flag_sigalg :: bool
  flag_allow_md :: bool
  mgf1_md_set :: bool
  flag_allow_update :: bool
  flag_allow_final :: bool
  flag_allow_oneshot :: bool
  md :: "EVP_MD option"
  mdctx :: "addr option"
  mdnid :: int
  mdname :: string
  pad_mode :: int
  mgf1_md :: "EVP_MD option"
  mgf1_mdnid :: int
  mgf1_mdname :: string
  saltlen :: int
  min_saltlen :: int
  sig :: "addr option"
  siglen :: nat
  tbuf :: "addr option"

text \<open>
  The heap: the digest engine states and the byte buffers that are allocated, by address;
  the reference counts of the key objects; the next fresh address; \<open>mem_left\<close>, the
  number of allocations that will still succeed (an allocation fails when it is 0);
  \<open>junk\<close>, the byte an uninitialised block is found filled with; and \<open>heap_corrupt\<close>,
  set once the program has freed or written a block that is not allocated, or has
  written past the end of one.
\<close>

record heap =
  md_ctxs :: "addr \<rightharpoonup> EVP_MD_CTX"
  bufs :: "addr \<rightharpoonup> byte list"
  rsa_refs :: "nat \<Rightarrow> nat"
  next_free :: addr
  mem_left :: nat
  junk :: byte
  heap_corrupt :: bool

subsection \<open>Memory and reference counts\<close>

text \<open>\<^verbatim>\<open>size_t\<close> is 64 bits wide; a negative \<^verbatim>\<open>int\<close> converts to a huge size.\<close>

definition size_t_of_int :: "int \<Rightarrow> nat" where
  "size_t_of_int i = nat (i mod 2 ^ 64)"

text \<open>
  \<open>OPENSSL_malloc h contents\<close>: a fresh block that the caller finds holding \<open>contents\<close>.
  A request for no bytes returns NULL, as \<^verbatim>\<open>CRYPTO_malloc(0)\<close> does.
\<close>

definition OPENSSL_malloc :: "heap \<Rightarrow> byte list \<Rightarrow> addr option \<times> heap" where
  "OPENSSL_malloc h contents =
     (if mem_left h = 0 \<or> contents = [] then (None, h)
      else (Some (next_free h),
            h\<lparr>bufs := (bufs h)(next_free h \<mapsto> contents),
              next_free := Suc (next_free h),
              mem_left := mem_left h - 1\<rparr>))"

definition OPENSSL_free :: "heap \<Rightarrow> addr option \<Rightarrow> heap" where
  "OPENSSL_free h p =
     (case p of
        None \<Rightarrow> h
      | Some a \<Rightarrow>
          (case bufs h a of
             None \<Rightarrow> h\<lparr>heap_corrupt := True\<rparr>
           | Some b \<Rightarrow> h\<lparr>bufs := (bufs h)(a := None)\<rparr>))"

definition EVP_MD_CTX_new :: "heap \<Rightarrow> addr option \<times> heap" where
  "EVP_MD_CTX_new h =
     (if mem_left h = 0 then (None, h)
      else (Some (next_free h),
            h\<lparr>md_ctxs := (md_ctxs h)(next_free h \<mapsto> []),
              next_free := Suc (next_free h),
              mem_left := mem_left h - 1\<rparr>))"

definition EVP_MD_CTX_free :: "heap \<Rightarrow> addr option \<Rightarrow> heap" where
  "EVP_MD_CTX_free h p =
     (case p of
        None \<Rightarrow> h
      | Some a \<Rightarrow>
          (case md_ctxs h a of
             None \<Rightarrow> h\<lparr>heap_corrupt := True\<rparr>
           | Some st \<Rightarrow> h\<lparr>md_ctxs := (md_ctxs h)(a := None)\<rparr>))"

definition RSA_up_ref :: "ext \<Rightarrow> heap \<Rightarrow> RSA \<Rightarrow> heap option" where
  "RSA_up_ref x h k =
     (if RSA_up_ref_ok x k
      then Some (h\<lparr>rsa_refs := (rsa_refs h)(key_id k := rsa_refs h (key_id k) + 1)\<rparr>)
      else None)"

definition RSA_free :: "heap \<Rightarrow> RSA option \<Rightarrow> heap" where
  "RSA_free h p =
     (case p of
        None \<Rightarrow> h
      | Some k \<Rightarrow> h\<lparr>rsa_refs := (rsa_refs h)(key_id k := rsa_refs h (key_id k) - 1)\<rparr>)"

text \<open>
  \<open>write_buf h a src\<close> writes \<open>src\<close> at the start of block \<open>a\<close> (\<^verbatim>\<open>memcpy\<close>, or a
  primitive filling its output buffer). \<open>read_buf h a n\<close> is the first \<open>n\<close> bytes of the
  block, \<open>buf_byte h a i\<close> its byte at index \<open>i\<close>.
\<close>

definition write_buf :: "heap \<Rightarrow> addr \<Rightarrow> byte list \<Rightarrow> heap" where
  "write_buf h a src =
     (case bufs h a of
        None \<Rightarrow> h\<lparr>heap_corrupt := True\<rparr>
      | Some b \<Rightarrow>
          if length src \<le> length b
          then h\<lparr>bufs := (bufs h)(a \<mapsto> src @ drop (length src) b)\<rparr>
          else h\<lparr>bufs := (bufs h)(a \<mapsto> take (length b) src), heap_corrupt := True\<rparr>)"

definition read_buf :: "heap \<Rightarrow> addr \<Rightarrow> nat \<Rightarrow> byte list" where
  "read_buf h a n = (case bufs h a of None \<Rightarrow> [] | Some b \<Rightarrow> take n b)"

definition buf_byte :: "heap \<Rightarrow> addr \<Rightarrow> nat \<Rightarrow> byte option" where
  "buf_byte h a i =
     (case bufs h a of
        None \<Rightarrow> None
      | Some b \<Rightarrow> if i < length b then Some (b ! i) else None)"

text \<open>\<^verbatim>\<open>OPENSSL_strlcpy(dst, src, size)\<close> leaves at most \<open>size - 1\<close> characters of \<open>src\<close> in \<open>dst\<close>.\<close>

definition OPENSSL_strlcpy :: "string \<Rightarrow> nat \<Rightarrow> string" where
  "OPENSSL_strlcpy src n = take (n - 1) src"

subsection \<open>rsa\_get\_md\_size, rsa\_pss\_compute\_saltlen\<close>

definition rsa_pss_restricted :: "PROV_RSA_CTX \<Rightarrow> bool" where
  "rsa_pss_restricted prsactx = (min_saltlen prsactx \<noteq> - 1)"

definition rsa_get_md_size :: "ext \<Rightarrow> PROV_RSA_CTX \<Rightarrow> int" where
  "rsa_get_md_size x prsactx =
     (case md prsactx of
        None \<Rightarrow> 0
      | Some m \<Rightarrow>
          (let md_size = EVP_MD_get_size x (Some m)
           in if md_size \<le> 0 then 0 else md_size))"

text \<open>
  \<^verbatim>\<open>rsa_pss_compute_saltlen\<close>. The local \<^verbatim>\<open>saltlen\<close> is \<open>s1\<close> after the first
  \<^verbatim>\<open>if\<close>/\<^verbatim>\<open>else if\<close>, \<open>s2\<close> after the MAX/AUTO block. No sum or difference
  here can leave the range of a C \<^verbatim>\<open>int\<close>: \<open>rsasize - 2\<close> is computed only when
  \<open>rsasize > 2\<close>, and \<open>rsasize - mdsize - 2\<close> only when \<open>0 < mdsize \<le> rsasize - 2\<close>.
\<close>

definition rsa_pss_compute_saltlen :: "ext \<Rightarrow> PROV_RSA_CTX \<Rightarrow> error + int" where
  "rsa_pss_compute_saltlen x ctx =
     (let saltlen0 = saltlen ctx;
          mdsize = EVP_MD_get_size x (md ctx)
      in
      if saltlen0 = RSA_PSS_SALTLEN_DIGEST \<and> mdsize \<le> 0 then Inl PROV_R_INVALID_DIGEST
      else if saltlen0 = RSA_PSS_SALTLEN_AUTO_DIGEST_MAX \<and> mdsize \<le> 0
        then Inl PROV_R_INVALID_DIGEST
      else
        let s1 = (if saltlen0 = RSA_PSS_SALTLEN_DIGEST then mdsize
                  else if saltlen0 = RSA_PSS_SALTLEN_AUTO_DIGEST_MAX then RSA_PSS_SALTLEN_MAX
                  else saltlen0);
            saltlenMax = (if saltlen0 = RSA_PSS_SALTLEN_AUTO_DIGEST_MAX then mdsize else - 1);
            r2 =
              (if s1 = RSA_PSS_SALTLEN_MAX \<or> s1 = RSA_PSS_SALTLEN_AUTO then
                 (if mdsize \<le> 0 then Inl PROV_R_INVALID_DIGEST
                  else
                    (case rsa ctx of
                       None \<Rightarrow> Inl NULL_KEY_DEREFERENCE
                     | Some k \<Rightarrow>
                         (let rsasize = RSA_size k in
                          if rsasize \<le> 2 \<or> rsasize - 2 < mdsize then Inl PROV_R_INVALID_KEY
                          else
                            let s = rsasize - mdsize - 2;
                                s' = (if (RSA_bits k) AND 7 = 1 then s - 1 else s)
                            in Inr (if saltlenMax \<ge> 0 \<and> s' > saltlenMax
                                    then saltlenMax else s'))))
               else Inr s1)
        in
        (case r2 of
           Inl e \<Rightarrow> Inl e
         | Inr s2 \<Rightarrow>
             if s2 < 0 then Inl ERR_R_INTERNAL_ERROR
             else if s2 < min_saltlen ctx
               then Inl (PROV_R_PSS_SALTLEN_TOO_SMALL (min_saltlen ctx) s2)
             else Inr s2))"

subsection \<open>rsa\_check\_padding, rsa\_check\_parameters, rsa\_newctx\<close>

definition rsa_check_padding ::
  "ext \<Rightarrow> PROV_RSA_CTX \<Rightarrow> string option \<Rightarrow> string option \<Rightarrow> int \<Rightarrow> error + unit" where
  "rsa_check_padding x prsactx name mgf1_name nid =
     (if pad_mode prsactx = RSA_NO_PADDING then
        (if name = None \<and> nid = NID_undef then Inr ()
         else Inl PROV_R_INVALID_PADDING_MODE)
      else if pad_mode prsactx = RSA_X931_PADDING then
        (if RSA_X931_hash_id x nid = - 1 then Inl PROV_R_INVALID_X931_DIGEST else Inr ())
      else if pad_mode prsactx = RSA_PKCS1_PSS_PADDING then
        (if rsa_pss_restricted prsactx then
           (if (case name of None \<Rightarrow> False
                | Some n \<Rightarrow> \<not> EVP_MD_is_a x (md prsactx) n)
               \<or> (case mgf1_name of None \<Rightarrow> False
                   | Some n \<Rightarrow> \<not> EVP_MD_is_a x (mgf1_md prsactx) n)
            then Inl PROV_R_DIGEST_NOT_ALLOWED
            else Inr ())
         else Inr ())
      else Inr ())"

definition rsa_check_parameters ::
  "ext \<Rightarrow> PROV_RSA_CTX \<Rightarrow> int \<Rightarrow> (error + unit) \<times> PROV_RSA_CTX" where
  "rsa_check_parameters x prsactx min_saltlen_arg =
     (if pad_mode prsactx = RSA_PKCS1_PSS_PADDING then
        (case rsa prsactx of
           None \<Rightarrow> (Inl NULL_KEY_DEREFERENCE, prsactx)
         | Some k \<Rightarrow>
             (let m0 = RSA_size k - EVP_MD_get_size x (md prsactx);
                  max_saltlen = (if (RSA_bits k) AND 7 = 1 then m0 - 1 else m0)
              in if min_saltlen_arg < 0 \<or> min_saltlen_arg > max_saltlen
                 then (Inl PROV_R_INVALID_SALT_LENGTH, prsactx)
                 else (Inr (), prsactx\<lparr>min_saltlen := min_saltlen_arg\<rparr>)))
      else (Inr (), prsactx))"

text \<open>The context as \<^verbatim>\<open>OPENSSL_zalloc\<close> leaves it: every field zero.\<close>

definition PROV_RSA_CTX_zero :: PROV_RSA_CTX where
  "PROV_RSA_CTX_zero =
     \<lparr>propq = None, rsa = None, operation = EVP_PKEY_OP_UNDEFINED, flag_sigalg = False,
      flag_allow_md = False, mgf1_md_set = False, flag_allow_update = False,
      flag_allow_final = False, flag_allow_oneshot = False, md = None, mdctx = None,
      mdnid = 0, mdname = [], pad_mode = 0, mgf1_md = None, mgf1_mdnid = 0,
      mgf1_mdname = [], saltlen = 0, min_saltlen = 0, sig = None, siglen = 0, tbuf = None\<rparr>"

text \<open>
  \<^verbatim>\<open>rsa_newctx\<close>. The context structure and the copy of \<open>propq\<close> are not blocks of the
  heap modelled; each still costs one allocation, which can fail.
\<close>

definition rsa_newctx :: "ext \<Rightarrow> heap \<Rightarrow> string option \<Rightarrow> PROV_RSA_CTX option \<times> heap" where
  "rsa_newctx x h propq_arg =
     (if \<not> ossl_prov_is_running x then (None, h)
      else if mem_left h < (if propq_arg = None then 1 else 2) then (None, h)
      else (Some (PROV_RSA_CTX_zero\<lparr>flag_allow_md := True, propq := propq_arg,
                                     saltlen := RSA_PSS_SALTLEN_AUTO_DIGEST_MAX,
                                     min_saltlen := - 1\<rparr>),
            h\<lparr>mem_left := mem_left h - (if propq_arg = None then 1 else 2)\<rparr>))"

subsection \<open>rsa\_setup\_md, rsa\_setup\_mgf1\_md\<close>

text \<open>
  \<^verbatim>\<open>rsa_setup_md\<close>. Its \<^verbatim>\<open>desc\<close> argument is only read under
  \<^verbatim>\<open>FIPS_MODULE\<close>. The reference counts of digests are not modelled, so
  \<^verbatim>\<open>EVP_MD_free\<close> has no effect here; \<^verbatim>\<open>EVP_MD_up_ref\<close> can still fail.
\<close>

definition rsa_setup_md ::
  "ext \<Rightarrow> PROV_RSA_CTX \<Rightarrow> heap \<Rightarrow> string option \<Rightarrow> string option
     \<Rightarrow> (error + unit) \<times> PROV_RSA_CTX \<times> heap" where
  "rsa_setup_md x ctx h name mdprops_arg =
     (let mdprops = (case mdprops_arg of None \<Rightarrow> propq ctx | Some p \<Rightarrow> Some p) in
      case name of
        None \<Rightarrow> (Inr (), ctx, h)
      | Some n \<Rightarrow>
          (case EVP_MD_fetch x n mdprops of
             None \<Rightarrow> (Inl PROV_R_INVALID_DIGEST, ctx, h)
           | Some m \<Rightarrow>
               (let md_nid = ossl_digest_rsa_sign_get_md_nid x m in
                if md_nid = NID_undef then (Inl PROV_R_DIGEST_NOT_ALLOWED, ctx, h)
                else if EVP_MD_xof x m then (Inl PROV_R_XOF_DIGESTS_NOT_ALLOWED, ctx, h)
                else
                  (case rsa_check_padding x ctx (Some n) None md_nid of
                     Inl e \<Rightarrow> (Inl e, ctx, h)
                   | Inr u \<Rightarrow>
                       if length n \<ge> OSSL_MAX_NAME_SIZE then (Inl PROV_R_INVALID_DIGEST, ctx, h)
                       else if \<not> flag_allow_md ctx then
                         (if mdname ctx \<noteq> [] \<and> \<not> EVP_MD_is_a x (Some m) (mdname ctx)
                          then (Inl PROV_R_DIGEST_NOT_ALLOWED, ctx, h)
                          else (Inr (), ctx, h))
                       else if \<not> mgf1_md_set ctx \<and> \<not> EVP_MD_up_ref x m
                         then (Inl NO_REASON, ctx, h)
                       else
                         (let ctx1 =
                                (if \<not> mgf1_md_set ctx
                                 then ctx\<lparr>mgf1_md := Some m, mgf1_mdnid := md_nid,
                                          mgf1_mdname := OPENSSL_strlcpy n OSSL_MAX_NAME_SIZE\<rparr>
                                 else ctx);
                              h1 = EVP_MD_CTX_free h (mdctx ctx1)
                          in (Inr (),
                              ctx1\<lparr>mdctx := None, md := Some m, mdnid := md_nid,
                                   mdname := OPENSSL_strlcpy n OSSL_MAX_NAME_SIZE\<rparr>,
                              h1))))))"

text \<open>
  \<^verbatim>\<open>rsa_setup_mgf1_md\<close> copies the name into the context before it checks the
  name's length.
\<close>

definition rsa_setup_mgf1_md ::
  "ext \<Rightarrow> PROV_RSA_CTX \<Rightarrow> string \<Rightarrow> string option \<Rightarrow> (error + unit) \<times> PROV_RSA_CTX" where
  "rsa_setup_mgf1_md x ctx n mdprops_arg =
     (let mdprops = (case mdprops_arg of None \<Rightarrow> propq ctx | Some p \<Rightarrow> Some p) in
      case EVP_MD_fetch x n mdprops of
        None \<Rightarrow> (Inl PROV_R_INVALID_DIGEST, ctx)
      | Some m \<Rightarrow>
          (let nid = ossl_digest_rsa_sign_get_md_nid x m in
           if nid \<le> 0 then (Inl PROV_R_DIGEST_NOT_ALLOWED, ctx)
           else
             (case rsa_check_padding x ctx None (Some n) nid of
                Inl e \<Rightarrow> (Inl e, ctx)
              | Inr u \<Rightarrow>
                  (let ctx1 = ctx\<lparr>mgf1_mdname := OPENSSL_strlcpy n OSSL_MAX_NAME_SIZE\<rparr> in
                   if length n \<ge> OSSL_MAX_NAME_SIZE then (Inl PROV_R_INVALID_DIGEST, ctx1)
                   else (Inr (), ctx1\<lparr>mgf1_md := Some m, mgf1_mdnid := nid,
                                      mgf1_md_set := True\<rparr>)))))"

subsection \<open>rsa\_sigalg\_set\_ctx\_params, rsa\_verify\_set\_sig\<close>

text \<open>
  \<^verbatim>\<open>OSSL_PARAM_get_octet_string(p, &sig, 0, &siglen)\<close> with \<^verbatim>\<open>sig == NULL\<close>: it
  fails on a parameter of another type; otherwise it stores the length, then allocates a
  block (of one byte for empty data) and copies the data into it. It returns its success,
  the pointer and the length it left, and the heap. The data of an octet string parameter
  are the \<^verbatim>\<open>data_size\<close> bytes at its \<^verbatim>\<open>data\<close> pointer; a parameter whose \<^verbatim>\<open>data\<close>
  pointer is NULL, on which the function fails after storing the length, has no value in
  \<open>OSSL_PARAM\<close>. Accordingly the signature bytes passed to \<open>rsa_verify_set_sig\<close>,
  \<open>rsa_verify\<close> and \<open>rsa_digest_verify_final\<close> below stand for a signature pointer that
  is not NULL.
\<close>

definition OSSL_PARAM_get_octet_string ::
  "OSSL_PARAM \<Rightarrow> heap \<Rightarrow> bool \<times> addr option \<times> nat \<times> heap" where
  "OSSL_PARAM_get_octet_string p h =
     (case p of
        OSSL_PARAM_octet_string k d \<Rightarrow>
          (case OPENSSL_malloc h (if d = [] then [junk h] else d) of
             (None, h') \<Rightarrow> (False, None, length d, h')
           | (Some a, h') \<Rightarrow> (True, Some a, length d, h'))
      | OSSL_PARAM_utf8_string k d \<Rightarrow> (False, None, 0, h)
      | OSSL_PARAM_int k d \<Rightarrow> (False, None, 0, h))"

definition rsa_sigalg_set_ctx_params ::
  "PROV_RSA_CTX \<Rightarrow> heap \<Rightarrow> OSSL_PARAM list \<Rightarrow> (error + unit) \<times> PROV_RSA_CTX \<times> heap" where
  "rsa_sigalg_set_ctx_params prsactx h params =
     (if ossl_param_is_empty params then (Inr (), prsactx, h)
      else if operation prsactx = EVP_PKEY_OP_VERIFYMSG then
        (case OSSL_PARAM_locate_const params OSSL_SIGNATURE_PARAM_SIGNATURE of
           None \<Rightarrow> (Inr (), prsactx, h)
         | Some p \<Rightarrow>
             (let h1 = OPENSSL_free h (sig prsactx) in
              case OSSL_PARAM_get_octet_string p h1 of
                (ok, a, n, h2) \<Rightarrow>
                  if ok then (Inr (), prsactx\<lparr>sig := a, siglen := n\<rparr>, h2)
                  else (Inl NO_REASON, prsactx\<lparr>sig := None, siglen := n\<rparr>, h2)))
      else (Inr (), prsactx, h))"

definition rsa_verify_set_sig ::
  "PROV_RSA_CTX \<Rightarrow> heap \<Rightarrow> byte list \<Rightarrow> (error + unit) \<times> PROV_RSA_CTX \<times> heap" where
  "rsa_verify_set_sig prsactx h sig_bytes =
     rsa_sigalg_set_ctx_params prsactx h
       [OSSL_PARAM_octet_string OSSL_SIGNATURE_PARAM_SIGNATURE sig_bytes]"

subsection \<open>rsa\_signverify\_init\<close>

text \<open>
  \<^verbatim>\<open>rsa_signverify_init\<close>. \<open>vrsa\<close> is the key passed (\<open>None\<close> for NULL) and
  \<open>set_ctx_params\<close> the function pointer passed. The key the context ends with is
  \<open>vrsa\<close> when one is passed, the context's own otherwise; with neither the call fails
  with \<^verbatim>\<open>PROV_R_NO_KEY_SET\<close>. \<^verbatim>\<open>desc\<close> and \<^verbatim>\<open>protect\<close> are only read
  under \<^verbatim>\<open>FIPS_MODULE\<close>.
\<close>

definition rsa_signverify_init ::
  "ext \<Rightarrow> PROV_RSA_CTX \<Rightarrow> heap \<Rightarrow> RSA option
     \<Rightarrow> (PROV_RSA_CTX \<Rightarrow> heap \<Rightarrow> OSSL_PARAM list \<Rightarrow> (error + unit) \<times> PROV_RSA_CTX \<times> heap)
     \<Rightarrow> OSSL_PARAM list \<Rightarrow> pkey_op \<Rightarrow> (error + unit) \<times> PROV_RSA_CTX \<times> heap" where
  "rsa_signverify_init x prsactx h vrsa set_ctx_params params op =
     (if \<not> ossl_prov_is_running x then (Inl NO_REASON, prsactx, h)
      else
        (case (case vrsa of None \<Rightarrow> rsa prsactx | Some v \<Rightarrow> Some v) of
           None \<Rightarrow> (Inl PROV_R_NO_KEY_SET, prsactx, h)
         | Some k \<Rightarrow>
             (case (case vrsa of
                      None \<Rightarrow> Some h
                    | Some v \<Rightarrow> map_option (\<lambda>h'. RSA_free h' (rsa prsactx)) (RSA_up_ref x h v)) of
                None \<Rightarrow> (Inl NO_REASON, prsactx, h)
              | Some h1 \<Rightarrow>
                  (let c1 = prsactx\<lparr>rsa := Some k\<rparr> in
                   if \<not> ossl_rsa_key_op_get_protect x k op then (Inl NO_REASON, c1, h1)
                   else
                     (let c2 = c1\<lparr>operation := op, flag_allow_update := True,
                                   flag_allow_final := True, flag_allow_oneshot := True,
                                   saltlen := RSA_PSS_SALTLEN_AUTO_DIGEST_MAX,
                                   min_saltlen := - 1\<rparr>
                      in
                      if RSA_type_flags k = RSA_FLAG_TYPE_RSA then
                        set_ctx_params (c2\<lparr>pad_mode := RSA_PKCS1_PADDING\<rparr>) h1 params
                      else if RSA_type_flags k = RSA_FLAG_TYPE_RSASSAPSS then
                        (let c3 = c2\<lparr>pad_mode := RSA_PKCS1_PSS_PADDING\<rparr> in
                         if pss_unrestricted k then set_ctx_params c3 h1 params
                         else
                           (case ossl_rsa_oaeppss_nid2name x (pss_hashalg k) of
                              None \<Rightarrow> (Inl PROV_R_INVALID_DIGEST, c3, h1)
                            | Some name \<Rightarrow>
                                (case ossl_rsa_oaeppss_nid2name x (pss_maskgenhashalg k) of
                                   None \<Rightarrow> (Inl PROV_R_INVALID_DIGEST, c3, h1)
                                 | Some mgf1name \<Rightarrow>
                                     (let c4 = c3\<lparr>mdname :=
                                                    OPENSSL_strlcpy name OSSL_MAX_NAME_SIZE\<rparr> in
                                      if length name \<ge> OSSL_MAX_NAME_SIZE
                                        then (Inl PROV_R_INVALID_DIGEST, c4, h1)
                                      else
                                        (let c5 = c4\<lparr>mgf1_mdname :=
                                                  OPENSSL_strlcpy mgf1name OSSL_MAX_NAME_SIZE\<rparr> in
                                         if length mgf1name \<ge> OSSL_MAX_NAME_SIZE
                                           then (Inl PROV_R_INVALID_DIGEST, c5, h1)
                                         else
                                           (let c6 = c5\<lparr>saltlen := pss_saltlen k\<rparr> in
                                            case rsa_setup_mgf1_md x c6 mgf1name (propq c6) of
                                              (Inl e, c7) \<Rightarrow> (Inl e, c7, h1)
                                            | (Inr u, c7) \<Rightarrow>
                                                (case rsa_setup_md x c7 h1 (Some name) (propq c7) of
                                                   (Inl e, c8, h8) \<Rightarrow> (Inl e, c8, h8)
                                                 | (Inr u, c8, h8) \<Rightarrow>
                                                     (case rsa_check_parameters x c8 (pss_saltlen k) of
                                                        (Inl e, c9) \<Rightarrow> (Inl e, c9, h8)
                                                      | (Inr u, c9) \<Rightarrow>
                                                          set_ctx_params c9 h8 params))))))))
                      else (Inl PROV_R_OPERATION_NOT_SUPPORTED_FOR_THIS_KEYTYPE, c2, h1))))))"

subsection \<open>The temporary buffer: setup\_tbuf, clean\_tbuf, free\_tbuf\<close>

definition setup_tbuf :: "PROV_RSA_CTX \<Rightarrow> heap \<Rightarrow> (error + unit) \<times> PROV_RSA_CTX \<times> heap" where
  "setup_tbuf ctx h =
     (case tbuf ctx of
        Some a \<Rightarrow> (Inr (), ctx, h)
      | None \<Rightarrow>
          (case rsa ctx of
             None \<Rightarrow> (Inl NULL_KEY_DEREFERENCE, ctx, h)
           | Some k \<Rightarrow>
               (case OPENSSL_malloc h (replicate (size_t_of_int (RSA_size k)) (junk h)) of
                  (None, h') \<Rightarrow> (Inl NO_REASON, ctx, h')
                | (Some a, h') \<Rightarrow> (Inr (), ctx\<lparr>tbuf := Some a\<rparr>, h'))))"

text \<open>
  \<^verbatim>\<open>clean_tbuf\<close>: \<^verbatim>\<open>OPENSSL_cleanse(tbuf, RSA_size(rsa))\<close> writes that many zero
  bytes at the start of the block.
\<close>

definition clean_tbuf :: "PROV_RSA_CTX \<Rightarrow> heap \<Rightarrow> heap" where
  "clean_tbuf ctx h =
     (case tbuf ctx of
        None \<Rightarrow> h
      | Some a \<Rightarrow>
          (case rsa ctx of
             None \<Rightarrow> h\<lparr>heap_corrupt := True\<rparr>
           | Some k \<Rightarrow> write_buf h a (replicate (size_t_of_int (RSA_size k)) 0)))"

definition free_tbuf :: "PROV_RSA_CTX \<Rightarrow> heap \<Rightarrow> PROV_RSA_CTX \<times> heap" where
  "free_tbuf ctx h = (ctx\<lparr>tbuf := None\<rparr>, OPENSSL_free (clean_tbuf ctx h) (tbuf ctx))"

text \<open>The block \<open>tbuf\<close> points to, when it is allocated: its address and its bytes.\<close>

definition tbuf_bytes :: "PROV_RSA_CTX \<Rightarrow> heap \<Rightarrow> (addr \<times> byte list) option" where
  "tbuf_bytes ctx h =
     (case tbuf ctx of
        None \<Rightarrow> None
      | Some a \<Rightarrow> (case bufs h a of None \<Rightarrow> None | Some b \<Rightarrow> Some (a, b)))"

text \<open>
  The temporary buffer is zeroed: the context has one, it is allocated, and each of its
  first \<^verbatim>\<open>RSA_size\<close> bytes (all of them, if it has fewer) is 0.
\<close>

definition tbuf_zeroed :: "PROV_RSA_CTX \<Rightarrow> heap \<Rightarrow> bool" where
  "tbuf_zeroed ctx h =
     (case rsa ctx of
        None \<Rightarrow> False
      | Some k \<Rightarrow>
          (case tbuf_bytes ctx h of
             None \<Rightarrow> False
           | Some (a, b) \<Rightarrow>
               take (size_t_of_int (RSA_size k)) b
                 = replicate (min (size_t_of_int (RSA_size k)) (length b)) 0))"

subsection \<open>rsa\_sign\_directly\<close>

text \<open>
  The code after the label \<^verbatim>\<open>end:\<close> of \<^verbatim>\<open>rsa_sign_directly\<close>: \<open>ret\<close> is the
  value the variable holds there, \<open>out\<close> the bytes written to \<^verbatim>\<open>sig\<close>.
\<close>

definition rsa_sign_directly_end ::
  "int \<Rightarrow> byte list \<Rightarrow> PROV_RSA_CTX \<Rightarrow> heap \<Rightarrow> (error + nat \<times> byte list) \<times> PROV_RSA_CTX \<times> heap" where
  "rsa_sign_directly_end ret out ctx h =
     (if ret \<le> 0 then (Inl ERR_R_RSA_LIB, ctx, h) else (Inr (nat ret, out), ctx, h))"

text \<open>
  \<^verbatim>\<open>rsa_sign_directly\<close>. \<open>has_sig\<close> says whether \<^verbatim>\<open>sig\<close> is a buffer (of
  capacity \<open>sigsize\<close>) or NULL; \<open>tbs\<close> is the \<open>tbslen\<close> bytes at \<^verbatim>\<open>tbs\<close>. The
  result on success is \<^verbatim>\<open>*siglen\<close> with the bytes written to \<^verbatim>\<open>sig\<close>.
\<close>

definition rsa_sign_directly ::
  "ext \<Rightarrow> PROV_RSA_CTX \<Rightarrow> heap \<Rightarrow> bool \<Rightarrow> nat \<Rightarrow> byte list
     \<Rightarrow> (error + nat \<times> byte list) \<times> PROV_RSA_CTX \<times> heap" where
  "rsa_sign_directly x prsactx h has_sig sigsize tbs =
     (case rsa prsactx of
        None \<Rightarrow> (Inl NULL_KEY_DEREFERENCE, prsactx, h)
      | Some k \<Rightarrow>
          (let rsasize = size_t_of_int (RSA_size k);
               mdsize = nat (rsa_get_md_size x prsactx);
               tbslen = length tbs
           in
           if \<not> ossl_prov_is_running x then (Inl NO_REASON, prsactx, h)
           else if \<not> has_sig then (Inr (rsasize, []), prsactx, h)
           else if sigsize < rsasize then (Inl PROV_R_INVALID_SIGNATURE_SIZE, prsactx, h)
           else if mdsize \<noteq> 0 then
             (if tbslen \<noteq> mdsize then (Inl PROV_R_INVALID_DIGEST_LENGTH, prsactx, h)
              else if EVP_MD_is_a x (md prsactx) OSSL_DIGEST_NAME_MDC2 then
                (if pad_mode prsactx \<noteq> RSA_PKCS1_PADDING
                   then (Inl PROV_R_INVALID_PADDING_MODE, prsactx, h)
                 else
                   (case RSA_sign_ASN1_OCTET_STRING x tbs k of
                      (ret, sltmp, out) \<Rightarrow>
                        if ret \<le> 0 then (Inl ERR_R_RSA_LIB, prsactx, h)
                        else rsa_sign_directly_end (int sltmp) out prsactx h))
              else if pad_mode prsactx = RSA_X931_PADDING then
                (if rsasize < tbslen + 1 then (Inl PROV_R_KEY_SIZE_TOO_SMALL, prsactx, h)
                 else
                   (case setup_tbuf prsactx h of
                      (Inl e, c, h1) \<Rightarrow> (Inl ERR_R_PROV_LIB, c, h1)
                    | (Inr u, c, h1) \<Rightarrow>
                        (case tbuf_bytes c h1 of
                           None \<Rightarrow> (Inl INVALID_POINTER, c, h1)
                         | Some (a, b) \<Rightarrow>
                             (let h2 = write_buf h1 a
                                         (tbs @ [word_of_int (RSA_X931_hash_id x (mdnid c))])
                              in
                              case RSA_private_encrypt x (read_buf h2 a (tbslen + 1)) k
                                     RSA_X931_PADDING of
                                (ret, out) \<Rightarrow>
                                  rsa_sign_directly_end ret out c (clean_tbuf c h2)))))
              else if pad_mode prsactx = RSA_PKCS1_PADDING then
                (case RSA_sign x (mdnid prsactx) tbs k of
                   (ret, sltmp, out) \<Rightarrow>
                     if ret \<le> 0 then (Inl ERR_R_RSA_LIB, prsactx, h)
                     else rsa_sign_directly_end (int sltmp) out prsactx h)
              else if pad_mode prsactx = RSA_PKCS1_PSS_PADDING then
                (if rsa_pss_restricted prsactx
                    \<and> saltlen prsactx = RSA_PSS_SALTLEN_DIGEST
                    \<and> min_saltlen prsactx > EVP_MD_get_size x (md prsactx)
                 then (Inl (PROV_R_PSS_SALTLEN_TOO_SMALL (min_saltlen prsactx)
                              (EVP_MD_get_size x (md prsactx))), prsactx, h)
                 else if rsa_pss_restricted prsactx
                    \<and> saltlen prsactx \<ge> 0 \<and> saltlen prsactx < min_saltlen prsactx
                 then (Inl (PROV_R_PSS_SALTLEN_TOO_SMALL (min_saltlen prsactx)
                              (saltlen prsactx)), prsactx, h)
                 else
                   (case setup_tbuf prsactx h of
                      (Inl e, c, h1) \<Rightarrow> (Inl NO_REASON, c, h1)
                    | (Inr u, c, h1) \<Rightarrow>
                        (case tbuf_bytes c h1 of
                           None \<Rightarrow> (Inl INVALID_POINTER, c, h1)
                         | Some (a, b) \<Rightarrow>
                             (case ossl_rsa_padding_add_PKCS1_PSS_mgf1 x k tbs (md c)
                                     (mgf1_md c) (saltlen c) of
                                (ok, em, saltlen') \<Rightarrow>
                                  (let h2 = write_buf h1 a em in
                                   if \<not> ok then (Inl ERR_R_RSA_LIB, c, h2)
                                   else
                                     (case RSA_private_encrypt x (read_buf h2 a rsasize) k
                                             RSA_NO_PADDING of
                                        (ret, out) \<Rightarrow>
                                          rsa_sign_directly_end ret out c
                                            (clean_tbuf c h2)))))))
              else (Inl PROV_R_INVALID_PADDING_MODE, prsactx, h))
           else
             (case RSA_private_encrypt x tbs k (pad_mode prsactx) of
                (ret, out) \<Rightarrow> rsa_sign_directly_end ret out prsactx h)))"

subsection \<open>Message update and final, oneshot sign\<close>

definition rsa_signverify_message_update ::
  "ext \<Rightarrow> PROV_RSA_CTX \<Rightarrow> heap \<Rightarrow> byte list \<Rightarrow> (error + unit) \<times> PROV_RSA_CTX \<times> heap" where
  "rsa_signverify_message_update x prsactx h data =
     (case mdctx prsactx of
        None \<Rightarrow> (Inl NO_REASON, prsactx, h)
      | Some a \<Rightarrow>
          if \<not> flag_allow_update prsactx
            then (Inl PROV_R_UPDATE_CALL_OUT_OF_ORDER, prsactx, h)
          else
            (let c = prsactx\<lparr>flag_allow_oneshot := False\<rparr> in
             case md_ctxs h a of
               None \<Rightarrow> (Inl INVALID_POINTER, c, h)
             | Some st \<Rightarrow>
                 (case EVP_DigestUpdate x st data of
                    (ok, st') \<Rightarrow>
                      (if ok then Inr () else Inl NO_REASON, c,
                       h\<lparr>md_ctxs := (md_ctxs h)(a \<mapsto> st')\<rparr>))))"

definition rsa_sign_message_final ::
  "ext \<Rightarrow> PROV_RSA_CTX \<Rightarrow> heap \<Rightarrow> bool \<Rightarrow> nat
     \<Rightarrow> (error + nat \<times> byte list) \<times> PROV_RSA_CTX \<times> heap" where
  "rsa_sign_message_final x prsactx h has_sig sigsize =
     (if \<not> ossl_prov_is_running x then (Inl NO_REASON, prsactx, h)
      else
        (case mdctx prsactx of
           None \<Rightarrow> (Inl NO_REASON, prsactx, h)
         | Some a \<Rightarrow>
             if \<not> flag_allow_final prsactx
               then (Inl PROV_R_FINAL_CALL_OUT_OF_ORDER, prsactx, h)
             else if has_sig then
               (case md_ctxs h a of
                  None \<Rightarrow> (Inl INVALID_POINTER, prsactx, h)
                | Some st \<Rightarrow>
                    (case EVP_DigestFinal_ex x st of
                       (ok, st', digest) \<Rightarrow>
                         (let h1 = h\<lparr>md_ctxs := (md_ctxs h)(a \<mapsto> st')\<rparr> in
                          if \<not> ok then (Inl NO_REASON, prsactx, h1)
                          else
                            rsa_sign_directly x
                              (prsactx\<lparr>flag_allow_update := False,
                                       flag_allow_oneshot := False,
                                       flag_allow_final := False\<rparr>)
                              h1 True sigsize digest)))
             else rsa_sign_directly x prsactx h False sigsize []))"

definition rsa_sign ::
  "ext \<Rightarrow> PROV_RSA_CTX \<Rightarrow> heap \<Rightarrow> bool \<Rightarrow> nat \<Rightarrow> byte list
     \<Rightarrow> (error + nat \<times> byte list) \<times> PROV_RSA_CTX \<times> heap" where
  "rsa_sign x prsactx h has_sig sigsize tbs =
     (if \<not> ossl_prov_is_running x then (Inl NO_REASON, prsactx, h)
      else if \<not> flag_allow_oneshot prsactx
        then (Inl PROV_R_ONESHOT_CALL_OUT_OF_ORDER, prsactx, h)
      else if operation prsactx = EVP_PKEY_OP_SIGNMSG then
        (if \<not> has_sig then rsa_sign_message_final x prsactx h has_sig sigsize
         else
           (case rsa_signverify_message_update x prsactx h tbs of
              (Inl e, c, h1) \<Rightarrow> (Inl e, c, h1)
            | (Inr u, c, h1) \<Rightarrow> rsa_sign_message_final x c h1 has_sig sigsize))
      else rsa_sign_directly x prsactx h has_sig sigsize tbs)"

subsection \<open>rsa\_verify\_recover, rsa\_verify\_directly\<close>

text \<open>
  The output buffer of \<^verbatim>\<open>rsa_verify_recover\<close>: NULL, the context's own
  \<^verbatim>\<open>tbuf\<close> (as \<^verbatim>\<open>rsa_verify_directly\<close> passes it), or a buffer of the caller.
\<close>

datatype out_buf = OUT_NULL | OUT_TBUF | OUT_CALLER

text \<open>
  Bytes a primitive writes to \<^verbatim>\<open>rout\<close> land in the temporary buffer when
  \<^verbatim>\<open>rout\<close> is that buffer.
\<close>

definition write_rout :: "out_buf \<Rightarrow> PROV_RSA_CTX \<Rightarrow> heap \<Rightarrow> byte list \<Rightarrow> heap" where
  "write_rout rout ctx h out =
     (if rout = OUT_TBUF
      then (case tbuf ctx of None \<Rightarrow> h | Some a \<Rightarrow> write_buf h a out)
      else h)"

text \<open>
  \<^verbatim>\<open>rsa_verify_recover\<close>. The result on success is \<^verbatim>\<open>*routlen\<close> with the bytes
  left at \<^verbatim>\<open>rout\<close>. A \<^verbatim>\<open>rout\<close> that is the \<^verbatim>\<open>tbuf\<close> of a context without
  one is NULL.
\<close>

definition rsa_verify_recover ::
  "ext \<Rightarrow> PROV_RSA_CTX \<Rightarrow> heap \<Rightarrow> out_buf \<Rightarrow> nat \<Rightarrow> byte list
     \<Rightarrow> (error + nat \<times> byte list) \<times> PROV_RSA_CTX \<times> heap" where
  "rsa_verify_recover x prsactx h rout routsize sig_bytes =
     (if \<not> ossl_prov_is_running x then (Inl NO_REASON, prsactx, h)
      else
        (case rsa prsactx of
           None \<Rightarrow> (Inl NULL_KEY_DEREFERENCE, prsactx, h)
         | Some k \<Rightarrow>
             if rout = OUT_NULL \<or> (rout = OUT_TBUF \<and> tbuf prsactx = None)
               then (Inr (size_t_of_int (RSA_size k), []), prsactx, h)
             else if md prsactx \<noteq> None then
               (if pad_mode prsactx = RSA_X931_PADDING then
                  (case setup_tbuf prsactx h of
                     (Inl e, c, h1) \<Rightarrow> (Inl NO_REASON, c, h1)
                   | (Inr u, c, h1) \<Rightarrow>
                       (case tbuf_bytes c h1 of
                          None \<Rightarrow> (Inl INVALID_POINTER, c, h1)
                        | Some (a, b) \<Rightarrow>
                            (case RSA_public_decrypt x sig_bytes k RSA_X931_PADDING of
                               (ret0, out) \<Rightarrow>
                                 (let h2 = write_buf h1 a out in
                                  if ret0 < 1 then (Inl ERR_R_RSA_LIB, c, h2)
                                  else
                                    (let ret = ret0 - 1 in
                                     case buf_byte h2 a (nat ret) of
                                       None \<Rightarrow> (Inl INVALID_POINTER, c, h2)
                                     | Some t \<Rightarrow>
                                         if uint t \<noteq> RSA_X931_hash_id x (mdnid c)
                                           then (Inl PROV_R_ALGORITHM_MISMATCH, c, h2)
                                         else if ret \<noteq> EVP_MD_get_size x (md c)
                                           then (Inl PROV_R_INVALID_DIGEST_LENGTH, c, h2)
                                         else if rout \<noteq> OUT_TBUF \<and> routsize < nat ret
                                           then (Inl PROV_R_OUTPUT_BUFFER_TOO_SMALL, c, h2)
                                         else (Inr (nat ret, read_buf h2 a (nat ret)), c, h2))))))
                else if pad_mode prsactx = RSA_PKCS1_PADDING then
                  (case ossl_rsa_verify x (mdnid prsactx) sig_bytes k of
                     (ret, sltmp, out) \<Rightarrow>
                       (let h1 = write_rout rout prsactx h out in
                        if ret \<le> 0 then (Inl ERR_R_RSA_LIB, prsactx, h1)
                        else (Inr (sltmp, out), prsactx, h1)))
                else (Inl PROV_R_INVALID_PADDING_MODE, prsactx, h))
             else
               (case RSA_public_decrypt x sig_bytes k (pad_mode prsactx) of
                  (ret, out) \<Rightarrow>
                    (let h1 = write_rout rout prsactx h out in
                     if ret < 0 then (Inl ERR_R_RSA_LIB, prsactx, h1)
                     else (Inr (nat ret, out), prsactx, h1)))))"

text \<open>
  The last statement of \<^verbatim>\<open>rsa_verify_directly\<close>: the comparison of \<open>tbs\<close> with the
  \<open>rslen\<close> bytes recovered into the temporary buffer.
\<close>

definition rsa_verify_directly_compare ::
  "PROV_RSA_CTX \<Rightarrow> heap \<Rightarrow> nat \<Rightarrow> byte list \<Rightarrow> (error + unit) \<times> PROV_RSA_CTX \<times> heap" where
  "rsa_verify_directly_compare c h rslen tbs =
     (case tbuf_bytes c h of
        None \<Rightarrow> (Inl INVALID_POINTER, c, h)
      | Some (a, b) \<Rightarrow>
          if rslen = length tbs \<and> take rslen b = tbs then (Inr (), c, h)
          else (Inl NO_REASON, c, h))"

definition rsa_verify_directly ::
  "ext \<Rightarrow> PROV_RSA_CTX \<Rightarrow> heap \<Rightarrow> byte list \<Rightarrow> byte list
     \<Rightarrow> (error + unit) \<times> PROV_RSA_CTX \<times> heap" where
  "rsa_verify_directly x prsactx h sig_bytes tbs =
     (if \<not> ossl_prov_is_running x then (Inl NO_REASON, prsactx, h)
      else if md prsactx \<noteq> None then
        (if pad_mode prsactx = RSA_PKCS1_PADDING then
           (case rsa prsactx of
              None \<Rightarrow> (Inl NULL_KEY_DEREFERENCE, prsactx, h)
            | Some k \<Rightarrow>
                if \<not> RSA_verify x (mdnid prsactx) tbs sig_bytes k
                  then (Inl ERR_R_RSA_LIB, prsactx, h)
                else (Inr (), prsactx, h))
         else if pad_mode prsactx = RSA_X931_PADDING then
           (case setup_tbuf prsactx h of
              (Inl e, c, h1) \<Rightarrow> (Inl e, c, h1)
            | (Inr u, c, h1) \<Rightarrow>
                (case rsa_verify_recover x c h1 OUT_TBUF 0 sig_bytes of
                   (Inl e, c2, h2) \<Rightarrow> (Inl e, c2, h2)
                 | (Inr (rslen, out), c2, h2) \<Rightarrow>
                     rsa_verify_directly_compare c2 h2 rslen tbs))
         else if pad_mode prsactx = RSA_PKCS1_PSS_PADDING then
           (if length tbs \<noteq> nat (rsa_get_md_size x prsactx)
              then (Inl PROV_R_INVALID_DIGEST_LENGTH, prsactx, h)
            else
              (case setup_tbuf prsactx h of
                 (Inl e, c, h1) \<Rightarrow> (Inl e, c, h1)
               | (Inr u, c, h1) \<Rightarrow>
                   (case rsa c of
                      None \<Rightarrow> (Inl NULL_KEY_DEREFERENCE, c, h1)
                    | Some k \<Rightarrow>
                        (case tbuf_bytes c h1 of
                           None \<Rightarrow> (Inl INVALID_POINTER, c, h1)
                         | Some (a, b) \<Rightarrow>
                             (case RSA_public_decrypt x sig_bytes k RSA_NO_PADDING of
                                (ret, out) \<Rightarrow>
                                  (let h2 = write_buf h1 a out in
                                   if ret \<le> 0 then (Inl ERR_R_RSA_LIB, c, h2)
                                   else
                                     (case ossl_rsa_verify_PKCS1_PSS_mgf1 x k tbs (md c)
                                             (mgf1_md c)
                                             (read_buf h2 a (size_t_of_int (RSA_size k)))
                                             (saltlen c) of
                                        (ret2, saltlen') \<Rightarrow>
                                          if ret2 \<le> 0 then (Inl ERR_R_RSA_LIB, c, h2)
                                          else (Inr (), c, h2))))))))
         else (Inl PROV_R_INVALID_PADDING_MODE, prsactx, h))
      else
        (case setup_tbuf prsactx h of
           (Inl e, c, h1) \<Rightarrow> (Inl e, c, h1)
         | (Inr u, c, h1) \<Rightarrow>
             (case rsa c of
                None \<Rightarrow> (Inl NULL_KEY_DEREFERENCE, c, h1)
              | Some k \<Rightarrow>
                  (case tbuf_bytes c h1 of
                     None \<Rightarrow> (Inl INVALID_POINTER, c, h1)
                   | Some (a, b) \<Rightarrow>
                       (case RSA_public_decrypt x sig_bytes k (pad_mode c) of
                          (ret, out) \<Rightarrow>
                            (let h2 = write_buf h1 a out in
                             if ret \<le> 0 then (Inl ERR_R_RSA_LIB, c, h2)
                             else rsa_verify_directly_compare c h2 (nat ret) tbs))))))"

subsection \<open>rsa\_verify\_message\_final, oneshot verify\<close>

text \<open>
  The \<^verbatim>\<open>siglen\<close> bytes at \<^verbatim>\<open>sig\<close>; \<open>None\<close> when they cannot be read (the block
  is not allocated, or the pointer is NULL with a length that is not 0).
\<close>

definition staged_sig :: "PROV_RSA_CTX \<Rightarrow> heap \<Rightarrow> byte list option" where
  "staged_sig ctx h =
     (case sig ctx of
        None \<Rightarrow> if siglen ctx = 0 then Some [] else None
      | Some a \<Rightarrow> (case bufs h a of None \<Rightarrow> None | Some b \<Rightarrow> Some (take (siglen ctx) b)))"

definition rsa_verify_message_final ::
  "ext \<Rightarrow> PROV_RSA_CTX \<Rightarrow> heap \<Rightarrow> (error + unit) \<times> PROV_RSA_CTX \<times> heap" where
  "rsa_verify_message_final x prsactx h =
     (if \<not> ossl_prov_is_running x then (Inl NO_REASON, prsactx, h)
      else
        (case mdctx prsactx of
           None \<Rightarrow> (Inl NO_REASON, prsactx, h)
         | Some a \<Rightarrow>
             if \<not> flag_allow_final prsactx
               then (Inl PROV_R_FINAL_CALL_OUT_OF_ORDER, prsactx, h)
             else
               (case md_ctxs h a of
                  None \<Rightarrow> (Inl INVALID_POINTER, prsactx, h)
                | Some st \<Rightarrow>
                    (case EVP_DigestFinal_ex x st of
                       (ok, st', digest) \<Rightarrow>
                         (let h1 = h\<lparr>md_ctxs := (md_ctxs h)(a \<mapsto> st')\<rparr> in
                          if \<not> ok then (Inl NO_REASON, prsactx, h1)
                          else
                            (let c = prsactx\<lparr>flag_allow_update := False,
                                            flag_allow_final := False,
                                            flag_allow_oneshot := False\<rparr>
                             in
                             case staged_sig c h1 of
                               None \<Rightarrow> (Inl INVALID_POINTER, c, h1)
                             | Some s \<Rightarrow> rsa_verify_directly x c h1 s digest))))))"

definition rsa_verify ::
  "ext \<Rightarrow> PROV_RSA_CTX \<Rightarrow> heap \<Rightarrow> byte list \<Rightarrow> byte list
     \<Rightarrow> (error + unit) \<times> PROV_RSA_CTX \<times> heap" where
  "rsa_verify x prsactx h sig_bytes tbs =
     (if \<not> ossl_prov_is_running x then (Inl NO_REASON, prsactx, h)
      else if \<not> flag_allow_oneshot prsactx
        then (Inl PROV_R_ONESHOT_CALL_OUT_OF_ORDER, prsactx, h)
      else if operation prsactx = EVP_PKEY_OP_VERIFYMSG then
        (case rsa_verify_set_sig prsactx h sig_bytes of
           (Inl e, c, h1) \<Rightarrow> (Inl e, c, h1)
         | (Inr u, c, h1) \<Rightarrow>
             (case rsa_signverify_message_update x c h1 tbs of
                (Inl e, c2, h2) \<Rightarrow> (Inl e, c2, h2)
              | (Inr u, c2, h2) \<Rightarrow> rsa_verify_message_final x c2 h2))
      else rsa_verify_directly x prsactx h sig_bytes tbs)"

subsection \<open>The DigestSign and DigestVerify wrappers\<close>

text \<open>
  \<^verbatim>\<open>OPENSSL_strcasecmp\<close> compares two strings without regard to the case of ASCII
  letters. It returns 0 when they are equal and a value that is not 0 otherwise, of which
  the callers here use no more than that.
\<close>

definition ascii_tolower :: "char \<Rightarrow> char" where
  "ascii_tolower c =
     (if 65 \<le> (of_char c :: nat) \<and> (of_char c :: nat) \<le> 90
      then char_of ((of_char c :: nat) + 32) else c)"

definition OPENSSL_strcasecmp :: "string \<Rightarrow> string \<Rightarrow> int" where
  "OPENSSL_strcasecmp a b = (if map ascii_tolower a = map ascii_tolower b then 0 else 1)"

text \<open>
  \<^verbatim>\<open>rsa_digest_signverify_init\<close> and the two inits that call it. \<open>mdname_arg\<close> is the
  digest name passed, \<open>None\<close> for NULL. The source passes \<^verbatim>\<open>rsa_set_ctx_params\<close> to
  \<^verbatim>\<open>rsa_signverify_init\<close>; that function is not modelled here, so the parameter
  callback is an argument of the three functions, as it is of \<open>rsa_signverify_init\<close>.
\<close>

definition rsa_digest_signverify_init ::
  "ext \<Rightarrow> PROV_RSA_CTX \<Rightarrow> heap \<Rightarrow> string option \<Rightarrow> RSA option
     \<Rightarrow> (PROV_RSA_CTX \<Rightarrow> heap \<Rightarrow> OSSL_PARAM list \<Rightarrow> (error + unit) \<times> PROV_RSA_CTX \<times> heap)
     \<Rightarrow> OSSL_PARAM list \<Rightarrow> pkey_op \<Rightarrow> (error + unit) \<times> PROV_RSA_CTX \<times> heap" where
  "rsa_digest_signverify_init x prsactx h mdname_arg vrsa set_ctx_params params op =
     (case rsa_signverify_init x prsactx h vrsa set_ctx_params params op of
        (Inl e, c, h1) \<Rightarrow> (Inl e, c, h1)
      | (Inr u, c1, h1) \<Rightarrow>
          (case (case mdname_arg of
                   None \<Rightarrow> (Inr (), c1, h1)
                 | Some n \<Rightarrow>
                     if n = [] \<or> OPENSSL_strcasecmp (mdname c1) n \<noteq> 0
                       then rsa_setup_md x c1 h1 (Some n) (propq c1)
                     else (Inr (), c1, h1)) of
             (Inl e, c, h2) \<Rightarrow> (Inl e, c, h2)
           | (Inr u, c2, h2) \<Rightarrow>
               (let c3 = c2\<lparr>flag_allow_md := False\<rparr> in
                case (case mdctx c3 of
                        None \<Rightarrow> EVP_MD_CTX_new h2
                      | Some a \<Rightarrow> (Some a, h2)) of
                  (None, h3) \<Rightarrow> (Inl NO_REASON, c3\<lparr>mdctx := None\<rparr>, h3)
                | (Some a, h3) \<Rightarrow>
                    (case md_ctxs h3 a of
                       None \<Rightarrow> (Inl INVALID_POINTER, c3\<lparr>mdctx := Some a\<rparr>, h3)
                     | Some st \<Rightarrow>
                         (case EVP_DigestInit_ex2 x st (md c3) params of
                            (ok, st') \<Rightarrow>
                              if ok
                              then (Inr (), c3\<lparr>mdctx := Some a\<rparr>,
                                    h3\<lparr>md_ctxs := (md_ctxs h3)(a \<mapsto> st')\<rparr>)
                              else (Inl NO_REASON, c3\<lparr>mdctx := None\<rparr>,
                                    EVP_MD_CTX_free
                                      (h3\<lparr>md_ctxs := (md_ctxs h3)(a \<mapsto> st')\<rparr>)
                                      (Some a)))))))"

definition rsa_digest_sign_init ::
  "ext \<Rightarrow> PROV_RSA_CTX \<Rightarrow> heap \<Rightarrow> string option \<Rightarrow> RSA option
     \<Rightarrow> (PROV_RSA_CTX \<Rightarrow> heap \<Rightarrow> OSSL_PARAM list \<Rightarrow> (error + unit) \<times> PROV_RSA_CTX \<times> heap)
     \<Rightarrow> OSSL_PARAM list \<Rightarrow> (error + unit) \<times> PROV_RSA_CTX \<times> heap" where
  "rsa_digest_sign_init x prsactx h mdname_arg vrsa set_ctx_params params =
     (if \<not> ossl_prov_is_running x then (Inl NO_REASON, prsactx, h)
      else rsa_digest_signverify_init x prsactx h mdname_arg vrsa set_ctx_params params
             EVP_PKEY_OP_SIGNMSG)"

definition rsa_digest_verify_init ::
  "ext \<Rightarrow> PROV_RSA_CTX \<Rightarrow> heap \<Rightarrow> string option \<Rightarrow> RSA option
     \<Rightarrow> (PROV_RSA_CTX \<Rightarrow> heap \<Rightarrow> OSSL_PARAM list \<Rightarrow> (error + unit) \<times> PROV_RSA_CTX \<times> heap)
     \<Rightarrow> OSSL_PARAM list \<Rightarrow> (error + unit) \<times> PROV_RSA_CTX \<times> heap" where
  "rsa_digest_verify_init x prsactx h mdname_arg vrsa set_ctx_params params =
     (if \<not> ossl_prov_is_running x then (Inl NO_REASON, prsactx, h)
      else rsa_digest_signverify_init x prsactx h mdname_arg vrsa set_ctx_params params
             EVP_PKEY_OP_VERIFYMSG)"

text \<open>
  The update and final entries of the dispatch table \<^verbatim>\<open>ossl_rsa_signature_functions\<close>:
  \<^verbatim>\<open>rsa_digest_sign_update\<close>, \<^verbatim>\<open>rsa_digest_sign_final\<close>,
  \<^verbatim>\<open>rsa_digest_verify_update\<close> and \<^verbatim>\<open>rsa_digest_verify_final\<close>. Each returns 0,
  raising no error, on the context of a fixed signature algorithm (\<^verbatim>\<open>flag_sigalg\<close>).
  The two finals set \<^verbatim>\<open>flag_allow_md\<close> after the inner call, whatever it returned, and
  \<^verbatim>\<open>rsa_digest_verify_final\<close> stages the signature it is passed before the inner final
  makes its checks.
\<close>

definition rsa_digest_sign_update ::
  "ext \<Rightarrow> PROV_RSA_CTX \<Rightarrow> heap \<Rightarrow> byte list \<Rightarrow> (error + unit) \<times> PROV_RSA_CTX \<times> heap" where
  "rsa_digest_sign_update x prsactx h data =
     (if flag_sigalg prsactx then (Inl NO_REASON, prsactx, h)
      else rsa_signverify_message_update x prsactx h data)"

definition rsa_digest_sign_final ::
  "ext \<Rightarrow> PROV_RSA_CTX \<Rightarrow> heap \<Rightarrow> bool \<Rightarrow> nat
     \<Rightarrow> (error + nat \<times> byte list) \<times> PROV_RSA_CTX \<times> heap" where
  "rsa_digest_sign_final x prsactx h has_sig sigsize =
     (if flag_sigalg prsactx then (Inl NO_REASON, prsactx, h)
      else
        (case rsa_sign_message_final x prsactx h has_sig sigsize of
           (r, c, h1) \<Rightarrow> (r, c\<lparr>flag_allow_md := True\<rparr>, h1)))"

definition rsa_digest_verify_update ::
  "ext \<Rightarrow> PROV_RSA_CTX \<Rightarrow> heap \<Rightarrow> byte list \<Rightarrow> (error + unit) \<times> PROV_RSA_CTX \<times> heap" where
  "rsa_digest_verify_update x prsactx h data =
     (if flag_sigalg prsactx then (Inl NO_REASON, prsactx, h)
      else rsa_signverify_message_update x prsactx h data)"

definition rsa_digest_verify_final ::
  "ext \<Rightarrow> PROV_RSA_CTX \<Rightarrow> heap \<Rightarrow> byte list \<Rightarrow> (error + unit) \<times> PROV_RSA_CTX \<times> heap" where
  "rsa_digest_verify_final x prsactx h sig_bytes =
     (if flag_sigalg prsactx then (Inl NO_REASON, prsactx, h)
      else
        (case rsa_verify_set_sig prsactx h sig_bytes of
           (Inl e, c, h1) \<Rightarrow> (Inl e, c\<lparr>flag_allow_md := True\<rparr>, h1)
         | (Inr u, c, h1) \<Rightarrow>
             (case rsa_verify_message_final x c h1 of
                (r, c2, h2) \<Rightarrow> (r, c2\<lparr>flag_allow_md := True\<rparr>, h2))))"

subsection \<open>rsa\_freectx, rsa\_dupctx\<close>

text \<open>
  \<^verbatim>\<open>rsa_freectx\<close> releases, in this order, the digest engine, the staged signature,
  the temporary buffer and the key reference. It returns the heap it leaves.
\<close>

definition rsa_freectx :: "PROV_RSA_CTX \<Rightarrow> heap \<Rightarrow> heap" where
  "rsa_freectx prsactx h =
     (let h1 = EVP_MD_CTX_free h (mdctx prsactx);
          h2 = OPENSSL_free h1 (sig prsactx);
          h3 = snd (free_tbuf prsactx h2)
      in RSA_free h3 (rsa prsactx))"

text \<open>
  \<^verbatim>\<open>rsa_dupctx\<close>. The structure assignment \<^verbatim>\<open>*dstctx = *srcctx\<close> copies every
  field; the six assignments after it reset \<^verbatim>\<open>rsa\<close>, \<^verbatim>\<open>md\<close>,
  \<^verbatim>\<open>mgf1_md\<close>, \<^verbatim>\<open>mdctx\<close>, \<^verbatim>\<open>tbuf\<close> and \<^verbatim>\<open>propq\<close>. Each later
  failure goes to \<^verbatim>\<open>err\<close>, which frees the copy as it stands. The result is the
  copy (\<open>None\<close> for NULL) and the heap.
\<close>

definition rsa_dupctx :: "ext \<Rightarrow> PROV_RSA_CTX \<Rightarrow> heap \<Rightarrow> PROV_RSA_CTX option \<times> heap" where
  "rsa_dupctx x srcctx h =
     (if \<not> ossl_prov_is_running x then (None, h)
      else if mem_left h = 0 then (None, h)
      else
        (let h0 = h\<lparr>mem_left := mem_left h - 1\<rparr>;
             d0 = srcctx\<lparr>rsa := None, md := None, mgf1_md := None, mdctx := None,
                        tbuf := None, propq := None\<rparr>
         in
         case (case rsa srcctx of None \<Rightarrow> Some h0 | Some k \<Rightarrow> RSA_up_ref x h0 k) of
           None \<Rightarrow> (None, rsa_freectx d0 h0)
         | Some h1 \<Rightarrow>
             (let d1 = d0\<lparr>rsa := rsa srcctx\<rparr> in
              if (case md srcctx of None \<Rightarrow> False | Some m \<Rightarrow> \<not> EVP_MD_up_ref x m)
                then (None, rsa_freectx d1 h1)
              else
                (let d2 = d1\<lparr>md := md srcctx\<rparr> in
                 if (case mgf1_md srcctx of None \<Rightarrow> False | Some m \<Rightarrow> \<not> EVP_MD_up_ref x m)
                   then (None, rsa_freectx d2 h1)
                 else
                   (let d3 = d2\<lparr>mgf1_md := mgf1_md srcctx\<rparr> in
                    case (case mdctx srcctx of
                            None \<Rightarrow> (True, d3, h1)
                          | Some s \<Rightarrow>
                              (case EVP_MD_CTX_new h1 of
                                 (None, h2) \<Rightarrow> (False, d3, h2)
                               | (Some a, h2) \<Rightarrow>
                                   (case md_ctxs h2 s of
                                      None \<Rightarrow>
                                        (False, d3\<lparr>mdctx := Some a\<rparr>,
                                         h2\<lparr>heap_corrupt := True\<rparr>)
                                    | Some st \<Rightarrow>
                                        (case EVP_MD_CTX_copy_ex x st of
                                           (ok, st') \<Rightarrow>
                                             (ok, d3\<lparr>mdctx := Some a\<rparr>,
                                              h2\<lparr>md_ctxs := (md_ctxs h2)(a \<mapsto> st')\<rparr>))))) of
                      (ok, d4, h3) \<Rightarrow>
                        if \<not> ok then (None, rsa_freectx d4 h3)
                        else if propq srcctx \<noteq> None \<and> mem_left h3 = 0
                          then (None, rsa_freectx d4 h3)
                        else
                          (Some (d4\<lparr>propq := propq srcctx\<rparr>),
                           h3\<lparr>mem_left := mem_left h3
                                 - (if propq srcctx = None then 0 else 1)\<rparr>))))))"

subsection \<open>The fixed signature algorithms: rsa\_sigalg\_signverify\_init\<close>

definition rsa_sigalg_signverify_init ::
  "ext \<Rightarrow> PROV_RSA_CTX \<Rightarrow> heap \<Rightarrow> RSA option
     \<Rightarrow> (PROV_RSA_CTX \<Rightarrow> heap \<Rightarrow> OSSL_PARAM list \<Rightarrow> (error + unit) \<times> PROV_RSA_CTX \<times> heap)
     \<Rightarrow> OSSL_PARAM list \<Rightarrow> string \<Rightarrow> pkey_op \<Rightarrow> int
     \<Rightarrow> (error + unit) \<times> PROV_RSA_CTX \<times> heap" where
  "rsa_sigalg_signverify_init x prsactx h vrsa set_ctx_params params name op pad =
     (if \<not> ossl_prov_is_running x then (Inl NO_REASON, prsactx, h)
      else
        (case rsa_signverify_init x prsactx h vrsa set_ctx_params params op of
           (Inl e, c, h1) \<Rightarrow> (Inl e, c, h1)
         | (Inr u, c1, h1) \<Rightarrow>
             if pad_mode c1 = RSA_PKCS1_PSS_PADDING
               then (Inl PROV_R_OPERATION_NOT_SUPPORTED_FOR_THIS_KEYTYPE, c1, h1)
             else
               (case rsa_setup_md x c1 h1 (Some name) None of
                  (Inl e, c, h2) \<Rightarrow> (Inl e, c, h2)
                | (Inr u, c2, h2) \<Rightarrow>
                    (let c3 = c2\<lparr>pad_mode := pad, flag_sigalg := True,
                                  flag_allow_md := False\<rparr>
                     in
                     case (case mdctx c3 of
                             None \<Rightarrow> EVP_MD_CTX_new h2
                           | Some a \<Rightarrow> (Some a, h2)) of
                       (None, h3) \<Rightarrow> (Inl NO_REASON, c3\<lparr>mdctx := None\<rparr>, h3)
                     | (Some a, h3) \<Rightarrow>
                         (case md_ctxs h3 a of
                            None \<Rightarrow> (Inl INVALID_POINTER, c3\<lparr>mdctx := Some a\<rparr>, h3)
                          | Some st \<Rightarrow>
                              (case EVP_DigestInit_ex2 x st (md c3) params of
                                 (ok, st') \<Rightarrow>
                                   if ok
                                   then (Inr (), c3\<lparr>mdctx := Some a\<rparr>,
                                         h3\<lparr>md_ctxs := (md_ctxs h3)(a \<mapsto> st')\<rparr>)
                                   else (Inl NO_REASON, c3\<lparr>mdctx := None\<rparr>,
                                         EVP_MD_CTX_free
                                           (h3\<lparr>md_ctxs := (md_ctxs h3)(a \<mapsto> st')\<rparr>)
                                           (Some a))))))))"

text \<open>
  The macro \<^verbatim>\<open>IMPL_RSA_SIGALG(md, MD)\<close> defines, for the digest name \<open>MD\<close>, five init
  functions that differ in the operation only: \<^verbatim>\<open>rsa_md_sign_init\<close>,
  \<^verbatim>\<open>rsa_md_sign_message_init\<close>, \<^verbatim>\<open>rsa_md_verify_init\<close>,
  \<^verbatim>\<open>rsa_md_verify_recover_init\<close> and \<^verbatim>\<open>rsa_md_verify_message_init\<close>.
  \<open>IMPL_RSA_SIGALG_init MD op\<close> is the one for operation \<open>op\<close>; \<open>IMPL_RSA_SIGALG_names\<close>
  lists the digest names the file instantiates the macro with.
\<close>

definition IMPL_RSA_SIGALG_init ::
  "string \<Rightarrow> pkey_op \<Rightarrow> ext \<Rightarrow> PROV_RSA_CTX \<Rightarrow> heap \<Rightarrow> RSA option \<Rightarrow> OSSL_PARAM list
     \<Rightarrow> (error + unit) \<times> PROV_RSA_CTX \<times> heap" where
  "IMPL_RSA_SIGALG_init MD op x prsactx h vrsa params =
     rsa_sigalg_signverify_init x prsactx h vrsa rsa_sigalg_set_ctx_params params MD op
       RSA_PKCS1_PADDING"

definition IMPL_RSA_SIGALG_names :: "string list" where
  "IMPL_RSA_SIGALG_names =
     [''RIPEMD160'', ''SHA1'', ''SHA2-224'', ''SHA2-256'', ''SHA2-384'', ''SHA2-512'',
      ''SHA2-512/224'', ''SHA2-512/256'', ''SHA3-224'', ''SHA3-256'', ''SHA3-384'',
      ''SHA3-512'', ''SM3'']"

subsection \<open>Call sequences on one context\<close>

definition is_out_of_order :: "error \<Rightarrow> bool" where
  "is_out_of_order e =
     (e = PROV_R_UPDATE_CALL_OUT_OF_ORDER \<or> e = PROV_R_FINAL_CALL_OUT_OF_ORDER
      \<or> e = PROV_R_ONESHOT_CALL_OUT_OF_ORDER)"

text \<open>
  The three flags that order the calls are consistent when a oneshot is only allowed
  while update and final are. \<^verbatim>\<open>rsa_newctx\<close> and every successful init leave them so
  and no call changes that (see the section on the life-cycle flags below).
\<close>

definition lifecycle_ok :: "PROV_RSA_CTX \<Rightarrow> bool" where
  "lifecycle_ok c = (flag_allow_oneshot c \<longrightarrow> flag_allow_update c \<and> flag_allow_final c)"

text \<open>
  The calls of the dispatch tables that work on a context after its init and are not an
  init themselves (those of the fixed signature algorithms and the DigestSign and
  DigestVerify wrappers), with their arguments; \<open>do_call\<close> makes one call and keeps the context
  and heap it leaves, \<open>do_calls\<close> makes a list of calls in order.
\<close>

datatype call =
    CALL_message_update "byte list"
  | CALL_sign_message_final bool nat
  | CALL_verify_message_final
  | CALL_sign bool nat "byte list"
  | CALL_verify "byte list" "byte list"
  | CALL_verify_recover bool nat "byte list"
  | CALL_sigalg_set_ctx_params "OSSL_PARAM list"
  | CALL_digest_sign_update "byte list"
  | CALL_digest_sign_final bool nat
  | CALL_digest_verify_update "byte list"
  | CALL_digest_verify_final "byte list"

fun do_call :: "ext \<Rightarrow> PROV_RSA_CTX \<times> heap \<Rightarrow> call \<Rightarrow> PROV_RSA_CTX \<times> heap" where
  "do_call x (c, h) (CALL_message_update d) = snd (rsa_signverify_message_update x c h d)"
| "do_call x (c, h) (CALL_sign_message_final has_sig n) =
     snd (rsa_sign_message_final x c h has_sig n)"
| "do_call x (c, h) CALL_verify_message_final = snd (rsa_verify_message_final x c h)"
| "do_call x (c, h) (CALL_sign has_sig n tbs) = snd (rsa_sign x c h has_sig n tbs)"
| "do_call x (c, h) (CALL_verify s tbs) = snd (rsa_verify x c h s tbs)"
| "do_call x (c, h) (CALL_verify_recover has_rout n s) =
     snd (rsa_verify_recover x c h (if has_rout then OUT_CALLER else OUT_NULL) n s)"
| "do_call x (c, h) (CALL_sigalg_set_ctx_params ps) = snd (rsa_sigalg_set_ctx_params c h ps)"
| "do_call x (c, h) (CALL_digest_sign_update d) = snd (rsa_digest_sign_update x c h d)"
| "do_call x (c, h) (CALL_digest_sign_final has_sig n) =
     snd (rsa_digest_sign_final x c h has_sig n)"
| "do_call x (c, h) (CALL_digest_verify_update d) = snd (rsa_digest_verify_update x c h d)"
| "do_call x (c, h) (CALL_digest_verify_final s) = snd (rsa_digest_verify_final x c h s)"

definition do_calls :: "ext \<Rightarrow> PROV_RSA_CTX \<times> heap \<Rightarrow> call list \<Rightarrow> PROV_RSA_CTX \<times> heap" where
  "do_calls x s cs = foldl (do_call x) s cs"

section \<open>Test fixtures\<close>

text \<open>
  A small world to run the functions in: three digests, an engine whose state is a tag
  byte for the digest followed by the message absorbed so far, and RSA primitives that
  copy their input. The theorems below hold for every \<open>ext\<close>; this one serves the
  concrete evaluations.
\<close>

definition test_digest_size :: "EVP_MD option \<Rightarrow> int" where
  "test_digest_size m =
     (if m = Some (MD_HANDLE 256) then 32
      else if m = Some (MD_HANDLE 160) then 20
      else if m = Some (MD_HANDLE 999) then 32
      else - 1)"

definition test_digest_final :: "EVP_MD_CTX \<Rightarrow> bool \<times> EVP_MD_CTX \<times> byte list" where
  "test_digest_final st =
     (case st of
        [] \<Rightarrow> (False, [], [])
      | t # msg \<Rightarrow> (True, st, replicate (if t = 1 then 32 else 20) (sum_list msg)))"

definition test_ext :: ext where
  "test_ext =
     \<lparr>ossl_prov_is_running = True,
      EVP_MD_fetch =
        (\<lambda>n p. if n = ''SHA2-256'' then Some (MD_HANDLE 256)
               else if n = ''SHA1'' then Some (MD_HANDLE 160)
               else if n = ''SHAKE-256'' then Some (MD_HANDLE 999)
               else None),
      EVP_MD_get_size = test_digest_size,
      EVP_MD_xof = (\<lambda>m. m = MD_HANDLE 999),
      EVP_MD_is_a =
        (\<lambda>m n. (m = Some (MD_HANDLE 256) \<and> n = ''SHA2-256'')
               \<or> (m = Some (MD_HANDLE 160) \<and> n = ''SHA1'')
               \<or> (m = Some (MD_HANDLE 999) \<and> n = ''SHAKE-256'')),
      EVP_MD_up_ref = (\<lambda>m. True),
      ossl_digest_rsa_sign_get_md_nid =
        (\<lambda>m. if m = MD_HANDLE 256 then 672 else if m = MD_HANDLE 160 then 64 else 0),
      RSA_X931_hash_id = (\<lambda>nid. if nid = 64 then 51 else if nid = 672 then 52 else - 1),
      ossl_rsa_oaeppss_nid2name =
        (\<lambda>nid. if nid = 672 then Some ''SHA2-256''
                else if nid = 64 then Some ''SHA1'' else None),
      ossl_rsa_key_op_get_protect = (\<lambda>k op. True),
      RSA_up_ref_ok = (\<lambda>k. True),
      EVP_DigestInit_ex2 =
        (\<lambda>st m ps. if m = Some (MD_HANDLE 256) then (True, [1])
                    else if m = Some (MD_HANDLE 160) then (True, [2])
                    else (False, st)),
      EVP_DigestUpdate = (\<lambda>st d. (True, st @ d)),
      EVP_DigestFinal_ex = test_digest_final,
      EVP_MD_CTX_copy_ex = (\<lambda>st. (True, st)),
      RSA_private_encrypt = (\<lambda>d k pad. (int (length d), d)),
      RSA_public_decrypt = (\<lambda>s k pad. (int (length s), s)),
      RSA_sign = (\<lambda>nid d k. (1, length d, d)),
      RSA_sign_ASN1_OCTET_STRING = (\<lambda>d k. (1, length d, d)),
      RSA_verify = (\<lambda>nid d s k. s = d),
      ossl_rsa_verify = (\<lambda>nid s k. (1, length s, s)),
      ossl_rsa_padding_add_PKCS1_PSS_mgf1 = (\<lambda>k d m g sl. (True, d, sl)),
      ossl_rsa_verify_PKCS1_PSS_mgf1 = (\<lambda>k d m g em sl. (if take (length d) em = d then 1 else 0, sl))\<rparr>"

text \<open>A plain 2048-bit key, one of 2041 bits, and a 2048-bit RSA-PSS key with restrictions.\<close>

definition test_key :: RSA where
  "test_key =
     \<lparr>key_id = 1, RSA_size = 256, RSA_bits = 2048, RSA_type_flags = RSA_FLAG_TYPE_RSA,
      pss_unrestricted = True, pss_hashalg = 0, pss_maskgenhashalg = 0, pss_saltlen = 0\<rparr>"

definition test_key_2041 :: RSA where
  "test_key_2041 = test_key\<lparr>key_id := 3, RSA_bits := 2041\<rparr>"

definition test_key_pss :: RSA where
  "test_key_pss =
     \<lparr>key_id = 2, RSA_size = 256, RSA_bits = 2048,
      RSA_type_flags = RSA_FLAG_TYPE_RSASSAPSS,
      pss_unrestricted = False, pss_hashalg = 672, pss_maskgenhashalg = 672,
      pss_saltlen = 32\<rparr>"

definition test_heap :: heap where
  "test_heap =
     \<lparr>md_ctxs = Map.empty, bufs = Map.empty, rsa_refs = (\<lambda>i. 2), next_free = 100,
      mem_left = 10, junk = 170, heap_corrupt = False\<rparr>"

text \<open>A context as \<^verbatim>\<open>rsa_newctx\<close> makes it, and one bound to SHA2-256 for PSS signing.\<close>

definition test_ctx_new :: PROV_RSA_CTX where
  "test_ctx_new =
     PROV_RSA_CTX_zero\<lparr>flag_allow_md := True, saltlen := RSA_PSS_SALTLEN_AUTO_DIGEST_MAX,
                       min_saltlen := - 1\<rparr>"

definition test_ctx_sha256 :: PROV_RSA_CTX where
  "test_ctx_sha256 =
     test_ctx_new\<lparr>rsa := Some test_key, operation := EVP_PKEY_OP_SIGN,
                  flag_allow_update := True, flag_allow_final := True,
                  flag_allow_oneshot := True, md := Some (MD_HANDLE 256), mdnid := 672,
                  mdname := ''SHA2-256'', mgf1_md := Some (MD_HANDLE 256), mgf1_mdnid := 672,
                  mgf1_mdname := ''SHA2-256'', pad_mode := RSA_PKCS1_PSS_PADDING\<rparr>"

text \<open>
  Two contexts in which the digest may not be changed (\<open>flag_allow_md\<close> cleared): one
  bound to SHA2-256, one with no digest bound.
\<close>

definition test_ctx_locked :: PROV_RSA_CTX where
  "test_ctx_locked = test_ctx_sha256\<lparr>flag_allow_md := False, pad_mode := RSA_PKCS1_PADDING\<rparr>"

definition test_ctx_locked_unbound :: PROV_RSA_CTX where
  "test_ctx_locked_unbound =
     test_ctx_new\<lparr>rsa := Some test_key, pad_mode := RSA_PKCS1_PADDING,
                  flag_allow_md := False\<rparr>"

text \<open>A context for X9.31 with SHA1, whose X9.31 hash identifier is \<open>0x33 = 51\<close>.\<close>

definition test_ctx_x931 :: PROV_RSA_CTX where
  "test_ctx_x931 =
     test_ctx_sha256\<lparr>md := Some (MD_HANDLE 160), mdnid := 64, mdname := ''SHA1'',
                     pad_mode := RSA_X931_PADDING\<rparr>"

text \<open>
  Message-signing contexts with the digest engine at address 60: one right after its
  init, one after its final; and the heaps that hold the engine's state.
\<close>

definition test_ctx_msg :: PROV_RSA_CTX where
  "test_ctx_msg =
     test_ctx_sha256\<lparr>operation := EVP_PKEY_OP_SIGNMSG, flag_allow_md := False,
                     mdctx := Some 60, pad_mode := RSA_PKCS1_PADDING\<rparr>"

definition test_ctx_msg_done :: PROV_RSA_CTX where
  "test_ctx_msg_done =
     test_ctx_msg\<lparr>flag_allow_update := False, flag_allow_final := False,
                  flag_allow_oneshot := False\<rparr>"

definition test_heap_msg :: heap where
  "test_heap_msg = test_heap\<lparr>md_ctxs := [60 \<mapsto> [1]]\<rparr>"



text \<open>
  A verify-message context with a running digest at address 60 and its heap; and the same
  two after \<open>rsa_verify_set_sig\<close> has staged a signature of three bytes, which the
  allocator has put at address 100.
\<close>

definition test_ctx_verifymsg :: PROV_RSA_CTX where
  "test_ctx_verifymsg = test_ctx_msg\<lparr>operation := EVP_PKEY_OP_VERIFYMSG\<rparr>"

definition test_heap_verifymsg :: heap where
  "test_heap_verifymsg = test_heap\<lparr>md_ctxs := [60 \<mapsto> [1, 97]]\<rparr>"

definition test_ctx_staged :: PROV_RSA_CTX where
  "test_ctx_staged = test_ctx_verifymsg\<lparr>sig := Some 100, siglen := 3\<rparr>"

definition test_heap_staged :: heap where
  "test_heap_staged =
     test_heap_verifymsg\<lparr>bufs := [100 \<mapsto> [1, 2, 3]], next_free := 101, mem_left := 9\<rparr>"

text \<open>
  A run of DigestVerify: the verify-message context right after its init absorbs the
  byte 97, a final is called with the signature \<open>[1, 2, 3]\<close>, and then a second final
  with the signature \<open>[9, 9]\<close>.
\<close>

definition test_verify_updated :: "(error + unit) \<times> PROV_RSA_CTX \<times> heap" where
  "test_verify_updated = rsa_digest_verify_update test_ext test_ctx_verifymsg test_heap_msg [97]"

definition test_verify_once :: "(error + unit) \<times> PROV_RSA_CTX \<times> heap" where
  "test_verify_once =
     rsa_digest_verify_final test_ext (fst (snd test_verify_updated))
       (snd (snd test_verify_updated)) [1, 2, 3]"

definition test_verify_twice :: "(error + unit) \<times> PROV_RSA_CTX \<times> heap" where
  "test_verify_twice =
     rsa_digest_verify_final test_ext (fst (snd test_verify_once))
       (snd (snd test_verify_once)) [9, 9]"

lemmas test_defs =
  test_ext_def test_digest_size_def test_digest_final_def test_key_def test_key_2041_def
  test_key_pss_def test_heap_def test_ctx_new_def test_ctx_sha256_def PROV_RSA_CTX_zero_def

lemma test_ext_simps:
  "ossl_prov_is_running test_ext"
  "EVP_MD_get_size test_ext m = test_digest_size m"
  "RSA_X931_hash_id test_ext nid = (if nid = 64 then 51 else if nid = 672 then 52 else - 1)"
  "EVP_MD_is_a test_ext m n =
     ((m = Some (MD_HANDLE 256) \<and> n = ''SHA2-256'')
      \<or> (m = Some (MD_HANDLE 160) \<and> n = ''SHA1'')
      \<or> (m = Some (MD_HANDLE 999) \<and> n = ''SHAKE-256''))"
  "RSA_private_encrypt test_ext d k pad = (int (length d), d)"
  "RSA_public_decrypt test_ext d k pad = (int (length d), d)"
  "EVP_DigestUpdate test_ext st d = (True, st @ d)"
  "EVP_DigestFinal_ex test_ext st = test_digest_final st"
  "RSA_up_ref_ok test_ext k"
  "ossl_rsa_key_op_get_protect test_ext k op"
  "EVP_MD_fetch test_ext n p =
     (if n = ''SHA2-256'' then Some (MD_HANDLE 256)
      else if n = ''SHA1'' then Some (MD_HANDLE 160)
      else if n = ''SHAKE-256'' then Some (MD_HANDLE 999)
      else None)"
  "EVP_MD_xof test_ext md' = (md' = MD_HANDLE 999)"
  "EVP_MD_up_ref test_ext md'"
  "ossl_digest_rsa_sign_get_md_nid test_ext md' =
     (if md' = MD_HANDLE 256 then 672 else if md' = MD_HANDLE 160 then 64 else 0)"
  "EVP_MD_CTX_copy_ex test_ext st = (True, st)"
  by (simp_all add: test_ext_def)

lemma test_ctx_sha256_simps:
  "rsa test_ctx_sha256 = Some test_key"
  "md test_ctx_sha256 = Some (MD_HANDLE 256)"
  "mdnid test_ctx_sha256 = 672"
  "mdname test_ctx_sha256 = ''SHA2-256''"
  "mdctx test_ctx_sha256 = None"
  "tbuf test_ctx_sha256 = None"
  "sig test_ctx_sha256 = None"
  "pad_mode test_ctx_sha256 = RSA_PKCS1_PSS_PADDING"
  "saltlen test_ctx_sha256 = RSA_PSS_SALTLEN_AUTO_DIGEST_MAX"
  "min_saltlen test_ctx_sha256 = - 1"
  "operation test_ctx_sha256 = EVP_PKEY_OP_SIGN"
  "flag_allow_md test_ctx_sha256"
  "flag_allow_update test_ctx_sha256"
  "flag_allow_final test_ctx_sha256"
  "flag_allow_oneshot test_ctx_sha256"
  "\<not> flag_sigalg test_ctx_sha256"
  by (simp_all add: test_ctx_sha256_def test_ctx_new_def PROV_RSA_CTX_zero_def)

lemma test_key_simps:
  "RSA_size test_key = 256" "RSA_bits test_key = 2048"
  "RSA_type_flags test_key = RSA_FLAG_TYPE_RSA"
  "RSA_size test_key_2041 = 256" "RSA_bits test_key_2041 = 2041"
  "RSA_size test_key_pss = 256" "RSA_bits test_key_pss = 2048"
  "RSA_type_flags test_key_pss = RSA_FLAG_TYPE_RSASSAPSS"
  by (simp_all add: test_key_def test_key_2041_def test_key_pss_def)

lemma test_digest_size_simps:
  "test_digest_size (Some (MD_HANDLE 256)) = 32"
  "test_digest_size (Some (MD_HANDLE 160)) = 20"
  "test_digest_size None = - 1"
  by (simp_all add: test_digest_size_def)

lemma test_ctx_x931_simps:
  "rsa test_ctx_x931 = Some test_key"
  "md test_ctx_x931 = Some (MD_HANDLE 160)"
  "mdnid test_ctx_x931 = 64"
  "tbuf test_ctx_x931 = None"
  "pad_mode test_ctx_x931 = RSA_X931_PADDING"
  by (simp_all add: test_ctx_x931_def test_ctx_sha256_simps)

lemma test_heap_simps:
  "mem_left test_heap = 10" "next_free test_heap = 100" "junk test_heap = 170"
  "bufs test_heap a = None" "md_ctxs test_heap a = None" "\<not> heap_corrupt test_heap"
  by (simp_all add: test_heap_def)

lemma test_setup_tbuf:
  "rsa c = Some test_key \<Longrightarrow> tbuf c = None \<Longrightarrow>
   setup_tbuf c test_heap =
     (Inr (), c\<lparr>tbuf := Some 100\<rparr>,
      test_heap\<lparr>bufs := (bufs test_heap)(100 \<mapsto> replicate 256 170),
                next_free := 101, mem_left := 9\<rparr>)"
  by (simp add: setup_tbuf_def OPENSSL_malloc_def size_t_of_int_def test_heap_simps
        test_key_simps)

lemma test_ctx_msg_simps:
  "rsa test_ctx_msg = Some test_key"
  "mdctx test_ctx_msg = Some 60"
  "operation test_ctx_msg = EVP_PKEY_OP_SIGNMSG"
  "flag_allow_update test_ctx_msg"
  "flag_allow_final test_ctx_msg"
  "flag_allow_oneshot test_ctx_msg"
  "rsa test_ctx_msg_done = Some test_key"
  "mdctx test_ctx_msg_done = Some 60"
  "operation test_ctx_msg_done = EVP_PKEY_OP_SIGNMSG"
  "\<not> flag_allow_update test_ctx_msg_done"
  "\<not> flag_allow_final test_ctx_msg_done"
  "\<not> flag_allow_oneshot test_ctx_msg_done"
  by (simp_all add: test_ctx_msg_def test_ctx_msg_done_def test_ctx_sha256_simps)

lemma test_heap_msg_simps:
  "md_ctxs test_heap_msg 60 = Some [1]"
  by (simp_all add: test_heap_msg_def)

lemma test_ctx_staged_simps:
  "rsa test_ctx_staged = Some test_key"
  "md test_ctx_staged = Some (MD_HANDLE 256)"
  "mgf1_md test_ctx_staged = Some (MD_HANDLE 256)"
  "mdctx test_ctx_staged = Some 60"
  "sig test_ctx_staged = Some 100"
  "siglen test_ctx_staged = 3"
  "tbuf test_ctx_staged = None"
  "propq test_ctx_staged = None"
  by (simp_all add: test_ctx_staged_def test_ctx_verifymsg_def test_ctx_msg_def
        test_ctx_sha256_def test_ctx_new_def PROV_RSA_CTX_zero_def)

lemma test_heap_staged_simps:
  "md_ctxs test_heap_staged 60 = Some [1, 97]"
  "md_ctxs test_heap_staged 101 = None"
  "bufs test_heap_staged 100 = Some [1, 2, 3]"
  "mem_left test_heap_staged = 9"
  "next_free test_heap_staged = 101"
  "rsa_refs test_heap_staged i = 2"
  "\<not> heap_corrupt test_heap_staged"
  by (simp_all add: test_heap_staged_def test_heap_verifymsg_def test_heap_def)

lemmas test_simps =
  test_ext_simps test_ctx_sha256_simps test_key_simps test_digest_size_simps
  test_ctx_x931_simps test_heap_simps test_ctx_msg_simps test_heap_msg_simps
  test_ctx_staged_simps test_heap_staged_simps

section \<open>PSS salt length resolution\<close>

lemma int_and_7: "(b::int) AND 7 = b mod 8"
  using take_bit_eq_mask [of 3 b] take_bit_eq_mod [of 3 b]
  by (simp add: mask_eq_exp_minus_1)

text \<open>
  Claim C1. In a context whose salt policy is MAX, AUTO or AUTO\_DIGEST\_MAX, with a key
  and a digest of positive output size \<open>mdsize\<close>, \<open>rsa_pss_compute_saltlen\<close> fails with
  \<^verbatim>\<open>PROV_R_INVALID_KEY\<close> when the modulus has fewer than \<open>mdsize + 2\<close> bytes.
  Otherwise the value it resolves is \<open>RSA_size - mdsize - 2\<close>, one less when the bit
  length of the modulus is 1 modulo 8, and capped at \<open>mdsize\<close> when the policy is
  AUTO\_DIGEST\_MAX: it returns that value whenever the value is not negative and not
  under the floor \<open>min_saltlen\<close>, and it never returns any other value. The function
  does not read the pad mode, so the statement holds for PSS contexts and all others.
\<close>

theorem C1_compute_saltlen_max:
  assumes pol: "saltlen ctx = RSA_PSS_SALTLEN_MAX \<or> saltlen ctx = RSA_PSS_SALTLEN_AUTO
                \<or> saltlen ctx = RSA_PSS_SALTLEN_AUTO_DIGEST_MAX"
    and key: "rsa ctx = Some k"
    and dig: "0 < EVP_MD_get_size x (md ctx)"
  defines "mdsize \<equiv> EVP_MD_get_size x (md ctx)"
  defines "raw \<equiv> RSA_size k - mdsize - 2 - (if RSA_bits k mod 8 = 1 then 1 else 0)"
  defines "expected \<equiv>
             (if saltlen ctx = RSA_PSS_SALTLEN_AUTO_DIGEST_MAX then min raw mdsize else raw)"
  shows "(RSA_size k < mdsize + 2 \<longrightarrow> rsa_pss_compute_saltlen x ctx = Inl PROV_R_INVALID_KEY)
       \<and> (mdsize + 2 \<le> RSA_size k \<longrightarrow> 0 \<le> expected \<longrightarrow> min_saltlen ctx \<le> expected
            \<longrightarrow> rsa_pss_compute_saltlen x ctx = Inr expected)
       \<and> (\<forall>v. rsa_pss_compute_saltlen x ctx = Inr v \<longrightarrow> v = expected)"
proof -
  have small: "RSA_size k < mdsize + 2 \<longleftrightarrow> RSA_size k \<le> 2 \<or> RSA_size k - 2 < mdsize"
    using dig by (auto simp: mdsize_def)
  show ?thesis
    using pol key dig small
    unfolding mdsize_def raw_def expected_def rsa_pss_compute_saltlen_def
    by (auto simp: Let_def int_and_7 min_def split: if_splits)
qed

theorem C1_compute_saltlen_max_witness:
  "rsa_pss_compute_saltlen test_ext (test_ctx_sha256\<lparr>saltlen := RSA_PSS_SALTLEN_MAX\<rparr>)
     = Inr 222
   \<and> rsa_pss_compute_saltlen test_ext
       (test_ctx_sha256\<lparr>saltlen := RSA_PSS_SALTLEN_AUTO, rsa := Some test_key_2041\<rparr>)
     = Inr 221
   \<and> rsa_pss_compute_saltlen test_ext test_ctx_sha256 = Inr 32
   \<and> rsa_pss_compute_saltlen test_ext
       (test_ctx_sha256\<lparr>rsa := Some (test_key\<lparr>RSA_size := 33\<rparr>)\<rparr>)
     = Inl PROV_R_INVALID_KEY"
proof -
  let ?a = "test_ctx_sha256\<lparr>saltlen := RSA_PSS_SALTLEN_MAX\<rparr>"
  let ?b = "test_ctx_sha256\<lparr>saltlen := RSA_PSS_SALTLEN_AUTO, rsa := Some test_key_2041\<rparr>"
  let ?d = "test_ctx_sha256\<lparr>rsa := Some (test_key\<lparr>RSA_size := 33\<rparr>)\<rparr>"
  have a: "rsa_pss_compute_saltlen test_ext ?a = Inr 222"
    using C1_compute_saltlen_max [of ?a test_key test_ext, THEN conjunct2, THEN conjunct1]
    by (simp add: test_simps)
  have b: "rsa_pss_compute_saltlen test_ext ?b = Inr 221"
    using C1_compute_saltlen_max [of ?b test_key_2041 test_ext, THEN conjunct2, THEN conjunct1]
    by (simp add: test_simps)
  have c: "rsa_pss_compute_saltlen test_ext test_ctx_sha256 = Inr 32"
    using C1_compute_saltlen_max
            [of test_ctx_sha256 test_key test_ext, THEN conjunct2, THEN conjunct1]
    by (simp add: test_simps)
  have d: "rsa_pss_compute_saltlen test_ext ?d = Inl PROV_R_INVALID_KEY"
    using C1_compute_saltlen_max
            [of ?d "test_key\<lparr>RSA_size := 33\<rparr>" test_ext, THEN conjunct1]
    by (simp add: test_simps)
  from a b c d show ?thesis by blast
qed

text \<open>
  Claim C6. \<open>rsa_pss_compute_saltlen\<close> never returns a negative value, nor one under
  \<open>min_saltlen\<close>. \<^verbatim>\<open>PROV_R_PSS_SALTLEN_TOO_SMALL\<close> is only raised with the floor and a
  computed value that is not negative and is under the floor (so the floor is set, not
  \<open>-1\<close>). For each request the theorem names the computed value \<open>c\<close> - the number itself
  for a numeric request or an unknown negative one, the digest size for DIGEST, the
  modulus formula for MAX, AUTO and AUTO\_DIGEST\_MAX - and the outcome is: an internal
  error when \<open>c < 0\<close>, \<^verbatim>\<open>PROV_R_PSS_SALTLEN_TOO_SMALL\<close> with the floor and \<open>c\<close> when
  \<open>0 \<le> c < min_saltlen\<close>, the value \<open>c\<close> otherwise.
\<close>

theorem C6_compute_saltlen_floor:
  fixes x :: ext and ctx :: PROV_RSA_CTX
  defines "res \<equiv> rsa_pss_compute_saltlen x ctx"
  defines "mdsize \<equiv> EVP_MD_get_size x (md ctx)"
  defines "outcome \<equiv> (\<lambda>c. if c < 0 then Inl ERR_R_INTERNAL_ERROR
                           else if c < min_saltlen ctx
                             then Inl (PROV_R_PSS_SALTLEN_TOO_SMALL (min_saltlen ctx) c)
                           else Inr c)"
  shows "(\<forall>v. res = Inr v \<longrightarrow> 0 \<le> v \<and> min_saltlen ctx \<le> v)
       \<and> (\<forall>m a. res = Inl (PROV_R_PSS_SALTLEN_TOO_SMALL m a)
             \<longrightarrow> m = min_saltlen ctx \<and> min_saltlen ctx \<noteq> - 1 \<and> 0 \<le> a \<and> a < m)
       \<and> (0 \<le> saltlen ctx \<or> saltlen ctx < RSA_PSS_SALTLEN_AUTO_DIGEST_MAX
             \<longrightarrow> res = outcome (saltlen ctx))
       \<and> (saltlen ctx = RSA_PSS_SALTLEN_DIGEST \<and> 0 < mdsize \<longrightarrow> res = outcome mdsize)
       \<and> (\<forall>k. (saltlen ctx = RSA_PSS_SALTLEN_MAX \<or> saltlen ctx = RSA_PSS_SALTLEN_AUTO)
               \<and> rsa ctx = Some k \<and> 0 < mdsize \<and> mdsize + 2 \<le> RSA_size k
             \<longrightarrow> res = outcome (RSA_size k - mdsize - 2
                                 - (if RSA_bits k mod 8 = 1 then 1 else 0)))
       \<and> (\<forall>k. saltlen ctx = RSA_PSS_SALTLEN_AUTO_DIGEST_MAX
               \<and> rsa ctx = Some k \<and> 0 < mdsize \<and> mdsize + 2 \<le> RSA_size k
             \<longrightarrow> res = outcome (min mdsize (RSA_size k - mdsize - 2
                                 - (if RSA_bits k mod 8 = 1 then 1 else 0))))"
proof -
  have ret: "\<forall>v. res = Inr v \<longrightarrow> 0 \<le> v \<and> min_saltlen ctx \<le> v"
    unfolding res_def rsa_pss_compute_saltlen_def
    by (auto simp: Let_def split: if_splits option.splits sum.splits)
  have small: "\<forall>m a. res = Inl (PROV_R_PSS_SALTLEN_TOO_SMALL m a)
                 \<longrightarrow> m = min_saltlen ctx \<and> min_saltlen ctx \<noteq> - 1 \<and> 0 \<le> a \<and> a < m"
    unfolding res_def rsa_pss_compute_saltlen_def
    by (auto simp: Let_def split: if_splits option.splits sum.splits)
  have num: "0 \<le> saltlen ctx \<or> saltlen ctx < RSA_PSS_SALTLEN_AUTO_DIGEST_MAX
               \<longrightarrow> res = outcome (saltlen ctx)"
    unfolding res_def outcome_def rsa_pss_compute_saltlen_def
    by (auto simp: Let_def)
  have dig: "saltlen ctx = RSA_PSS_SALTLEN_DIGEST \<and> 0 < mdsize \<longrightarrow> res = outcome mdsize"
    unfolding res_def outcome_def mdsize_def rsa_pss_compute_saltlen_def
    by (auto simp: Let_def)
  have mx: "\<forall>k. (saltlen ctx = RSA_PSS_SALTLEN_MAX \<or> saltlen ctx = RSA_PSS_SALTLEN_AUTO)
               \<and> rsa ctx = Some k \<and> 0 < mdsize \<and> mdsize + 2 \<le> RSA_size k
             \<longrightarrow> res = outcome (RSA_size k - mdsize - 2
                                 - (if RSA_bits k mod 8 = 1 then 1 else 0))"
    unfolding res_def outcome_def mdsize_def rsa_pss_compute_saltlen_def
    by (auto simp: Let_def int_and_7)
  have adm: "\<forall>k. saltlen ctx = RSA_PSS_SALTLEN_AUTO_DIGEST_MAX
               \<and> rsa ctx = Some k \<and> 0 < mdsize \<and> mdsize + 2 \<le> RSA_size k
             \<longrightarrow> res = outcome (min mdsize (RSA_size k - mdsize - 2
                                 - (if RSA_bits k mod 8 = 1 then 1 else 0)))"
    unfolding res_def outcome_def mdsize_def rsa_pss_compute_saltlen_def
    by (auto simp: Let_def int_and_7 min_def)
  from ret small num dig mx adm show ?thesis by blast
qed

theorem C6_compute_saltlen_floor_witness:
  "rsa_pss_compute_saltlen test_ext (test_ctx_sha256\<lparr>saltlen := 20, min_saltlen := 32\<rparr>)
     = Inl (PROV_R_PSS_SALTLEN_TOO_SMALL 32 20)
   \<and> rsa_pss_compute_saltlen test_ext (test_ctx_sha256\<lparr>saltlen := - 7\<rparr>)
     = Inl ERR_R_INTERNAL_ERROR
   \<and> rsa_pss_compute_saltlen test_ext
       (test_ctx_sha256\<lparr>saltlen := RSA_PSS_SALTLEN_DIGEST, min_saltlen := 40\<rparr>)
     = Inl (PROV_R_PSS_SALTLEN_TOO_SMALL 40 32)
   \<and> rsa_pss_compute_saltlen test_ext
       (test_ctx_sha256\<lparr>saltlen := RSA_PSS_SALTLEN_MAX,
                        rsa := Some (test_key\<lparr>RSA_size := 34, RSA_bits := 265\<rparr>)\<rparr>)
     = Inl ERR_R_INTERNAL_ERROR"
proof -
  let ?a = "test_ctx_sha256\<lparr>saltlen := 20, min_saltlen := 32\<rparr>"
  let ?b = "test_ctx_sha256\<lparr>saltlen := - 7\<rparr>"
  let ?c = "test_ctx_sha256\<lparr>saltlen := RSA_PSS_SALTLEN_DIGEST, min_saltlen := 40\<rparr>"
  let ?k = "test_key\<lparr>RSA_size := 34, RSA_bits := 265\<rparr>"
  let ?d = "test_ctx_sha256\<lparr>saltlen := RSA_PSS_SALTLEN_MAX, rsa := Some ?k\<rparr>"
  have a: "rsa_pss_compute_saltlen test_ext ?a = Inl (PROV_R_PSS_SALTLEN_TOO_SMALL 32 20)"
    using C6_compute_saltlen_floor
            [of test_ext ?a, THEN conjunct2, THEN conjunct2, THEN conjunct1]
    by (simp add: test_simps)
  have b: "rsa_pss_compute_saltlen test_ext ?b = Inl ERR_R_INTERNAL_ERROR"
    using C6_compute_saltlen_floor
            [of test_ext ?b, THEN conjunct2, THEN conjunct2, THEN conjunct1]
    by (simp add: test_simps)
  have c: "rsa_pss_compute_saltlen test_ext ?c = Inl (PROV_R_PSS_SALTLEN_TOO_SMALL 40 32)"
    using C6_compute_saltlen_floor
            [of test_ext ?c, THEN conjunct2, THEN conjunct2, THEN conjunct2, THEN conjunct1]
    by (simp add: test_simps)
  have d: "rsa_pss_compute_saltlen test_ext ?d = Inl ERR_R_INTERNAL_ERROR"
    using C6_compute_saltlen_floor
            [of test_ext ?d, THEN conjunct2, THEN conjunct2, THEN conjunct2, THEN conjunct2,
             THEN conjunct1, THEN spec, of ?k]
    by (simp add: test_simps)
  from a b c d show ?thesis by blast
qed

section \<open>Binding a digest while the digest is locked\<close>

text \<open>
  Claim C7, as the code has it. With \<open>flag_allow_md\<close> cleared, \<open>rsa_setup_md\<close> never
  changes the context or the heap, whatever it returns. When the name resolves to a
  digest that passes the checks made first (it has an RSA signature NID, is not an XOF,
  is compatible with the pad mode, and its name fits the buffer), the call fails with
  \<^verbatim>\<open>PROV_R_DIGEST_NOT_ALLOWED\<close> exactly when a digest name is bound (\<open>mdname\<close> is not
  empty) and the resolved digest is not that one; it succeeds when the digest is the
  bound one, and also when no digest is bound.
\<close>

theorem C7_setup_md_locked:
  assumes locked: "\<not> flag_allow_md ctx"
  shows "snd (rsa_setup_md x ctx h name props) = (ctx, h)
       \<and> (\<forall>n m. name = Some n
             \<and> EVP_MD_fetch x n (case props of None \<Rightarrow> propq ctx | Some p \<Rightarrow> Some p) = Some m
             \<and> ossl_digest_rsa_sign_get_md_nid x m \<noteq> NID_undef
             \<and> \<not> EVP_MD_xof x m
             \<and> rsa_check_padding x ctx (Some n) None (ossl_digest_rsa_sign_get_md_nid x m)
                 = Inr ()
             \<and> length n < OSSL_MAX_NAME_SIZE
           \<longrightarrow> fst (rsa_setup_md x ctx h name props)
                 = (if mdname ctx \<noteq> [] \<and> \<not> EVP_MD_is_a x (Some m) (mdname ctx)
                    then Inl PROV_R_DIGEST_NOT_ALLOWED else Inr ()))"
proof (intro conjI allI impI)
  show "snd (rsa_setup_md x ctx h name props) = (ctx, h)"
    using locked unfolding rsa_setup_md_def
    by (simp add: Let_def split: option.splits sum.splits)
next
  fix n m
  assume pre: "name = Some n
             \<and> EVP_MD_fetch x n (case props of None \<Rightarrow> propq ctx | Some p \<Rightarrow> Some p) = Some m
             \<and> ossl_digest_rsa_sign_get_md_nid x m \<noteq> NID_undef
             \<and> \<not> EVP_MD_xof x m
             \<and> rsa_check_padding x ctx (Some n) None (ossl_digest_rsa_sign_get_md_nid x m)
                 = Inr ()
             \<and> length n < OSSL_MAX_NAME_SIZE"
  then show "fst (rsa_setup_md x ctx h name props)
                 = (if mdname ctx \<noteq> [] \<and> \<not> EVP_MD_is_a x (Some m) (mdname ctx)
                    then Inl PROV_R_DIGEST_NOT_ALLOWED else Inr ())"
    using locked unfolding rsa_setup_md_def
    by (simp add: Let_def)
qed

theorem C7_setup_md_locked_witness:
  "rsa_setup_md test_ext test_ctx_locked test_heap (Some ''SHA1'') None
     = (Inl PROV_R_DIGEST_NOT_ALLOWED, test_ctx_locked, test_heap)
   \<and> rsa_setup_md test_ext test_ctx_locked test_heap (Some ''SHA2-256'') None
     = (Inr (), test_ctx_locked, test_heap)"
proof -
  have locked: "\<not> flag_allow_md test_ctx_locked"
    by (simp add: test_ctx_locked_def)
  have fields: "mdname test_ctx_locked = ''SHA2-256''" "propq test_ctx_locked = None"
    by (simp_all add: test_ctx_locked_def test_defs)
  have pad: "rsa_check_padding test_ext test_ctx_locked (Some n) None nid = Inr ()" for n nid
    by (simp add: rsa_check_padding_def test_ctx_locked_def)
  note t = C7_setup_md_locked [OF locked, of test_ext test_heap]
  have a1: "snd (rsa_setup_md test_ext test_ctx_locked test_heap (Some ''SHA1'') None)
              = (test_ctx_locked, test_heap)"
    by (rule t [THEN conjunct1])
  have a2: "fst (rsa_setup_md test_ext test_ctx_locked test_heap (Some ''SHA1'') None)
              = Inl PROV_R_DIGEST_NOT_ALLOWED"
    using t [of "Some ''SHA1''" None, THEN conjunct2, THEN spec, THEN spec,
             of "''SHA1''" "MD_HANDLE 160"]
    by (simp add: test_simps fields pad)
  have b1: "snd (rsa_setup_md test_ext test_ctx_locked test_heap (Some ''SHA2-256'') None)
              = (test_ctx_locked, test_heap)"
    by (rule t [THEN conjunct1])
  have b2: "fst (rsa_setup_md test_ext test_ctx_locked test_heap (Some ''SHA2-256'') None)
              = Inr ()"
    using t [of "Some ''SHA2-256''" None, THEN conjunct2, THEN spec, THEN spec,
             of "''SHA2-256''" "MD_HANDLE 256"]
    by (simp add: test_simps fields pad)
  from a1 a2 b1 b2 show ?thesis
    by (metis prod.collapse)
qed

text \<open>
  The claim as it was written fails where no digest is bound yet: the digest is locked,
  SHA2-256 is not the bound digest (there is none), and the call still succeeds, binding
  nothing.
\<close>

theorem C7_unbound_counterexample:
  "\<not> flag_allow_md test_ctx_locked_unbound
   \<and> EVP_MD_fetch test_ext ''SHA2-256'' None = Some (MD_HANDLE 256)
   \<and> \<not> EVP_MD_is_a test_ext (Some (MD_HANDLE 256)) (mdname test_ctx_locked_unbound)
   \<and> rsa_setup_md test_ext test_ctx_locked_unbound test_heap (Some ''SHA2-256'') None
       = (Inr (), test_ctx_locked_unbound, test_heap)"
  by (simp add: test_ctx_locked_unbound_def rsa_setup_md_def rsa_check_padding_def
        test_simps test_ctx_new_def PROV_RSA_CTX_zero_def Let_def)

section \<open>Verify-recover with X9.31 padding\<close>

lemma tbuf_bytes_SomeD:
  "tbuf_bytes c h = Some (a, b) \<Longrightarrow> tbuf c = Some a \<and> bufs h a = Some b"
  by (auto simp: tbuf_bytes_def split: option.splits)

lemma bufs_write_buf_fits:
  "bufs h a = Some b \<Longrightarrow> length src \<le> length b
     \<Longrightarrow> bufs (write_buf h a src) a = Some (src @ drop (length src) b)"
  by (simp add: write_buf_def)

lemma buf_byte_write_buf_last:
  assumes "bufs h a = Some b" "length src \<le> length b" "src \<noteq> []"
  shows "buf_byte (write_buf h a src) a (length src - 1) = Some (last src)"
proof -
  have "length src - 1 < length src" using assms(3) by (cases src) auto
  moreover from this have "length src - 1 < length b" using assms(2) by linarith
  ultimately show ?thesis
    using assms by (simp add: buf_byte_def bufs_write_buf_fits nth_append last_conv_nth)
qed

lemma read_buf_write_buf_butlast:
  assumes "bufs h a = Some b" "length src \<le> length b"
  shows "read_buf (write_buf h a src) a (length src - 1) = butlast src"
  using assms
  by (simp add: read_buf_def bufs_write_buf_fits butlast_conv_take)

text \<open>
  Claim C9. In a running provider, for a context with a key, a bound digest and X9.31
  pad mode, a caller's output buffer of capacity \<open>routsize\<close>, and a temporary buffer
  that is there (\<open>setup_tbuf\<close> succeeds): when the public-key transform recovers the
  \<open>ret0 \<ge> 1\<close> bytes \<open>out\<close>, \<open>rsa_verify_recover\<close> takes the last byte of \<open>out\<close> as the
  trailer. It fails with \<^verbatim>\<open>PROV_R_ALGORITHM_MISMATCH\<close> when the trailer is not the
  X9.31 hash identifier of the bound digest's NID; otherwise with
  \<^verbatim>\<open>PROV_R_INVALID_DIGEST_LENGTH\<close> when the number of bytes before the trailer is not
  the digest's output size; otherwise (when the caller's buffer holds that many bytes)
  it returns exactly the bytes before the trailer. The recovered block stays in the
  temporary buffer.
\<close>

theorem C9_verify_recover_x931:
  assumes run: "ossl_prov_is_running x"
    and key: "rsa ctx = Some k"
    and digest: "md ctx \<noteq> None"
    and pad: "pad_mode ctx = RSA_X931_PADDING"
    and tb: "setup_tbuf ctx h = (Inr (), c, h1)" "tbuf_bytes c h1 = Some (a, b)"
    and prim: "RSA_public_decrypt x sig_bytes k RSA_X931_PADDING = (ret0, out)"
    and got: "1 \<le> ret0" "length out = nat ret0" "length out \<le> length b"
  shows "rsa_verify_recover x ctx h OUT_CALLER routsize sig_bytes =
           (if uint (last out) \<noteq> RSA_X931_hash_id x (mdnid ctx)
              then Inl PROV_R_ALGORITHM_MISMATCH
            else if int (length (butlast out)) \<noteq> EVP_MD_get_size x (md ctx)
              then Inl PROV_R_INVALID_DIGEST_LENGTH
            else if routsize < length (butlast out)
              then Inl PROV_R_OUTPUT_BUFFER_TOO_SMALL
            else Inr (length (butlast out), butlast out),
            c, write_buf h1 a out)"
proof -
  obtain r where r: "ret0 = r + 1" "0 \<le> r" using got(1) by (metis diff_add_cancel diff_ge_0_iff_ge)
  have ne: "out \<noteq> []" using got by auto
  have idx: "nat r = length out - 1" using got r by simp
  have lb: "int (length (butlast out)) = r" using got r by simp
  have lb': "length (butlast out) = nat r" using got r by simp
  have bs: "bufs h1 a = Some b" using tb(2) by (simp add: tbuf_bytes_SomeD)
  have cf: "mdnid c = mdnid ctx" "md c = md ctx"
    using tb(1) by (auto simp: setup_tbuf_def split: option.splits prod.splits if_splits)
  have byte: "buf_byte (write_buf h1 a out) a (nat r) = Some (last out)"
    unfolding idx using bs got(3) ne by (rule buf_byte_write_buf_last)
  have rd: "read_buf (write_buf h1 a out) a (nat r) = butlast out"
    unfolding idx using bs got(3) by (rule read_buf_write_buf_butlast)
  have nlt: "\<not> r + 1 < 1" using r by simp
  show ?thesis
    unfolding rsa_verify_recover_def lb lb'
    using run key digest pad tb prim r(2) rd
    by (auto simp: Let_def r(1) nlt byte cf)
qed


theorem C9_verify_recover_x931_witness:
  "fst (rsa_verify_recover test_ext test_ctx_x931 test_heap OUT_CALLER 64
          (replicate 20 7 @ [51])) = Inr (20, replicate 20 7)
   \<and> fst (rsa_verify_recover test_ext test_ctx_x931 test_heap OUT_CALLER 64
          (replicate 20 7 @ [52])) = Inl PROV_R_ALGORITHM_MISMATCH
   \<and> fst (rsa_verify_recover test_ext test_ctx_x931 test_heap OUT_CALLER 64
          (replicate 19 7 @ [51])) = Inl PROV_R_INVALID_DIGEST_LENGTH"
proof -
  let ?c = "test_ctx_x931\<lparr>tbuf := Some 100\<rparr>"
  let ?h = "test_heap\<lparr>bufs := (bufs test_heap)(100 \<mapsto> replicate 256 170),
                next_free := 101, mem_left := 9\<rparr>"
  have tb1: "setup_tbuf test_ctx_x931 test_heap = (Inr (), ?c, ?h)"
    by (rule test_setup_tbuf) (simp_all add: test_simps)
  have tb2: "tbuf_bytes ?c ?h = Some (100, replicate 256 170)"
    by (simp add: tbuf_bytes_def)
  have md: "md test_ctx_x931 \<noteq> None" by (simp add: test_simps)
  have prim: "RSA_public_decrypt test_ext s test_key RSA_X931_PADDING = (int (length s), s)" for s
    by (simp add: test_simps)
  note t = C9_verify_recover_x931 [OF test_ext_simps(1) test_ctx_x931_simps(1) md test_ctx_x931_simps(5) tb1 tb2 prim]
  have a: "fst (rsa_verify_recover test_ext test_ctx_x931 test_heap OUT_CALLER 64
          (replicate 20 7 @ [51])) = Inr (20, replicate 20 7)"
    by (subst t) (simp_all add: test_simps butlast_append)
  have b: "fst (rsa_verify_recover test_ext test_ctx_x931 test_heap OUT_CALLER 64
          (replicate 20 7 @ [52])) = Inl PROV_R_ALGORITHM_MISMATCH"
    by (subst t) (simp_all add: test_simps butlast_append)
  have c: "fst (rsa_verify_recover test_ext test_ctx_x931 test_heap OUT_CALLER 64
          (replicate 19 7 @ [51])) = Inl PROV_R_INVALID_DIGEST_LENGTH"
    by (subst t) (simp_all add: test_simps butlast_append)
  from a b c show ?thesis by blast
qed

section \<open>What the transforms leave of the context\<close>

text \<open>
  The sign and verify transforms change no field of the context but \<open>tbuf\<close>, setting
  parameters changes none but \<open>sig\<close> and \<open>siglen\<close>, and none of them raises an
  out-of-order error.
\<close>

lemma setup_tbuf_frame:
  "setup_tbuf ctx h = (r, c, h1) \<Longrightarrow> c\<lparr>tbuf := None\<rparr> = ctx\<lparr>tbuf := None\<rparr>"
  by (auto simp: setup_tbuf_def OPENSSL_malloc_def split: option.splits if_splits)

lemma setup_tbuf_error:
  "setup_tbuf ctx h = (Inl e, c, h1) \<Longrightarrow> c = ctx \<and> h1 = h \<and> \<not> is_out_of_order e"
  by (auto simp: setup_tbuf_def OPENSSL_malloc_def is_out_of_order_def split: option.splits if_splits)

lemma rsa_sign_directly_end_frame:
  "rsa_sign_directly_end ret out c h = (r, c', h') \<Longrightarrow> c' = c \<and> h' = h"
  by (auto simp: rsa_sign_directly_end_def split: if_splits)

lemma rsa_sign_directly_end_error:
  "rsa_sign_directly_end ret out c h = (Inl e, c', h') \<Longrightarrow> e = ERR_R_RSA_LIB"
  by (auto simp: rsa_sign_directly_end_def split: if_splits)

lemma rsa_sign_directly_frame:
  assumes "rsa_sign_directly x ctx h has_sig sigsize tbs = (r, c', h')"
  shows "c'\<lparr>tbuf := None\<rparr> = ctx\<lparr>tbuf := None\<rparr>"
  using assms unfolding rsa_sign_directly_def
  by (auto simp: Let_def split: option.splits if_splits prod.splits sum.splits
      dest!: rsa_sign_directly_end_frame dest: setup_tbuf_frame)

lemma rsa_sign_directly_error:
  assumes "rsa_sign_directly x ctx h has_sig sigsize tbs = (Inl e, c', h')"
  shows "\<not> is_out_of_order e"
  using assms unfolding rsa_sign_directly_def
  by (auto simp: Let_def is_out_of_order_def split: option.splits if_splits prod.splits sum.splits
      dest!: rsa_sign_directly_end_error)


lemma rsa_verify_recover_frame:
  assumes "rsa_verify_recover x ctx h rout routsize s = (r, c', h')"
  shows "c'\<lparr>tbuf := None\<rparr> = ctx\<lparr>tbuf := None\<rparr>"
  using assms unfolding rsa_verify_recover_def
  by (auto simp: Let_def split: option.splits if_splits prod.splits sum.splits
      dest: setup_tbuf_frame)

lemma rsa_verify_recover_error:
  assumes "rsa_verify_recover x ctx h rout routsize s = (Inl e, c', h')"
  shows "\<not> is_out_of_order e"
  using assms unfolding rsa_verify_recover_def
  by (auto simp: Let_def is_out_of_order_def split: option.splits if_splits prod.splits sum.splits)

lemma rsa_verify_directly_compare_frame:
  "rsa_verify_directly_compare c h n tbs = (r, c', h') \<Longrightarrow> c' = c \<and> h' = h"
  by (auto simp: rsa_verify_directly_compare_def split: option.splits if_splits)

lemma rsa_verify_directly_compare_error:
  "rsa_verify_directly_compare c h n tbs = (Inl e, c', h') \<Longrightarrow> \<not> is_out_of_order e"
  by (auto simp: rsa_verify_directly_compare_def is_out_of_order_def split: option.splits if_splits)

lemma rsa_verify_directly_frame:
  assumes "rsa_verify_directly x ctx h s tbs = (r, c', h')"
  shows "c'\<lparr>tbuf := None\<rparr> = ctx\<lparr>tbuf := None\<rparr>"
  using assms unfolding rsa_verify_directly_def
  by (auto simp: Let_def split: option.splits if_splits prod.splits sum.splits
      dest!: rsa_verify_directly_compare_frame dest: setup_tbuf_frame)
     (metis setup_tbuf_frame rsa_verify_recover_frame)+

lemma rsa_verify_directly_error:
  assumes "rsa_verify_directly x ctx h s tbs = (Inl e, c', h')"
  shows "\<not> is_out_of_order e"
  using assms unfolding rsa_verify_directly_def
  by (auto simp: Let_def is_out_of_order_def split: option.splits if_splits prod.splits sum.splits
      dest: rsa_verify_directly_compare_error setup_tbuf_error rsa_verify_recover_error)

lemma rsa_sigalg_set_ctx_params_frame:
  assumes "rsa_sigalg_set_ctx_params ctx h ps = (r, c', h')"
  shows "c'\<lparr>sig := None, siglen := 0\<rparr> = ctx\<lparr>sig := None, siglen := 0\<rparr>"
  using assms unfolding rsa_sigalg_set_ctx_params_def
  by (auto simp: Let_def split: option.splits if_splits prod.splits)

lemma rsa_sigalg_set_ctx_params_error:
  assumes "rsa_sigalg_set_ctx_params ctx h ps = (Inl e, c', h')"
  shows "e = NO_REASON"
  using assms unfolding rsa_sigalg_set_ctx_params_def
  by (auto simp: Let_def split: option.splits if_splits prod.splits)


text \<open>
  \<^verbatim>\<open>rsa_digest_sign_final\<close> on a context that is not of a fixed signature algorithm:
  the result of \<^verbatim>\<open>rsa_sign_message_final\<close> with \<^verbatim>\<open>flag_allow_md\<close> set.
\<close>

lemma rsa_digest_sign_final_proj:
  "\<not> flag_sigalg c \<Longrightarrow>
     rsa_digest_sign_final x c h hs n
       = (fst (rsa_sign_message_final x c h hs n),
          (fst (snd (rsa_sign_message_final x c h hs n)))\<lparr>flag_allow_md := True\<rparr>,
          snd (snd (rsa_sign_message_final x c h hs n)))"
  by (simp add: rsa_digest_sign_final_def case_prod_beta)

section \<open>The size query\<close>




lemma size_t_of_int_nat: "0 \<le> i \<Longrightarrow> i < 2 ^ 64 \<Longrightarrow> size_t_of_int i = nat i"
  by (simp add: size_t_of_int_def)











section \<open>Out-of-order calls\<close>

lemma update_out_of_order:
  assumes "fst (rsa_signverify_message_update x ctx h d) = Inl e" "is_out_of_order e"
  shows "e = PROV_R_UPDATE_CALL_OUT_OF_ORDER \<and> \<not> flag_allow_update ctx
         \<and> snd (rsa_signverify_message_update x ctx h d) = (ctx, h)"
  using assms unfolding rsa_signverify_message_update_def
  by (auto simp: Let_def is_out_of_order_def split: option.splits if_splits prod.splits)

lemma update_flags:
  "fst (snd (rsa_signverify_message_update x ctx h d)) = ctx
   \<or> fst (snd (rsa_signverify_message_update x ctx h d)) = ctx\<lparr>flag_allow_oneshot := False\<rparr>"
  unfolding rsa_signverify_message_update_def
  by (auto simp: Let_def split: option.splits if_splits prod.splits)

lemma sign_final_out_of_order:
  assumes "fst (rsa_sign_message_final x ctx h hs n) = Inl e" "is_out_of_order e"
  shows "e = PROV_R_FINAL_CALL_OUT_OF_ORDER \<and> \<not> flag_allow_final ctx
         \<and> snd (rsa_sign_message_final x ctx h hs n) = (ctx, h)"
proof -
  have nd: "fst (rsa_sign_directly x c h' b n' t) \<noteq> Inl e" for c h' b n' t
    using rsa_sign_directly_error [of x c h' b n' t e] assms(2)
    by (metis prod.collapse)
  show ?thesis
    using assms nd unfolding rsa_sign_message_final_def
    by (auto simp: Let_def is_out_of_order_def split: option.splits if_splits prod.splits)
qed

lemma verify_final_out_of_order:
  assumes "fst (rsa_verify_message_final x ctx h) = Inl e" "is_out_of_order e"
  shows "e = PROV_R_FINAL_CALL_OUT_OF_ORDER \<and> \<not> flag_allow_final ctx
         \<and> snd (rsa_verify_message_final x ctx h) = (ctx, h)"
proof -
  have nd: "fst (rsa_verify_directly x c h' s t) \<noteq> Inl e" for c h' s t
    using rsa_verify_directly_error [of x c h' s t e] assms(2)
    by (metis prod.collapse)
  show ?thesis
    using assms nd unfolding rsa_verify_message_final_def
    by (auto simp: Let_def is_out_of_order_def split: option.splits if_splits prod.splits)
qed


lemma rsa_sign_out_of_order:
  assumes r: "fst (rsa_sign x ctx h hs n tbs) = Inl e" and o: "is_out_of_order e"
  shows "(e = PROV_R_ONESHOT_CALL_OUT_OF_ORDER \<and> \<not> flag_allow_oneshot ctx
            \<and> snd (rsa_sign x ctx h hs n tbs) = (ctx, h))
         \<or> (e \<noteq> PROV_R_ONESHOT_CALL_OUT_OF_ORDER \<and> flag_allow_oneshot ctx
            \<and> \<not> (flag_allow_update ctx \<and> flag_allow_final ctx))"
proof (cases "flag_allow_oneshot ctx")
  case False
  then show ?thesis
    using r o by (auto simp: rsa_sign_def is_out_of_order_def split: if_splits)
next
  case True
  have run: "ossl_prov_is_running x"
    using r o by (auto simp: rsa_sign_def is_out_of_order_def split: if_splits)
  show ?thesis
  proof (cases "operation ctx = EVP_PKEY_OP_SIGNMSG")
    case False
    then have "rsa_sign x ctx h hs n tbs = rsa_sign_directly x ctx h hs n tbs"
      using True run by (simp add: rsa_sign_def)
    then have False
      using r o rsa_sign_directly_error [of x ctx h hs n tbs e] by (metis prod.collapse)
    then show ?thesis ..
  next
    case msg: True
    show ?thesis
    proof (cases hs)
      case False
      then have eq: "rsa_sign x ctx h hs n tbs = rsa_sign_message_final x ctx h hs n"
        using True run msg by (simp add: rsa_sign_def)
      from sign_final_out_of_order [of x ctx h hs n e] r o eq
      show ?thesis using True by auto
    next
      case sigp: True
      obtain r1 c1 h1 where u: "rsa_signverify_message_update x ctx h tbs = (r1, c1, h1)"
        by (metis prod.collapse)
      show ?thesis
      proof (cases r1)
        case (Inl e1)
        then have "rsa_sign x ctx h hs n tbs = (Inl e1, c1, h1)"
          using True run msg sigp u by (simp add: rsa_sign_def)
        then have "e1 = e" using r by simp
        with update_out_of_order [of x ctx h tbs e] u Inl o
        show ?thesis using True by auto
      next
        case (Inr u1)
        then have eq: "rsa_sign x ctx h hs n tbs = rsa_sign_message_final x c1 h1 hs n"
          using True run msg sigp u by (simp add: rsa_sign_def)
        from sign_final_out_of_order [of x c1 h1 hs n e] r o eq
        have e: "e = PROV_R_FINAL_CALL_OUT_OF_ORDER" and nf: "\<not> flag_allow_final c1" by auto
        have "flag_allow_final c1 = flag_allow_final ctx"
          using update_flags [of x ctx h tbs] u by auto
        with e nf True show ?thesis by simp
      qed
    qed
  qed
qed

lemma set_sig_flags:
  assumes "rsa_verify_set_sig ctx h s = (r, c, h1)"
  shows "flag_allow_update c = flag_allow_update ctx \<and> flag_allow_final c = flag_allow_final ctx
         \<and> flag_allow_oneshot c = flag_allow_oneshot ctx \<and> mdctx c = mdctx ctx"
proof -
  have "c\<lparr>sig := None, siglen := 0\<rparr> = ctx\<lparr>sig := None, siglen := 0\<rparr>"
    using assms unfolding rsa_verify_set_sig_def by (rule rsa_sigalg_set_ctx_params_frame)
  then have "f (c\<lparr>sig := None, siglen := 0\<rparr>) = f (ctx\<lparr>sig := None, siglen := 0\<rparr>)" for f :: "PROV_RSA_CTX \<Rightarrow> 'a"
    by simp
  from this [of flag_allow_update] this [of flag_allow_final] this [of flag_allow_oneshot]
       this [of mdctx]
  show ?thesis by simp
qed

lemma rsa_verify_out_of_order:
  assumes r: "fst (rsa_verify x ctx h s tbs) = Inl e" and o: "is_out_of_order e"
  shows "(e = PROV_R_ONESHOT_CALL_OUT_OF_ORDER \<and> \<not> flag_allow_oneshot ctx
            \<and> snd (rsa_verify x ctx h s tbs) = (ctx, h))
         \<or> (e \<noteq> PROV_R_ONESHOT_CALL_OUT_OF_ORDER \<and> flag_allow_oneshot ctx
            \<and> \<not> (flag_allow_update ctx \<and> flag_allow_final ctx))"
proof (cases "flag_allow_oneshot ctx")
  case False
  then show ?thesis
    using r o by (auto simp: rsa_verify_def is_out_of_order_def split: if_splits)
next
  case True
  have run: "ossl_prov_is_running x"
    using r o by (auto simp: rsa_verify_def is_out_of_order_def split: if_splits)
  show ?thesis
  proof (cases "operation ctx = EVP_PKEY_OP_VERIFYMSG")
    case False
    then have "rsa_verify x ctx h s tbs = rsa_verify_directly x ctx h s tbs"
      using True run by (simp add: rsa_verify_def)
    then have False
      using r o rsa_verify_directly_error [of x ctx h s tbs e] by (metis prod.collapse)
    then show ?thesis ..
  next
    case msg: True
    obtain r0 c0 h0 where st: "rsa_verify_set_sig ctx h s = (r0, c0, h0)"
      by (metis prod.collapse)
    note fl = set_sig_flags [OF st]
    show ?thesis
    proof (cases r0)
      case (Inl e0)
      then have "rsa_verify x ctx h s tbs = (Inl e0, c0, h0)"
        using True run msg st by (simp add: rsa_verify_def)
      moreover have "e0 = NO_REASON"
        using st Inl unfolding rsa_verify_set_sig_def
        by (auto dest: rsa_sigalg_set_ctx_params_error)
      ultimately have False using r o by (simp add: is_out_of_order_def)
      then show ?thesis ..
    next
      case (Inr u0)
      obtain r1 c1 h1 where u: "rsa_signverify_message_update x c0 h0 tbs = (r1, c1, h1)"
        by (metis prod.collapse)
      show ?thesis
      proof (cases r1)
        case (Inl e1)
        then have "rsa_verify x ctx h s tbs = (Inl e1, c1, h1)"
          using True run msg st Inr u by (simp add: rsa_verify_def)
        then have "e1 = e" using r by simp
        with update_out_of_order [of x c0 h0 tbs e] u Inl o fl
        show ?thesis using True by auto
      next
        case inr1: (Inr u1)
        then have eq: "rsa_verify x ctx h s tbs = rsa_verify_message_final x c1 h1"
          using True run msg st Inr u by (simp add: rsa_verify_def)
        from verify_final_out_of_order [of x c1 h1 e] r o eq
        have e: "e = PROV_R_FINAL_CALL_OUT_OF_ORDER" and nf: "\<not> flag_allow_final c1" by auto
        have "flag_allow_final c1 = flag_allow_final c0"
          using update_flags [of x c0 h0 tbs] u by auto
        with e nf True fl show ?thesis by simp
      qed
    qed
  qed
qed


text \<open>
  The DigestSign and DigestVerify wrappers. A rejected update changes nothing. A rejected
  \<open>rsa_digest_sign_final\<close> has set \<open>flag_allow_md\<close>. A rejected \<open>rsa_digest_verify_final\<close>
  has staged the signature it was passed - \<open>rsa_verify_set_sig\<close> runs before the inner
  final looks at \<open>flag_allow_final\<close> - and has set \<open>flag_allow_md\<close>.
\<close>

lemma digest_update_out_of_order:
  assumes "is_out_of_order e"
  shows "fst (rsa_digest_sign_update x ctx h d) = Inl e \<Longrightarrow>
           e = PROV_R_UPDATE_CALL_OUT_OF_ORDER
           \<and> snd (rsa_digest_sign_update x ctx h d) = (ctx, h)"
    and "fst (rsa_digest_verify_update x ctx h d) = Inl e \<Longrightarrow>
           e = PROV_R_UPDATE_CALL_OUT_OF_ORDER
           \<and> snd (rsa_digest_verify_update x ctx h d) = (ctx, h)"
  using assms update_out_of_order [of x ctx h d e]
  by (auto simp: rsa_digest_sign_update_def rsa_digest_verify_update_def is_out_of_order_def
           split: if_splits)

lemma digest_sign_final_out_of_order:
  assumes r: "fst (rsa_digest_sign_final x ctx h hs n) = Inl e" and o: "is_out_of_order e"
  shows "e = PROV_R_FINAL_CALL_OUT_OF_ORDER \<and> \<not> flag_allow_final ctx
         \<and> snd (rsa_digest_sign_final x ctx h hs n) = (ctx\<lparr>flag_allow_md := True\<rparr>, h)"
proof -
  have ns: "\<not> flag_sigalg ctx"
    using r o by (auto simp: rsa_digest_sign_final_def is_out_of_order_def split: if_splits)
  obtain r1 c1 h1 where f: "rsa_sign_message_final x ctx h hs n = (r1, c1, h1)"
    by (metis prod.collapse)
  have "r1 = Inl e" using r ns f by (simp add: rsa_digest_sign_final_def)
  with sign_final_out_of_order [of x ctx h hs n e] f o
  have "e = PROV_R_FINAL_CALL_OUT_OF_ORDER" "\<not> flag_allow_final ctx" "c1 = ctx" "h1 = h"
    by auto
  then show ?thesis using ns f by (simp add: rsa_digest_sign_final_def)
qed

lemma set_sig_heap:
  assumes "rsa_verify_set_sig ctx h s = (r, c, h1)"
  shows "md_ctxs h1 = md_ctxs h \<and> rsa_refs h1 = rsa_refs h"
  using assms
  unfolding rsa_verify_set_sig_def rsa_sigalg_set_ctx_params_def
    OSSL_PARAM_get_octet_string_def OPENSSL_malloc_def OPENSSL_free_def
    ossl_param_is_empty_def OSSL_PARAM_locate_const_def
  by (auto simp: Let_def split: option.splits if_splits prod.splits OSSL_PARAM.splits)

lemma set_sig_staged:
  assumes "rsa_verify_set_sig ctx h s = (Inr (), c, h1)"
    and "operation ctx = EVP_PKEY_OP_VERIFYMSG"
  shows "sig c = Some (next_free h) \<and> siglen c = length s \<and> staged_sig c h1 = Some s"
  using assms
  unfolding rsa_verify_set_sig_def rsa_sigalg_set_ctx_params_def
    OSSL_PARAM_get_octet_string_def OPENSSL_malloc_def OPENSSL_free_def
    ossl_param_is_empty_def OSSL_PARAM_locate_const_def staged_sig_def
  by (auto simp: Let_def split: option.splits if_splits prod.splits OSSL_PARAM.splits)

lemma digest_verify_final_out_of_order:
  assumes r: "fst (rsa_digest_verify_final x ctx h s) = Inl e" and o: "is_out_of_order e"
  shows "e = PROV_R_FINAL_CALL_OUT_OF_ORDER \<and> \<not> flag_allow_final ctx
         \<and> fst (rsa_verify_set_sig ctx h s) = Inr ()
         \<and> snd (rsa_digest_verify_final x ctx h s)
             = (fst (snd (rsa_verify_set_sig ctx h s))\<lparr>flag_allow_md := True\<rparr>,
                snd (snd (rsa_verify_set_sig ctx h s)))"
proof -
  have ns: "\<not> flag_sigalg ctx"
    using r o by (auto simp: rsa_digest_verify_final_def is_out_of_order_def split: if_splits)
  obtain r1 c1 h1 where v: "rsa_verify_set_sig ctx h s = (r1, c1, h1)"
    by (metis prod.collapse)
  show ?thesis
  proof (cases r1)
    case (Inl e1)
    then have "e1 = NO_REASON"
      using v rsa_sigalg_set_ctx_params_error unfolding rsa_verify_set_sig_def by blast
    moreover have "e1 = e"
      using r ns v Inl by (simp add: rsa_digest_verify_final_def)
    ultimately show ?thesis using o by (simp add: is_out_of_order_def)
  next
    case (Inr u)
    obtain r2 c2 h2 where f: "rsa_verify_message_final x c1 h1 = (r2, c2, h2)"
      by (metis prod.collapse)
    have "r2 = Inl e" using r ns v Inr f by (simp add: rsa_digest_verify_final_def)
    with verify_final_out_of_order [of x c1 h1 e] f o
    have "e = PROV_R_FINAL_CALL_OUT_OF_ORDER" "\<not> flag_allow_final c1" "c2 = c1" "h2 = h1"
      by auto
    moreover have "flag_allow_final c1 = flag_allow_final ctx"
      using set_sig_flags [OF v] by simp
    ultimately show ?thesis using ns v Inr f by (simp add: rsa_digest_verify_final_def)
  qed
qed

lemma digest_verify_final_frame:
  assumes "rsa_verify_set_sig ctx h s = (r, c, h1)"
  shows "c\<lparr>flag_allow_md := True\<rparr>\<lparr>sig := None, siglen := 0\<rparr>
           = ctx\<lparr>sig := None, siglen := 0, flag_allow_md := True\<rparr>"
proof -
  have "c\<lparr>sig := None, siglen := 0\<rparr> = ctx\<lparr>sig := None, siglen := 0\<rparr>"
    using assms unfolding rsa_verify_set_sig_def by (rule rsa_sigalg_set_ctx_params_frame)
  then have "c\<lparr>sig := None, siglen := 0\<rparr>\<lparr>flag_allow_md := True\<rparr>
               = ctx\<lparr>sig := None, siglen := 0\<rparr>\<lparr>flag_allow_md := True\<rparr>"
    by simp
  moreover have "c\<lparr>flag_allow_md := True\<rparr>\<lparr>sig := None, siglen := 0\<rparr>
                   = c\<lparr>sig := None, siglen := 0\<rparr>\<lparr>flag_allow_md := True\<rparr>"
    by (rule PROV_RSA_CTX.equality) simp_all
  ultimately show ?thesis by simp
qed

text \<open>
  Claim C4. When \<open>rsa_signverify_message_update\<close>, \<open>rsa_sign_message_final\<close> or
  \<open>rsa_verify_message_final\<close> (the update and final entries of the fixed signature
  algorithms) or \<open>rsa_digest_sign_update\<close> or \<open>rsa_digest_verify_update\<close> returns an
  out-of-order error, it is the function's own (UPDATE or FINAL) and the context and heap
  are exactly as before. When \<open>rsa_digest_sign_final\<close> returns one, it is FINAL, the heap
  is as before and the context is as before except that \<open>flag_allow_md\<close> is set. When
  \<open>rsa_digest_verify_final\<close> returns one, it is FINAL, \<open>rsa_verify_set_sig\<close> has succeeded
  and the context and heap are those it left, with \<open>flag_allow_md\<close> set: every field
  other than \<open>sig\<close>, \<open>siglen\<close> and \<open>flag_allow_md\<close> is as before, the digest engine states
  are as before, and in a verify-message context the staged signature is the one passed
  to the rejected call, in a fresh block. When \<open>rsa_sign\<close> or \<open>rsa_verify\<close> returns the
  ONESHOT out-of-order error, the context and heap are exactly as before; in a context
  whose flags are consistent (\<open>lifecycle_ok\<close>), ONESHOT is the only out-of-order error
  \<open>rsa_sign\<close> and \<open>rsa_verify\<close> can return at all.
\<close>

theorem C4_out_of_order_no_mutation:
  fixes x :: ext and ctx :: PROV_RSA_CTX and h :: heap and s :: "byte list"
  defines "v \<equiv> rsa_verify_set_sig ctx h s"
  defines "f \<equiv> rsa_digest_verify_final x ctx h s"
  shows
  "(\<forall>e. is_out_of_order e \<longrightarrow>
       (fst (rsa_signverify_message_update x ctx h d) = Inl e
          \<longrightarrow> e = PROV_R_UPDATE_CALL_OUT_OF_ORDER
              \<and> snd (rsa_signverify_message_update x ctx h d) = (ctx, h))
     \<and> (fst (rsa_sign_message_final x ctx h hs n) = Inl e
          \<longrightarrow> e = PROV_R_FINAL_CALL_OUT_OF_ORDER
              \<and> snd (rsa_sign_message_final x ctx h hs n) = (ctx, h))
     \<and> (fst (rsa_verify_message_final x ctx h) = Inl e
          \<longrightarrow> e = PROV_R_FINAL_CALL_OUT_OF_ORDER
              \<and> snd (rsa_verify_message_final x ctx h) = (ctx, h))
     \<and> (fst (rsa_digest_sign_update x ctx h d) = Inl e
          \<longrightarrow> e = PROV_R_UPDATE_CALL_OUT_OF_ORDER
              \<and> snd (rsa_digest_sign_update x ctx h d) = (ctx, h))
     \<and> (fst (rsa_digest_verify_update x ctx h d) = Inl e
          \<longrightarrow> e = PROV_R_UPDATE_CALL_OUT_OF_ORDER
              \<and> snd (rsa_digest_verify_update x ctx h d) = (ctx, h))
     \<and> (fst (rsa_digest_sign_final x ctx h hs n) = Inl e
          \<longrightarrow> e = PROV_R_FINAL_CALL_OUT_OF_ORDER
              \<and> snd (rsa_digest_sign_final x ctx h hs n)
                  = (ctx\<lparr>flag_allow_md := True\<rparr>, h))
     \<and> (fst f = Inl e
          \<longrightarrow> e = PROV_R_FINAL_CALL_OUT_OF_ORDER
              \<and> fst v = Inr ()
              \<and> snd f = ((fst (snd v))\<lparr>flag_allow_md := True\<rparr>, snd (snd v))
              \<and> (fst (snd f))\<lparr>sig := None, siglen := 0\<rparr>
                  = ctx\<lparr>sig := None, siglen := 0, flag_allow_md := True\<rparr>
              \<and> md_ctxs (snd (snd f)) = md_ctxs h
              \<and> (operation ctx = EVP_PKEY_OP_VERIFYMSG \<longrightarrow>
                    sig (fst (snd f)) = Some (next_free h)
                  \<and> siglen (fst (snd f)) = length s
                  \<and> staged_sig (fst (snd f)) (snd (snd f)) = Some s)))
   \<and> (fst (rsa_sign x ctx h hs n tbs) = Inl PROV_R_ONESHOT_CALL_OUT_OF_ORDER
         \<longrightarrow> snd (rsa_sign x ctx h hs n tbs) = (ctx, h))
   \<and> (fst (rsa_verify x ctx h s tbs) = Inl PROV_R_ONESHOT_CALL_OUT_OF_ORDER
         \<longrightarrow> snd (rsa_verify x ctx h s tbs) = (ctx, h))
   \<and> (lifecycle_ok ctx \<longrightarrow>
        (\<forall>e. is_out_of_order e \<longrightarrow>
           (fst (rsa_sign x ctx h hs n tbs) = Inl e
              \<longrightarrow> e = PROV_R_ONESHOT_CALL_OUT_OF_ORDER
                  \<and> snd (rsa_sign x ctx h hs n tbs) = (ctx, h))
         \<and> (fst (rsa_verify x ctx h s tbs) = Inl e
              \<longrightarrow> e = PROV_R_ONESHOT_CALL_OUT_OF_ORDER
                  \<and> snd (rsa_verify x ctx h s tbs) = (ctx, h))))"
proof -
  have one: "is_out_of_order PROV_R_ONESHOT_CALL_OUT_OF_ORDER"
    by (simp add: is_out_of_order_def)
  have a: "\<forall>e. is_out_of_order e \<longrightarrow>
       (fst (rsa_signverify_message_update x ctx h d) = Inl e
          \<longrightarrow> e = PROV_R_UPDATE_CALL_OUT_OF_ORDER
              \<and> snd (rsa_signverify_message_update x ctx h d) = (ctx, h))
     \<and> (fst (rsa_sign_message_final x ctx h hs n) = Inl e
          \<longrightarrow> e = PROV_R_FINAL_CALL_OUT_OF_ORDER
              \<and> snd (rsa_sign_message_final x ctx h hs n) = (ctx, h))
     \<and> (fst (rsa_verify_message_final x ctx h) = Inl e
          \<longrightarrow> e = PROV_R_FINAL_CALL_OUT_OF_ORDER
              \<and> snd (rsa_verify_message_final x ctx h) = (ctx, h))"
    using update_out_of_order [of x ctx h d] sign_final_out_of_order [of x ctx h hs n]
          verify_final_out_of_order [of x ctx h]
    by blast
  have w: "\<forall>e. is_out_of_order e \<longrightarrow>
       (fst (rsa_digest_sign_update x ctx h d) = Inl e
          \<longrightarrow> e = PROV_R_UPDATE_CALL_OUT_OF_ORDER
              \<and> snd (rsa_digest_sign_update x ctx h d) = (ctx, h))
     \<and> (fst (rsa_digest_verify_update x ctx h d) = Inl e
          \<longrightarrow> e = PROV_R_UPDATE_CALL_OUT_OF_ORDER
              \<and> snd (rsa_digest_verify_update x ctx h d) = (ctx, h))
     \<and> (fst (rsa_digest_sign_final x ctx h hs n) = Inl e
          \<longrightarrow> e = PROV_R_FINAL_CALL_OUT_OF_ORDER
              \<and> snd (rsa_digest_sign_final x ctx h hs n)
                  = (ctx\<lparr>flag_allow_md := True\<rparr>, h))"
    using digest_update_out_of_order [of _ x ctx h d]
          digest_sign_final_out_of_order [of x ctx h hs n]
    by blast
  have vf: "e = PROV_R_FINAL_CALL_OUT_OF_ORDER
              \<and> fst v = Inr ()
              \<and> snd f = ((fst (snd v))\<lparr>flag_allow_md := True\<rparr>, snd (snd v))
              \<and> (fst (snd f))\<lparr>sig := None, siglen := 0\<rparr>
                  = ctx\<lparr>sig := None, siglen := 0, flag_allow_md := True\<rparr>
              \<and> md_ctxs (snd (snd f)) = md_ctxs h
              \<and> (operation ctx = EVP_PKEY_OP_VERIFYMSG \<longrightarrow>
                    sig (fst (snd f)) = Some (next_free h)
                  \<and> siglen (fst (snd f)) = length s
                  \<and> staged_sig (fst (snd f)) (snd (snd f)) = Some s)"
    if o: "is_out_of_order e" and r: "fst f = Inl e" for e
  proof -
    obtain c1 h1 where v_eq: "v = (Inr (), c1, h1)"
      using digest_verify_final_out_of_order [OF r [unfolded f_def] o]
      unfolding v_def by (metis prod.collapse)
    have f_eq: "snd f = (c1\<lparr>flag_allow_md := True\<rparr>, h1)"
      using digest_verify_final_out_of_order [OF r [unfolded f_def] o] v_eq
      unfolding v_def f_def by simp
    have e: "e = PROV_R_FINAL_CALL_OUT_OF_ORDER"
      using digest_verify_final_out_of_order [OF r [unfolded f_def] o] by simp
    have fr: "c1\<lparr>flag_allow_md := True\<rparr>\<lparr>sig := None, siglen := 0\<rparr>
                = ctx\<lparr>sig := None, siglen := 0, flag_allow_md := True\<rparr>"
      using digest_verify_final_frame [OF v_eq [unfolded v_def]] .
    have hp: "md_ctxs h1 = md_ctxs h"
      using set_sig_heap [OF v_eq [unfolded v_def]] by simp
    have st: "operation ctx = EVP_PKEY_OP_VERIFYMSG \<longrightarrow>
                sig c1 = Some (next_free h) \<and> siglen c1 = length s
                \<and> staged_sig c1 h1 = Some s"
      using set_sig_staged [OF v_eq [unfolded v_def]] by simp
    have st': "staged_sig (c1\<lparr>flag_allow_md := True\<rparr>) h1 = staged_sig c1 h1"
      by (simp add: staged_sig_def split: option.splits)
    show ?thesis
      using e v_eq f_eq fr hp st st' by simp
  qed
  have b: "fst (rsa_sign x ctx h hs n tbs) = Inl PROV_R_ONESHOT_CALL_OUT_OF_ORDER
         \<longrightarrow> snd (rsa_sign x ctx h hs n tbs) = (ctx, h)"
    using rsa_sign_out_of_order [of x ctx h hs n tbs, OF _ one] by blast
  have c: "fst (rsa_verify x ctx h s tbs) = Inl PROV_R_ONESHOT_CALL_OUT_OF_ORDER
         \<longrightarrow> snd (rsa_verify x ctx h s tbs) = (ctx, h)"
    using rsa_verify_out_of_order [of x ctx h s tbs, OF _ one] by blast
  have d: "lifecycle_ok ctx \<longrightarrow>
        (\<forall>e. is_out_of_order e \<longrightarrow>
           (fst (rsa_sign x ctx h hs n tbs) = Inl e
              \<longrightarrow> e = PROV_R_ONESHOT_CALL_OUT_OF_ORDER
                  \<and> snd (rsa_sign x ctx h hs n tbs) = (ctx, h))
         \<and> (fst (rsa_verify x ctx h s tbs) = Inl e
              \<longrightarrow> e = PROV_R_ONESHOT_CALL_OUT_OF_ORDER
                  \<and> snd (rsa_verify x ctx h s tbs) = (ctx, h)))"
    unfolding lifecycle_ok_def
    using rsa_sign_out_of_order [of x ctx h hs n tbs] rsa_verify_out_of_order [of x ctx h s tbs]
    by blast
  from a w vf b c d show ?thesis by blast
qed

theorem C4_out_of_order_no_mutation_witness:
  "rsa_signverify_message_update test_ext test_ctx_msg_done test_heap_msg [97]
     = (Inl PROV_R_UPDATE_CALL_OUT_OF_ORDER, test_ctx_msg_done, test_heap_msg)
   \<and> rsa_sign_message_final test_ext test_ctx_msg_done test_heap_msg True 256
     = (Inl PROV_R_FINAL_CALL_OUT_OF_ORDER, test_ctx_msg_done, test_heap_msg)
   \<and> rsa_sign test_ext test_ctx_msg_done test_heap_msg True 256 [97]
     = (Inl PROV_R_ONESHOT_CALL_OUT_OF_ORDER, test_ctx_msg_done, test_heap_msg)
   \<and> rsa_digest_sign_update test_ext test_ctx_msg_done test_heap_msg [97]
     = (Inl PROV_R_UPDATE_CALL_OUT_OF_ORDER, test_ctx_msg_done, test_heap_msg)
   \<and> rsa_digest_sign_final test_ext test_ctx_msg_done test_heap_msg True 256
     = (Inl PROV_R_FINAL_CALL_OUT_OF_ORDER, test_ctx_msg_done\<lparr>flag_allow_md := True\<rparr>,
        test_heap_msg)"
proof -
  note t = C4_out_of_order_no_mutation
             [where x = test_ext and ctx = test_ctx_msg_done and h = test_heap_msg
                and d = "[97]" and hs = True and n = 256 and tbs = "[97]"]
  have u: "is_out_of_order PROV_R_UPDATE_CALL_OUT_OF_ORDER"
    and f: "is_out_of_order PROV_R_FINAL_CALL_OUT_OF_ORDER"
    by (simp_all add: is_out_of_order_def)
  have ns: "\<not> flag_sigalg test_ctx_msg_done"
    by (simp add: test_ctx_msg_done_def test_ctx_msg_def test_ctx_sha256_def test_ctx_new_def
          PROV_RSA_CTX_zero_def)
  have p1: "fst (rsa_signverify_message_update test_ext test_ctx_msg_done test_heap_msg [97])
              = Inl PROV_R_UPDATE_CALL_OUT_OF_ORDER"
    by (simp add: rsa_signverify_message_update_def test_simps)
  have p2: "fst (rsa_sign_message_final test_ext test_ctx_msg_done test_heap_msg True 256)
              = Inl PROV_R_FINAL_CALL_OUT_OF_ORDER"
    by (simp add: rsa_sign_message_final_def test_simps)
  have p3: "fst (rsa_sign test_ext test_ctx_msg_done test_heap_msg True 256 [97])
              = Inl PROV_R_ONESHOT_CALL_OUT_OF_ORDER"
    by (simp add: rsa_sign_def test_simps)
  have p4: "fst (rsa_digest_sign_update test_ext test_ctx_msg_done test_heap_msg [97])
              = Inl PROV_R_UPDATE_CALL_OUT_OF_ORDER"
    using ns p1 by (simp add: rsa_digest_sign_update_def)
  have p5: "fst (rsa_digest_sign_final test_ext test_ctx_msg_done test_heap_msg True 256)
              = Inl PROV_R_FINAL_CALL_OUT_OF_ORDER"
    using ns p2 by (simp add: rsa_digest_sign_final_proj)
  note a = t [THEN conjunct1, THEN spec, THEN mp]
  have s1: "snd (rsa_signverify_message_update test_ext test_ctx_msg_done test_heap_msg [97])
              = (test_ctx_msg_done, test_heap_msg)"
    using a [OF u, THEN conjunct1, THEN mp, OF p1] by simp
  have s2: "snd (rsa_sign_message_final test_ext test_ctx_msg_done test_heap_msg True 256)
              = (test_ctx_msg_done, test_heap_msg)"
    using a [OF f, THEN conjunct2, THEN conjunct1, THEN mp, OF p2] by simp
  have s3: "snd (rsa_sign test_ext test_ctx_msg_done test_heap_msg True 256 [97])
              = (test_ctx_msg_done, test_heap_msg)"
    using t [THEN conjunct2, THEN conjunct1, THEN mp, OF p3] by simp
  have s4: "snd (rsa_digest_sign_update test_ext test_ctx_msg_done test_heap_msg [97])
              = (test_ctx_msg_done, test_heap_msg)"
    using a [OF u, THEN conjunct2, THEN conjunct2, THEN conjunct2, THEN conjunct1, THEN mp,
             OF p4]
    by simp
  have s5: "snd (rsa_digest_sign_final test_ext test_ctx_msg_done test_heap_msg True 256)
              = (test_ctx_msg_done\<lparr>flag_allow_md := True\<rparr>, test_heap_msg)"
    using a [OF f, THEN conjunct2, THEN conjunct2, THEN conjunct2, THEN conjunct2,
             THEN conjunct2, THEN conjunct1, THEN mp, OF p5]
    by simp
  show ?thesis
    using p1 p2 p3 p4 p5 s1 s2 s3 s4 s5 by (simp add: prod_eq_iff)
qed

text \<open>
  The run of DigestVerify of the fixtures, step by step.
\<close>

lemmas wrapper_defs =
  rsa_digest_verify_update_def rsa_digest_verify_final_def rsa_digest_sign_final_def
  rsa_signverify_message_update_def rsa_verify_message_final_def rsa_verify_set_sig_def
  rsa_sigalg_set_ctx_params_def ossl_param_is_empty_def OSSL_PARAM_locate_const_def
  OSSL_PARAM_get_octet_string_def OPENSSL_malloc_def OPENSSL_free_def staged_sig_def
  rsa_verify_directly_def rsa_verify_directly_compare_def rsa_get_md_size_def Let_def

lemma test_verify_updated_eq:
  "test_verify_updated
     = (Inr (), test_ctx_verifymsg\<lparr>flag_allow_oneshot := False\<rparr>,
        test_heap_msg\<lparr>md_ctxs := [60 \<mapsto> [1, 97]]\<rparr>)"
  unfolding test_verify_updated_def
  by (simp add: wrapper_defs test_ctx_verifymsg_def test_ctx_msg_def test_ctx_sha256_def
        test_ctx_new_def PROV_RSA_CTX_zero_def test_heap_msg_def test_heap_def test_ext_def)

lemma test_verify_once_eq:
  "snd test_verify_once
     = (test_ctx_verifymsg\<lparr>flag_allow_update := False, flag_allow_final := False,
                           flag_allow_oneshot := False, flag_allow_md := True,
                           sig := Some 100, siglen := 3\<rparr>,
        test_heap_msg\<lparr>md_ctxs := [60 \<mapsto> [1, 97]], bufs := [100 \<mapsto> [1, 2, 3]],
                       next_free := 101, mem_left := 9\<rparr>)"
  unfolding test_verify_once_def test_verify_updated_eq
  by (simp add: wrapper_defs test_ctx_verifymsg_def test_ctx_msg_def test_ctx_sha256_def
        test_ctx_new_def PROV_RSA_CTX_zero_def test_heap_msg_def test_heap_def test_ext_def
        test_digest_final_def test_digest_size_def test_key_def
        split: prod.splits)

lemma test_verify_twice_eq:
  "test_verify_twice
     = (Inl PROV_R_FINAL_CALL_OUT_OF_ORDER,
        test_ctx_verifymsg\<lparr>flag_allow_update := False, flag_allow_final := False,
                           flag_allow_oneshot := False, flag_allow_md := True,
                           sig := Some 101, siglen := 2\<rparr>,
        test_heap_msg\<lparr>md_ctxs := [60 \<mapsto> [1, 97]], bufs := [101 \<mapsto> [9, 9]],
                       next_free := 102, mem_left := 8\<rparr>)"
  unfolding test_verify_twice_def test_verify_once_eq fst_conv snd_conv
  by (simp add: wrapper_defs test_ctx_verifymsg_def test_ctx_msg_def test_ctx_sha256_def
        test_ctx_new_def PROV_RSA_CTX_zero_def test_heap_msg_def test_heap_def test_ext_def
        split: prod.splits)

text \<open>
  The claim says that a rejected final mutates nothing. In the run of DigestVerify the
  second final is rejected with \<^verbatim>\<open>PROV_R_FINAL_CALL_OUT_OF_ORDER\<close>; before it the
  context holds the signature \<open>[1, 2, 3]\<close> at address 100, after it the signature
  \<open>[9, 9]\<close> at address 101, and the block at 100 is freed. And on the message-signing
  context after a oneshot \<open>rsa_sign\<close> (the three flags cleared, \<open>flag_allow_md\<close> still
  clear), \<open>rsa_digest_sign_final\<close> is rejected with the same error and sets
  \<open>flag_allow_md\<close>.
\<close>

theorem C4_final_mutates_counterexample:
  "fst test_verify_twice = Inl PROV_R_FINAL_CALL_OUT_OF_ORDER
   \<and> sig (fst (snd test_verify_once)) = Some 100
   \<and> siglen (fst (snd test_verify_once)) = 3
   \<and> staged_sig (fst (snd test_verify_once)) (snd (snd test_verify_once)) = Some [1, 2, 3]
   \<and> sig (fst (snd test_verify_twice)) = Some 101
   \<and> siglen (fst (snd test_verify_twice)) = 2
   \<and> staged_sig (fst (snd test_verify_twice)) (snd (snd test_verify_twice)) = Some [9, 9]
   \<and> bufs (snd (snd test_verify_twice)) 100 = None
   \<and> fst (snd (rsa_sign test_ext test_ctx_msg test_heap_msg True 256 (replicate 32 7)))
       = test_ctx_msg_done
   \<and> \<not> flag_allow_md test_ctx_msg_done
   \<and> rsa_digest_sign_final test_ext test_ctx_msg_done
         (snd (snd (rsa_sign test_ext test_ctx_msg test_heap_msg True 256 (replicate 32 7))))
         True 256
       = (Inl PROV_R_FINAL_CALL_OUT_OF_ORDER, test_ctx_msg_done\<lparr>flag_allow_md := True\<rparr>,
          snd (snd (rsa_sign test_ext test_ctx_msg test_heap_msg True 256 (replicate 32 7))))"
proof -
  have once: "sig (fst (snd test_verify_once)) = Some 100"
    "siglen (fst (snd test_verify_once)) = 3"
    "staged_sig (fst (snd test_verify_once)) (snd (snd test_verify_once)) = Some [1, 2, 3]"
    unfolding test_verify_once_eq by (simp_all add: staged_sig_def)
  have twice: "fst test_verify_twice = Inl PROV_R_FINAL_CALL_OUT_OF_ORDER"
    "sig (fst (snd test_verify_twice)) = Some 101"
    "siglen (fst (snd test_verify_twice)) = 2"
    "staged_sig (fst (snd test_verify_twice)) (snd (snd test_verify_twice)) = Some [9, 9]"
    "bufs (snd (snd test_verify_twice)) 100 = None"
    unfolding test_verify_twice_eq by (simp_all add: staged_sig_def)
  have sg: "fst (snd (rsa_sign test_ext test_ctx_msg test_heap_msg True 256 (replicate 32 7)))
              = test_ctx_msg_done"
    by (simp add: rsa_sign_def rsa_signverify_message_update_def rsa_sign_message_final_def
          rsa_sign_directly_def rsa_sign_directly_end_def rsa_get_md_size_def
          size_t_of_int_def Let_def
          test_ctx_msg_done_def test_ctx_msg_def test_ctx_sha256_def test_ctx_new_def
          PROV_RSA_CTX_zero_def test_heap_msg_def test_heap_def test_ext_def
          test_digest_final_def test_digest_size_def test_key_def)
  have nm: "\<not> flag_allow_md test_ctx_msg_done" "\<not> flag_sigalg test_ctx_msg_done"
    by (simp_all add: test_ctx_msg_done_def test_ctx_msg_def test_ctx_sha256_def
          test_ctx_new_def PROV_RSA_CTX_zero_def)
  have fin: "rsa_digest_sign_final test_ext test_ctx_msg_done h True 256
       = (Inl PROV_R_FINAL_CALL_OUT_OF_ORDER, test_ctx_msg_done\<lparr>flag_allow_md := True\<rparr>, h)"
    for h
    by (simp add: rsa_digest_sign_final_proj nm rsa_sign_message_final_def test_simps)
  from once twice sg nm(1) fin show ?thesis by blast
qed

section \<open>Update, then oneshot\<close>

lemma tbuf_frame_fields:
  fixes c c' :: PROV_RSA_CTX
  assumes "c'\<lparr>tbuf := None\<rparr> = c\<lparr>tbuf := None\<rparr>"
  shows "flag_allow_oneshot c' = flag_allow_oneshot c"
    "flag_allow_update c' = flag_allow_update c"
    "flag_allow_final c' = flag_allow_final c"
    "mdctx c' = mdctx c" "rsa c' = rsa c" "sig c' = sig c" "siglen c' = siglen c"
    "operation c' = operation c"
proof -
  have "f (c'\<lparr>tbuf := None\<rparr>) = f (c\<lparr>tbuf := None\<rparr>)" for f :: "PROV_RSA_CTX \<Rightarrow> 'b"
    using assms by simp
  from this [of flag_allow_oneshot] this [of flag_allow_update] this [of flag_allow_final]
       this [of mdctx] this [of rsa] this [of sig] this [of siglen] this [of operation]
  show "flag_allow_oneshot c' = flag_allow_oneshot c"
    "flag_allow_update c' = flag_allow_update c"
    "flag_allow_final c' = flag_allow_final c"
    "mdctx c' = mdctx c" "rsa c' = rsa c" "sig c' = sig c" "siglen c' = siglen c"
    "operation c' = operation c"
    by simp_all
qed

lemma sign_directly_oneshot:
  "flag_allow_oneshot (fst (snd (rsa_sign_directly x c h hs n t))) = flag_allow_oneshot c"
  using rsa_sign_directly_frame [of x c h hs n t] tbuf_frame_fields(1)
  by (metis prod.collapse)

lemma verify_directly_oneshot:
  "flag_allow_oneshot (fst (snd (rsa_verify_directly x c h s t))) = flag_allow_oneshot c"
  using rsa_verify_directly_frame [of x c h s t] tbuf_frame_fields(1)
  by (metis prod.collapse)

lemma verify_recover_oneshot:
  "flag_allow_oneshot (fst (snd (rsa_verify_recover x c h r n s))) = flag_allow_oneshot c"
  using rsa_verify_recover_frame [of x c h r n s] tbuf_frame_fields(1)
  by (metis prod.collapse)

lemma update_oneshot:
  "\<not> flag_allow_oneshot c \<Longrightarrow>
   \<not> flag_allow_oneshot (fst (snd (rsa_signverify_message_update x c h d)))"
  using update_flags [of x c h d] by auto

lemma sign_final_oneshot:
  "\<not> flag_allow_oneshot c \<Longrightarrow>
   \<not> flag_allow_oneshot (fst (snd (rsa_sign_message_final x c h hs n)))"
  unfolding rsa_sign_message_final_def
  by (auto simp: Let_def sign_directly_oneshot split: option.splits prod.splits)

lemma verify_final_oneshot:
  "\<not> flag_allow_oneshot c \<Longrightarrow>
   \<not> flag_allow_oneshot (fst (snd (rsa_verify_message_final x c h)))"
  unfolding rsa_verify_message_final_def
  by (auto simp: Let_def verify_directly_oneshot split: option.splits prod.splits)

lemma oneshot_rejected:
  assumes "ossl_prov_is_running x" "\<not> flag_allow_oneshot c"
  shows "rsa_sign x c h hs n t = (Inl PROV_R_ONESHOT_CALL_OUT_OF_ORDER, c, h)"
    and "rsa_verify x c h s t = (Inl PROV_R_ONESHOT_CALL_OUT_OF_ORDER, c, h)"
  using assms by (simp_all add: rsa_sign_def rsa_verify_def)

lemma set_params_oneshot:
  "flag_allow_oneshot (fst (snd (rsa_sigalg_set_ctx_params c h ps))) = flag_allow_oneshot c"
proof -
  obtain r c' h' where e: "rsa_sigalg_set_ctx_params c h ps = (r, c', h')"
    by (metis prod.collapse)
  have "c'\<lparr>sig := None, siglen := 0\<rparr> = c\<lparr>sig := None, siglen := 0\<rparr>"
    using e by (rule rsa_sigalg_set_ctx_params_frame)
  then have "flag_allow_oneshot (c'\<lparr>sig := None, siglen := 0\<rparr>)
             = flag_allow_oneshot (c\<lparr>sig := None, siglen := 0\<rparr>)" by simp
  then show ?thesis using e by simp
qed

lemma digest_update_oneshot:
  "\<not> flag_allow_oneshot c \<Longrightarrow>
   \<not> flag_allow_oneshot (fst (snd (rsa_digest_sign_update x c h d)))"
  "\<not> flag_allow_oneshot c \<Longrightarrow>
   \<not> flag_allow_oneshot (fst (snd (rsa_digest_verify_update x c h d)))"
  by (simp_all add: rsa_digest_sign_update_def rsa_digest_verify_update_def update_oneshot)

lemma digest_sign_final_oneshot:
  assumes "\<not> flag_allow_oneshot c"
  shows "\<not> flag_allow_oneshot (fst (snd (rsa_digest_sign_final x c h hs n)))"
proof -
  obtain r1 c1 h1 where f: "rsa_sign_message_final x c h hs n = (r1, c1, h1)"
    by (metis prod.collapse)
  have "\<not> flag_allow_oneshot c1"
    using sign_final_oneshot [OF assms, of x h hs n] f by simp
  then show ?thesis
    using f assms by (simp add: rsa_digest_sign_final_def)
qed

lemma digest_verify_final_oneshot:
  assumes "\<not> flag_allow_oneshot c"
  shows "\<not> flag_allow_oneshot (fst (snd (rsa_digest_verify_final x c h s)))"
proof -
  obtain r1 c1 h1 where v: "rsa_verify_set_sig c h s = (r1, c1, h1)"
    by (metis prod.collapse)
  obtain r2 c2 h2 where f: "rsa_verify_message_final x c1 h1 = (r2, c2, h2)"
    by (metis prod.collapse)
  have n1: "\<not> flag_allow_oneshot c1"
    using set_sig_flags [OF v] assms by simp
  have n2: "\<not> flag_allow_oneshot c2"
    using verify_final_oneshot [OF n1, of x h1] f by simp
  show ?thesis
    using v f n1 n2 assms by (cases r1) (simp_all add: rsa_digest_verify_final_def)
qed

lemma do_call_oneshot:
  assumes "\<not> flag_allow_oneshot (fst s)"
  shows "\<not> flag_allow_oneshot (fst (do_call x s cl))"
proof (cases s)
  case (Pair c h)
  then have n: "\<not> flag_allow_oneshot c" using assms by simp
  show ?thesis
  proof (cases cl)
    case (CALL_message_update d)
    then show ?thesis using Pair update_oneshot [OF n] by simp
  next
    case (CALL_sign_message_final hs k)
    then show ?thesis using Pair sign_final_oneshot [OF n] by simp
  next
    case CALL_verify_message_final
    then show ?thesis using Pair verify_final_oneshot [OF n] by simp
  next
    case (CALL_sign hs k t)
    have "snd (rsa_sign x c h hs k t) = (c, h)"
      using n by (simp add: rsa_sign_def)
    then show ?thesis using Pair CALL_sign n by simp
  next
    case (CALL_verify sg t)
    have "snd (rsa_verify x c h sg t) = (c, h)"
      using n by (simp add: rsa_verify_def)
    then show ?thesis using Pair CALL_verify n by simp
  next
    case (CALL_verify_recover hr k sg)
    then show ?thesis using Pair n by (simp add: verify_recover_oneshot)
  next
    case (CALL_sigalg_set_ctx_params ps)
    then show ?thesis using Pair n by (simp add: set_params_oneshot)
  next
    case (CALL_digest_sign_update d)
    then show ?thesis using Pair digest_update_oneshot(1) [OF n] by simp
  next
    case (CALL_digest_sign_final hs k)
    then show ?thesis using Pair digest_sign_final_oneshot [OF n] by simp
  next
    case (CALL_digest_verify_update d)
    then show ?thesis using Pair digest_update_oneshot(2) [OF n] by simp
  next
    case (CALL_digest_verify_final sg)
    then show ?thesis using Pair digest_verify_final_oneshot [OF n] by simp
  qed
qed

lemma do_calls_oneshot:
  "\<not> flag_allow_oneshot (fst s) \<Longrightarrow> \<not> flag_allow_oneshot (fst (do_calls x s cs))"
  unfolding do_calls_def
  by (induction cs arbitrary: s) (simp_all add: do_call_oneshot)

text \<open>
  Claim C5. In an initialized message context (the digest engine is there),
  \<open>rsa_signverify_message_update\<close> fails with \<^verbatim>\<open>PROV_R_UPDATE_CALL_OUT_OF_ORDER\<close>,
  changing nothing, when \<open>flag_allow_update\<close> is cleared. A successful update leaves
  \<open>flag_allow_oneshot\<close> cleared, and after it - and after any further sequence \<open>cs\<close> of
  update, final, oneshot, verify-recover and set-parameter calls on the context, those
  of the DigestSign and DigestVerify wrappers included - every
  \<open>rsa_sign\<close> and \<open>rsa_verify\<close> call in a running provider fails with
  \<^verbatim>\<open>PROV_R_ONESHOT_CALL_OUT_OF_ORDER\<close> and changes nothing. (Only an init sets the
  flag again.)
\<close>

theorem C5_update_then_oneshot:
  assumes init: "mdctx ctx = Some a"
  shows "(\<not> flag_allow_update ctx \<longrightarrow>
            rsa_signverify_message_update x ctx h d
              = (Inl PROV_R_UPDATE_CALL_OUT_OF_ORDER, ctx, h))
       \<and> (fst (rsa_signverify_message_update x ctx h d) = Inr () \<longrightarrow>
            \<not> flag_allow_oneshot (fst (snd (rsa_signverify_message_update x ctx h d)))
          \<and> (ossl_prov_is_running x \<longrightarrow>
               (\<forall>cs c' h'.
                  do_calls x (snd (rsa_signverify_message_update x ctx h d)) cs = (c', h') \<longrightarrow>
                    rsa_sign x c' h' hs n tbs = (Inl PROV_R_ONESHOT_CALL_OUT_OF_ORDER, c', h')
                  \<and> rsa_verify x c' h' s tbs
                      = (Inl PROV_R_ONESHOT_CALL_OUT_OF_ORDER, c', h'))))"
proof (intro conjI impI allI)
  assume "\<not> flag_allow_update ctx"
  then show "rsa_signverify_message_update x ctx h d
              = (Inl PROV_R_UPDATE_CALL_OUT_OF_ORDER, ctx, h)"
    using init by (simp add: rsa_signverify_message_update_def)
next
  assume ok: "fst (rsa_signverify_message_update x ctx h d) = Inr ()"
  show cleared: "\<not> flag_allow_oneshot (fst (snd (rsa_signverify_message_update x ctx h d)))"
    using ok init unfolding rsa_signverify_message_update_def
    by (auto simp: Let_def split: option.splits if_splits prod.splits)
  fix cs c' h'
  assume run: "ossl_prov_is_running x"
    and seq: "do_calls x (snd (rsa_signverify_message_update x ctx h d)) cs = (c', h')"
  have "\<not> flag_allow_oneshot (fst (do_calls x (snd (rsa_signverify_message_update x ctx h d)) cs))"
    using cleared by (intro do_calls_oneshot) simp
  then have n: "\<not> flag_allow_oneshot c'" using seq by simp
  show "rsa_sign x c' h' hs n tbs = (Inl PROV_R_ONESHOT_CALL_OUT_OF_ORDER, c', h')"
    using oneshot_rejected(1) [OF run n] .
  show "rsa_verify x c' h' s tbs = (Inl PROV_R_ONESHOT_CALL_OUT_OF_ORDER, c', h')"
    using oneshot_rejected(2) [OF run n] .
qed


theorem C5_update_then_oneshot_witness:
  "fst (rsa_signverify_message_update test_ext test_ctx_msg test_heap_msg [97, 98, 99]) = Inr ()
   \<and> rsa_sign test_ext
         (fst (do_calls test_ext
                 (snd (rsa_signverify_message_update test_ext test_ctx_msg test_heap_msg
                         [97, 98, 99]))
                 [CALL_message_update [100], CALL_sign_message_final False 0]))
         (snd (do_calls test_ext
                 (snd (rsa_signverify_message_update test_ext test_ctx_msg test_heap_msg
                         [97, 98, 99]))
                 [CALL_message_update [100], CALL_sign_message_final False 0]))
         True 256 [1]
       = (Inl PROV_R_ONESHOT_CALL_OUT_OF_ORDER,
          do_calls test_ext
            (snd (rsa_signverify_message_update test_ext test_ctx_msg test_heap_msg
                    [97, 98, 99]))
            [CALL_message_update [100], CALL_sign_message_final False 0])
   \<and> rsa_signverify_message_update test_ext test_ctx_msg_done test_heap_msg [97]
       = (Inl PROV_R_UPDATE_CALL_OUT_OF_ORDER, test_ctx_msg_done, test_heap_msg)"
proof -
  let ?u = "rsa_signverify_message_update test_ext test_ctx_msg test_heap_msg [97, 98, 99]"
  let ?s = "do_calls test_ext (snd ?u)
              [CALL_message_update [100], CALL_sign_message_final False 0]"
  have ok: "fst ?u = Inr ()"
    by (simp add: rsa_signverify_message_update_def test_simps)
  note t = C5_update_then_oneshot [OF test_ctx_msg_simps(2), of test_ext test_heap_msg "[97, 98, 99]"
                     True 256 "[1]" "[]"]
  have run: "ossl_prov_is_running test_ext" by (simp add: test_simps)
  have seq: "?s = (fst ?s, snd ?s)" by simp
  note r = t [THEN conjunct2, THEN mp, OF ok, THEN conjunct2, THEN mp, OF run,
              THEN spec, THEN spec, THEN spec, THEN mp, OF seq, THEN conjunct1]
  note t2 = C5_update_then_oneshot [OF test_ctx_msg_simps(8), of test_ext test_heap_msg "[97]"]
  have nu: "\<not> flag_allow_update test_ctx_msg_done" by (simp add: test_simps)
  note r2 = t2 [THEN conjunct1, THEN mp, OF nu]
  from ok r r2 show ?thesis by simp
qed

section \<open>The life-cycle flags\<close>

text \<open>
  \<open>lifecycle_ok\<close> is an invariant of the contexts the functions produce: no update,
  final, oneshot, verify-recover or set-parameter call breaks it, through the fixed
  signature algorithms or through the DigestSign and DigestVerify wrappers;
  \<^verbatim>\<open>rsa_signverify_init\<close> establishes it when it succeeds and keeps it when it fails,
  for every parameter callback that leaves the three flags alone, and so do
  \<^verbatim>\<open>rsa_digest_signverify_init\<close> and the inits of the fixed signature algorithms; \<^verbatim>\<open>rsa_newctx\<close> establishes it and \<^verbatim>\<open>rsa_dupctx\<close>
  copies it.
\<close>

lemma lifecycle_ok_tbuf_frame:
  fixes c c' :: PROV_RSA_CTX
  assumes "c'\<lparr>tbuf := None\<rparr> = c\<lparr>tbuf := None\<rparr>"
  shows "lifecycle_ok c' = lifecycle_ok c"
  using tbuf_frame_fields(1-3) [OF assms] by (simp add: lifecycle_ok_def)

lemma lifecycle_ok_sig_frame:
  fixes c c' :: PROV_RSA_CTX
  assumes "c'\<lparr>sig := None, siglen := 0\<rparr> = c\<lparr>sig := None, siglen := 0\<rparr>"
  shows "lifecycle_ok c' = lifecycle_ok c"
proof -
  have "f (c'\<lparr>sig := None, siglen := 0\<rparr>) = f (c\<lparr>sig := None, siglen := 0\<rparr>)"
    for f :: "PROV_RSA_CTX \<Rightarrow> bool"
    using assms by simp
  from this [of flag_allow_oneshot] this [of flag_allow_update] this [of flag_allow_final]
  show ?thesis by (simp add: lifecycle_ok_def)
qed

lemma lifecycle_ok_simps:
  "lifecycle_ok (c\<lparr>flag_allow_oneshot := False\<rparr>)"
  "lifecycle_ok (c\<lparr>flag_allow_update := False, flag_allow_oneshot := False,
                   flag_allow_final := False\<rparr>)"
  "lifecycle_ok (c\<lparr>flag_allow_update := False, flag_allow_final := False,
                   flag_allow_oneshot := False\<rparr>)"
  "lifecycle_ok (c\<lparr>flag_allow_md := b\<rparr>) = lifecycle_ok c"
  by (simp_all add: lifecycle_ok_def)

lemma sign_directly_lifecycle:
  "lifecycle_ok (fst (snd (rsa_sign_directly x c h hs n t))) = lifecycle_ok c"
  using rsa_sign_directly_frame [of x c h hs n t] lifecycle_ok_tbuf_frame
  by (metis prod.collapse)

lemma verify_directly_lifecycle:
  "lifecycle_ok (fst (snd (rsa_verify_directly x c h s t))) = lifecycle_ok c"
  using rsa_verify_directly_frame [of x c h s t] lifecycle_ok_tbuf_frame
  by (metis prod.collapse)

lemma verify_recover_lifecycle:
  "lifecycle_ok (fst (snd (rsa_verify_recover x c h r n s))) = lifecycle_ok c"
  using rsa_verify_recover_frame [of x c h r n s] lifecycle_ok_tbuf_frame
  by (metis prod.collapse)

lemma set_params_lifecycle:
  "lifecycle_ok (fst (snd (rsa_sigalg_set_ctx_params c h ps))) = lifecycle_ok c"
  using rsa_sigalg_set_ctx_params_frame [of c h ps] lifecycle_ok_sig_frame
  by (metis prod.collapse)

lemma update_lifecycle:
  "lifecycle_ok c \<Longrightarrow> lifecycle_ok (fst (snd (rsa_signverify_message_update x c h d)))"
  using update_flags [of x c h d] by (auto simp: lifecycle_ok_def)

lemma sign_final_lifecycle:
  "lifecycle_ok c \<Longrightarrow> lifecycle_ok (fst (snd (rsa_sign_message_final x c h hs n)))"
  unfolding rsa_sign_message_final_def
  by (auto simp: Let_def sign_directly_lifecycle lifecycle_ok_simps
           split: option.splits prod.splits)

lemma verify_final_lifecycle:
  "lifecycle_ok c \<Longrightarrow> lifecycle_ok (fst (snd (rsa_verify_message_final x c h)))"
  unfolding rsa_verify_message_final_def
  by (auto simp: Let_def verify_directly_lifecycle lifecycle_ok_simps
           split: option.splits prod.splits)

lemma rsa_sign_lifecycle:
  assumes "lifecycle_ok c"
  shows "lifecycle_ok (fst (snd (rsa_sign x c h hs n t)))"
proof -
  obtain r1 c1 h1 where u: "rsa_signverify_message_update x c h t = (r1, c1, h1)"
    by (metis prod.collapse)
  have l1: "lifecycle_ok c1"
    using update_lifecycle [OF assms, of x h t] u by simp
  have f1: "lifecycle_ok (fst (snd (rsa_sign_message_final x c1 h1 hs n)))"
    by (rule sign_final_lifecycle [OF l1])
  have f0: "lifecycle_ok (fst (snd (rsa_sign_message_final x c h hs n)))"
    by (rule sign_final_lifecycle [OF assms])
  show ?thesis
    using assms u l1 f1 f0
    by (cases r1; cases hs)
       (simp_all add: rsa_sign_def sign_directly_lifecycle sign_final_lifecycle)
qed

lemma rsa_verify_lifecycle:
  assumes "lifecycle_ok c"
  shows "lifecycle_ok (fst (snd (rsa_verify x c h s t)))"
proof -
  obtain r0 c0 h0 where v: "rsa_verify_set_sig c h s = (r0, c0, h0)"
    by (metis prod.collapse)
  have l0: "lifecycle_ok c0"
    using set_params_lifecycle [of c h] v assms unfolding rsa_verify_set_sig_def
    by (metis fst_conv snd_conv)
  obtain r1 c1 h1 where u: "rsa_signverify_message_update x c0 h0 t = (r1, c1, h1)"
    by (metis prod.collapse)
  have l1: "lifecycle_ok c1"
    using update_lifecycle [OF l0, of x h0 t] u by simp
  have f1: "lifecycle_ok (fst (snd (rsa_verify_message_final x c1 h1)))"
    by (rule verify_final_lifecycle [OF l1])
  show ?thesis
    using assms v l0 u l1 f1
    by (cases r0; cases r1) (simp_all add: rsa_verify_def verify_directly_lifecycle)
qed

lemma digest_update_lifecycle:
  "lifecycle_ok c \<Longrightarrow> lifecycle_ok (fst (snd (rsa_digest_sign_update x c h d)))"
  "lifecycle_ok c \<Longrightarrow> lifecycle_ok (fst (snd (rsa_digest_verify_update x c h d)))"
  by (simp_all add: rsa_digest_sign_update_def rsa_digest_verify_update_def update_lifecycle)

lemma digest_sign_final_lifecycle:
  assumes "lifecycle_ok c"
  shows "lifecycle_ok (fst (snd (rsa_digest_sign_final x c h hs n)))"
proof (cases "flag_sigalg c")
  case True
  then show ?thesis using assms by (simp add: rsa_digest_sign_final_def)
next
  case False
  then show ?thesis
    using sign_final_lifecycle [OF assms, of x h hs n]
    by (simp add: rsa_digest_sign_final_proj lifecycle_ok_simps)
qed

lemma digest_verify_final_lifecycle:
  assumes "lifecycle_ok c"
  shows "lifecycle_ok (fst (snd (rsa_digest_verify_final x c h s)))"
proof -
  obtain r0 c0 h0 where v: "rsa_verify_set_sig c h s = (r0, c0, h0)"
    by (metis prod.collapse)
  have l0: "lifecycle_ok c0"
    using set_params_lifecycle [of c h] v assms unfolding rsa_verify_set_sig_def
    by (metis fst_conv snd_conv)
  obtain r2 c2 h2 where f: "rsa_verify_message_final x c0 h0 = (r2, c2, h2)"
    by (metis prod.collapse)
  have l2: "lifecycle_ok c2"
    using verify_final_lifecycle [OF l0, of x h0] f by simp
  show ?thesis
    using assms v l0 f l2
    by (cases r0) (simp_all add: rsa_digest_verify_final_def lifecycle_ok_simps)
qed

lemma do_call_lifecycle:
  assumes "lifecycle_ok (fst s)"
  shows "lifecycle_ok (fst (do_call x s cl))"
proof (cases s)
  case (Pair c h)
  then have l: "lifecycle_ok c" using assms by simp
  show ?thesis
    using Pair l
    by (cases cl)
       (simp_all add: update_lifecycle sign_final_lifecycle verify_final_lifecycle
          rsa_sign_lifecycle rsa_verify_lifecycle verify_recover_lifecycle
          set_params_lifecycle digest_update_lifecycle digest_sign_final_lifecycle
          digest_verify_final_lifecycle)
qed

lemma do_calls_lifecycle:
  "lifecycle_ok (fst s) \<Longrightarrow> lifecycle_ok (fst (do_calls x s cs))"
  unfolding do_calls_def
  by (induction cs arbitrary: s) (simp_all add: do_call_lifecycle)

lemma rsa_setup_mgf1_md_flags:
  "rsa_setup_mgf1_md x c n p = (r, c') \<Longrightarrow>
     flag_allow_update c' = flag_allow_update c \<and> flag_allow_final c' = flag_allow_final c
     \<and> flag_allow_oneshot c' = flag_allow_oneshot c"
  unfolding rsa_setup_mgf1_md_def
  by (auto simp: Let_def split: option.splits if_splits sum.splits)

lemma rsa_setup_md_flags:
  "rsa_setup_md x c h n p = (r, c', h') \<Longrightarrow>
     flag_allow_update c' = flag_allow_update c \<and> flag_allow_final c' = flag_allow_final c
     \<and> flag_allow_oneshot c' = flag_allow_oneshot c"
  unfolding rsa_setup_md_def
  by (auto simp: Let_def split: option.splits if_splits sum.splits)

lemma rsa_check_parameters_flags:
  "rsa_check_parameters x c m = (r, c') \<Longrightarrow>
     flag_allow_update c' = flag_allow_update c \<and> flag_allow_final c' = flag_allow_final c
     \<and> flag_allow_oneshot c' = flag_allow_oneshot c"
  unfolding rsa_check_parameters_def
  by (auto simp: Let_def split: option.splits if_splits)

lemma rsa_signverify_init_lifecycle:
  assumes cb: "\<And>c h ps r c' h'. set_ctx_params c h ps = (r, c', h') \<Longrightarrow>
                 flag_allow_update c' = flag_allow_update c
                 \<and> flag_allow_final c' = flag_allow_final c
                 \<and> flag_allow_oneshot c' = flag_allow_oneshot c"
    and i: "rsa_signverify_init x ctx h vrsa set_ctx_params params op = (r, c', h')"
    and ok: "r = Inr () \<or> lifecycle_ok ctx"
  shows "lifecycle_ok c'"
  using i ok unfolding rsa_signverify_init_def lifecycle_ok_def
  by (auto simp: Let_def split: option.splits if_splits prod.splits sum.splits
           dest!: rsa_setup_mgf1_md_flags rsa_setup_md_flags rsa_check_parameters_flags cb)

lemma rsa_sigalg_set_ctx_params_flags:
  "rsa_sigalg_set_ctx_params c h ps = (r, c', h') \<Longrightarrow>
     flag_allow_update c' = flag_allow_update c \<and> flag_allow_final c' = flag_allow_final c
     \<and> flag_allow_oneshot c' = flag_allow_oneshot c"
  unfolding rsa_sigalg_set_ctx_params_def
  by (auto simp: Let_def split: option.splits if_splits prod.splits)

lemma rsa_sigalg_signverify_init_lifecycle:
  assumes i: "IMPL_RSA_SIGALG_init MD op x ctx h vrsa params = (r, c', h')"
    and ok: "r = Inr () \<or> lifecycle_ok ctx"
  shows "lifecycle_ok c'"
proof -
  obtain r1 c1 h1 where
    s: "rsa_signverify_init x ctx h vrsa rsa_sigalg_set_ctx_params params op = (r1, c1, h1)"
    by (metis prod.collapse)
  have l: "lifecycle_ok c1" if "r1 = Inr () \<or> lifecycle_ok ctx"
    by (rule rsa_signverify_init_lifecycle [OF _ s that])
       (erule rsa_sigalg_set_ctx_params_flags)
  obtain r2 c2 h2 where m: "rsa_setup_md x c1 h1 (Some MD) None = (r2, c2, h2)"
    by (metis prod.collapse)
  have l2: "lifecycle_ok c2 = lifecycle_ok c1"
    using rsa_setup_md_flags [OF m] by (simp add: lifecycle_ok_def)
  show ?thesis
    using i ok s l m l2
    unfolding IMPL_RSA_SIGALG_init_def rsa_sigalg_signverify_init_def
    by (auto simp: Let_def lifecycle_ok_def
             split: if_splits option.splits prod.splits sum.splits)
qed

lemma rsa_digest_signverify_init_lifecycle:
  assumes cb: "\<And>c h ps r c' h'. set_ctx_params c h ps = (r, c', h') \<Longrightarrow>
                 flag_allow_update c' = flag_allow_update c
                 \<and> flag_allow_final c' = flag_allow_final c
                 \<and> flag_allow_oneshot c' = flag_allow_oneshot c"
    and i: "rsa_digest_signverify_init x ctx h mdname_arg vrsa set_ctx_params params op
              = (r, c', h')"
    and ok: "r = Inr () \<or> lifecycle_ok ctx"
  shows "lifecycle_ok c'"
proof -
  obtain r1 c1 h1 where
    s: "rsa_signverify_init x ctx h vrsa set_ctx_params params op = (r1, c1, h1)"
    by (metis prod.collapse)
  have l: "lifecycle_ok c1" if "r1 = Inr () \<or> lifecycle_ok ctx"
    by (rule rsa_signverify_init_lifecycle [OF _ s that]) (erule cb)
  show ?thesis
  proof (cases r1)
    case (Inl e)
    then show ?thesis
      using i ok s l by (auto simp: rsa_digest_signverify_init_def)
  next
    case (Inr u)
    then have l1: "lifecycle_ok c1" using l by simp
    have l2: "lifecycle_ok c2"
      if "rsa_setup_md x c1 h1 n (propq c1) = (r2, c2, h2)" for n r2 c2 h2
      using rsa_setup_md_flags [OF that] l1 by (simp add: lifecycle_ok_def)
    show ?thesis
      using i s Inr l1 l2
      unfolding rsa_digest_signverify_init_def
      by (auto simp: Let_def lifecycle_ok_def
               split: if_splits option.splits prod.splits sum.splits)
  qed
qed

lemma rsa_newctx_lifecycle:
  "rsa_newctx x h p = (Some c, h') \<Longrightarrow> lifecycle_ok c"
  by (auto simp: rsa_newctx_def lifecycle_ok_def PROV_RSA_CTX_zero_def split: if_splits)

lemma rsa_dupctx_lifecycle:
  "rsa_dupctx x src h = (Some dst, h') \<Longrightarrow> lifecycle_ok dst = lifecycle_ok src"
  unfolding rsa_dupctx_def lifecycle_ok_def
  by (auto simp: Let_def RSA_up_ref_def EVP_MD_CTX_new_def
           split: option.splits if_splits prod.splits)

section \<open>Zeroing of the temporary buffer\<close>


lemma clean_tbuf_zeroed:
  assumes "tbuf c = Some a" "rsa c = Some k" "bufs h a = Some b"
  shows "tbuf_zeroed c (clean_tbuf c h)"
  using assms
  by (auto simp: tbuf_zeroed_def tbuf_bytes_def clean_tbuf_def write_buf_def min_def)




lemma sign_end_zeroed:
  assumes "rsa_sign_directly_end ret out c (clean_tbuf c h2) = (r, c', h')"
    "tbuf c = Some a" "rsa c = Some k" "bufs h2 a = Some b"
  shows "tbuf_zeroed c' h'"
  using assms clean_tbuf_zeroed [OF assms(2,3,4)]
  by (auto dest!: rsa_sign_directly_end_frame)







section \<open>Duplicating a context\<close>

lemmas dup_defs =
  rsa_dupctx_def RSA_up_ref_def EVP_MD_CTX_new_def rsa_freectx_def free_tbuf_def
  clean_tbuf_def OPENSSL_free_def EVP_MD_CTX_free_def RSA_free_def staged_sig_def Let_def

text \<open>
  \<^verbatim>\<open>rsa_dupctx\<close> copies the whole context with \<^verbatim>\<open>*dstctx = *srcctx\<close> and then replaces
  the key, the digests, the digest engine, the temporary buffer and the property query
  by references or copies of their own. The pointer to the staged signature is not among
  them: the copy holds the address the original holds, and no buffer is allocated.
\<close>

lemma rsa_dupctx_shares_sig:
  "rsa_dupctx x src h = (Some dst, h') \<Longrightarrow>
     sig dst = sig src \<and> siglen dst = siglen src \<and> bufs h' = bufs h"
  unfolding rsa_dupctx_def
  by (auto simp: Let_def RSA_up_ref_def EVP_MD_CTX_new_def
           split: option.splits if_splits prod.splits)

text \<open>
  What the copy does own: a digest engine at a fresh address when the original has one,
  no temporary buffer, and one more reference to the key.
\<close>

lemma rsa_dupctx_owns:
  "rsa_dupctx x src h = (Some dst, h') \<Longrightarrow>
     tbuf dst = None \<and> rsa dst = rsa src
     \<and> mdctx dst = (if mdctx src = None then None else Some (next_free h))
     \<and> (\<forall>k. rsa src = Some k \<longrightarrow> rsa_refs h' (key_id k) = Suc (rsa_refs h (key_id k)))"
  unfolding rsa_dupctx_def
  by (auto simp: Let_def RSA_up_ref_def EVP_MD_CTX_new_def
           split: option.splits if_splits prod.splits)

text \<open>
  Claim C2 (every duplicate shares no mutable buffer with its original; the signature
  bytes staged for verify-message are an independently allocated copy). The code does
  otherwise. A verify-message context stages the signature \<open>[1, 2, 3]\<close> with
  \<open>rsa_verify_set_sig\<close>, which allocates it at address 100, and is then duplicated. The
  duplicate gets a digest engine of its own (address 101) and a key reference of its own,
  but its \<open>sig\<close> is the address 100 of the original. Freeing the duplicate frees that
  buffer, so that the original has lost its staged signature; freeing the original
  afterwards frees the buffer a second time.
\<close>

theorem C2_dupctx_shares_sig:
  "rsa_verify_set_sig test_ctx_verifymsg test_heap_verifymsg [1, 2, 3]
     = (Inr (), test_ctx_staged, test_heap_staged)
   \<and> rsa_dupctx test_ext test_ctx_staged test_heap_staged
     = (Some (test_ctx_staged\<lparr>mdctx := Some 101\<rparr>),
        test_heap_staged\<lparr>md_ctxs := (md_ctxs test_heap_staged)(101 \<mapsto> [1, 97]),
                         rsa_refs := (rsa_refs test_heap_staged)(1 := 3),
                         next_free := 102, mem_left := 7\<rparr>)
   \<and> sig (test_ctx_staged\<lparr>mdctx := Some 101\<rparr>) = sig test_ctx_staged
   \<and> sig test_ctx_staged = Some 100
   \<and> staged_sig test_ctx_staged test_heap_staged = Some [1, 2, 3]
   \<and> staged_sig test_ctx_staged
        (rsa_freectx (test_ctx_staged\<lparr>mdctx := Some 101\<rparr>)
           (snd (rsa_dupctx test_ext test_ctx_staged test_heap_staged))) = None
   \<and> \<not> heap_corrupt
          (rsa_freectx (test_ctx_staged\<lparr>mdctx := Some 101\<rparr>)
             (snd (rsa_dupctx test_ext test_ctx_staged test_heap_staged)))
   \<and> heap_corrupt
        (rsa_freectx test_ctx_staged
           (rsa_freectx (test_ctx_staged\<lparr>mdctx := Some 101\<rparr>)
              (snd (rsa_dupctx test_ext test_ctx_staged test_heap_staged))))"
proof -
  have v: "rsa_verify_set_sig test_ctx_verifymsg test_heap_verifymsg [1, 2, 3]
             = (Inr (), test_ctx_staged, test_heap_staged)"
    by (simp add: rsa_verify_set_sig_def rsa_sigalg_set_ctx_params_def
          ossl_param_is_empty_def OSSL_PARAM_locate_const_def
          OSSL_PARAM_get_octet_string_def OPENSSL_malloc_def OPENSSL_free_def
          test_ctx_staged_def test_heap_staged_def test_ctx_verifymsg_def
          test_heap_verifymsg_def test_ctx_msg_def test_ctx_sha256_def test_ctx_new_def
          PROV_RSA_CTX_zero_def test_heap_def)
  have d: "rsa_dupctx test_ext test_ctx_staged test_heap_staged
             = (Some (test_ctx_staged\<lparr>mdctx := Some 101\<rparr>),
                test_heap_staged\<lparr>md_ctxs := (md_ctxs test_heap_staged)(101 \<mapsto> [1, 97]),
                                 rsa_refs := (rsa_refs test_heap_staged)(1 := 3),
                                 next_free := 102, mem_left := 7\<rparr>)"
    apply (simp add: dup_defs test_simps)
    apply (simp add: test_ctx_staged_def test_ctx_verifymsg_def test_ctx_msg_def
             test_ctx_sha256_def test_ctx_new_def PROV_RSA_CTX_zero_def test_key_def)
    done
  have s: "sig (test_ctx_staged\<lparr>mdctx := Some 101\<rparr>) = sig test_ctx_staged"
    "sig test_ctx_staged = Some 100"
    "staged_sig test_ctx_staged test_heap_staged = Some [1, 2, 3]"
    by (simp_all add: staged_sig_def read_buf_def test_simps)
  have f: "staged_sig test_ctx_staged
             (rsa_freectx (test_ctx_staged\<lparr>mdctx := Some 101\<rparr>)
                (snd (rsa_dupctx test_ext test_ctx_staged test_heap_staged))) = None"
    unfolding d by (simp add: dup_defs read_buf_def test_simps)
  have n: "\<not> heap_corrupt
               (rsa_freectx (test_ctx_staged\<lparr>mdctx := Some 101\<rparr>)
                  (snd (rsa_dupctx test_ext test_ctx_staged test_heap_staged)))"
    unfolding d by (simp add: dup_defs test_simps)
  have c: "heap_corrupt
             (rsa_freectx test_ctx_staged
                (rsa_freectx (test_ctx_staged\<lparr>mdctx := Some 101\<rparr>)
                   (snd (rsa_dupctx test_ext test_ctx_staged test_heap_staged))))"
    unfolding d by (simp add: dup_defs test_simps)
  from v d s f n c show ?thesis by blast
qed

section \<open>The fixed signature algorithms and RSA-PSS keys\<close>

text \<open>
  None of the steps of \<^verbatim>\<open>rsa_signverify_init\<close> after the padding mode has been derived
  from the key type changes the padding mode or the two flags that
  \<^verbatim>\<open>rsa_sigalg_signverify_init\<close> sets at its end.
\<close>

lemma rsa_setup_mgf1_md_keeps:
  "rsa_setup_mgf1_md x c n p = (r, c') \<Longrightarrow>
     pad_mode c' = pad_mode c \<and> flag_sigalg c' = flag_sigalg c
     \<and> flag_allow_md c' = flag_allow_md c"
  unfolding rsa_setup_mgf1_md_def
  by (auto simp: Let_def split: option.splits if_splits sum.splits)

lemma rsa_setup_md_keeps:
  "rsa_setup_md x c h n p = (r, c', h') \<Longrightarrow>
     pad_mode c' = pad_mode c \<and> flag_sigalg c' = flag_sigalg c
     \<and> flag_allow_md c' = flag_allow_md c"
  unfolding rsa_setup_md_def
  by (auto simp: Let_def split: option.splits if_splits sum.splits)

lemma rsa_check_parameters_keeps:
  "rsa_check_parameters x c m = (r, c') \<Longrightarrow>
     pad_mode c' = pad_mode c \<and> flag_sigalg c' = flag_sigalg c
     \<and> flag_allow_md c' = flag_allow_md c"
  unfolding rsa_check_parameters_def
  by (auto simp: Let_def split: option.splits if_splits)

lemma rsa_sigalg_set_ctx_params_keeps:
  "rsa_sigalg_set_ctx_params c h ps = (r, c', h') \<Longrightarrow>
     pad_mode c' = pad_mode c \<and> flag_sigalg c' = flag_sigalg c
     \<and> flag_allow_md c' = flag_allow_md c"
  unfolding rsa_sigalg_set_ctx_params_def
  by (auto simp: Let_def split: option.splits if_splits prod.splits)

text \<open>
  With an RSA-PSS key, \<^verbatim>\<open>rsa_signverify_init\<close> leaves the padding mode as it found it
  (when it fails before the key type is looked at) or PSS, and PSS when it succeeds.
\<close>

lemma rsa_signverify_init_pss:
  assumes i: "rsa_signverify_init x ctx h vrsa rsa_sigalg_set_ctx_params params op = (r, c', h')"
    and key: "(case vrsa of None \<Rightarrow> rsa ctx | Some v \<Rightarrow> Some v) = Some k"
    and pss: "RSA_type_flags k = RSA_FLAG_TYPE_RSASSAPSS"
  shows "flag_sigalg c' = flag_sigalg ctx \<and> flag_allow_md c' = flag_allow_md ctx
         \<and> (pad_mode c' = pad_mode ctx \<or> pad_mode c' = RSA_PKCS1_PSS_PADDING)
         \<and> (r = Inr () \<longrightarrow> pad_mode c' = RSA_PKCS1_PSS_PADDING)"
  using i key pss unfolding rsa_signverify_init_def
  by (auto simp: Let_def split: option.splits if_splits prod.splits sum.splits
           dest!: rsa_setup_mgf1_md_keeps rsa_setup_md_keeps rsa_check_parameters_keeps
                  rsa_sigalg_set_ctx_params_keeps)

text \<open>
  Claim C10. Let the key the init works on (the one passed, or the one of the context
  when none is passed) be of type RSA-PSS. Then each init function of each fixed
  signature algorithm \<open>MD\<close>, for each operation \<open>op\<close>, fails. The context and the heap it
  leaves are those that \<^verbatim>\<open>rsa_signverify_init\<close> has left: the call of \<^verbatim>\<open>rsa_setup_md\<close>
  with the name \<open>MD\<close> and the assignments of the PKCS#1 v1.5 padding mode and of the
  flags \<open>flag_sigalg\<close> and \<open>flag_allow_md\<close> are not reached. When \<^verbatim>\<open>rsa_signverify_init\<close>
  succeeded, the error is "operation not supported for this keytype" and the padding mode
  is PSS; when it failed, its error is passed on. The two flags are as before the call,
  and the padding mode is as before the call or PSS.
\<close>

theorem C10_sigalg_init_rejects_pss_key:
  fixes x :: ext and ctx :: PROV_RSA_CTX and h :: heap and vrsa :: "RSA option"
    and k :: RSA and params :: "OSSL_PARAM list" and MD :: string and op :: pkey_op
  assumes key: "(case vrsa of None \<Rightarrow> rsa ctx | Some v \<Rightarrow> Some v) = Some k"
    and pss: "RSA_type_flags k = RSA_FLAG_TYPE_RSASSAPSS"
  defines "i \<equiv> rsa_signverify_init x ctx h vrsa rsa_sigalg_set_ctx_params params op"
  defines "r \<equiv> IMPL_RSA_SIGALG_init MD op x ctx h vrsa params"
  shows "(\<exists>e. fst r = Inl e)
         \<and> snd r = snd i
         \<and> (fst i = Inr () \<longrightarrow>
              fst r = Inl PROV_R_OPERATION_NOT_SUPPORTED_FOR_THIS_KEYTYPE
              \<and> pad_mode (fst (snd r)) = RSA_PKCS1_PSS_PADDING)
         \<and> (\<forall>e. fst i = Inl e \<longrightarrow> fst r = Inl e)
         \<and> flag_sigalg (fst (snd r)) = flag_sigalg ctx
         \<and> flag_allow_md (fst (snd r)) = flag_allow_md ctx
         \<and> (pad_mode (fst (snd r)) = pad_mode ctx
              \<or> pad_mode (fst (snd r)) = RSA_PKCS1_PSS_PADDING)"
proof -
  obtain ri ci hi where i_eq: "i = (ri, ci, hi)"
    by (cases i) auto
  have facts:
    "flag_sigalg ci = flag_sigalg ctx" "flag_allow_md ci = flag_allow_md ctx"
    "pad_mode ci = pad_mode ctx \<or> pad_mode ci = RSA_PKCS1_PSS_PADDING"
    "ri = Inr () \<longrightarrow> pad_mode ci = RSA_PKCS1_PSS_PADDING"
    using rsa_signverify_init_pss [OF i_eq [unfolded i_def] key pss] by blast+
  have stopped: "\<not> ossl_prov_is_running x \<Longrightarrow> i = (Inl NO_REASON, ctx, h)"
    unfolding i_def rsa_signverify_init_def by simp
  have r_eq: "r = (case ri of Inl e \<Rightarrow> Inl e
                   | Inr u \<Rightarrow> Inl PROV_R_OPERATION_NOT_SUPPORTED_FOR_THIS_KEYTYPE, ci, hi)"
  proof (cases "ossl_prov_is_running x")
    case False
    with stopped i_eq show ?thesis
      unfolding r_def IMPL_RSA_SIGALG_init_def rsa_sigalg_signverify_init_def by simp
  next
    case True
    with facts(4) i_eq [unfolded i_def] show ?thesis
      unfolding r_def IMPL_RSA_SIGALG_init_def rsa_sigalg_signverify_init_def
      by (cases ri) simp_all
  qed
  show ?thesis
    unfolding r_eq i_eq using facts by (cases ri) simp_all
qed

text \<open>
  An instance: the SHA1 sign init on a fresh context with a 2048-bit RSA-PSS key that is
  restricted to SHA2-256. The init fails, the padding mode is PSS, \<open>flag_sigalg\<close> is
  clear, and the digest name in the context is that of the key's restriction, not SHA1.
\<close>

theorem C10_sigalg_init_rejects_pss_key_witness:
  "fst (IMPL_RSA_SIGALG_init ''SHA1'' EVP_PKEY_OP_SIGN test_ext test_ctx_new test_heap
          (Some test_key_pss) [])
     = Inl PROV_R_OPERATION_NOT_SUPPORTED_FOR_THIS_KEYTYPE
   \<and> pad_mode (fst (snd (IMPL_RSA_SIGALG_init ''SHA1'' EVP_PKEY_OP_SIGN test_ext test_ctx_new
                            test_heap (Some test_key_pss) [])))
     = RSA_PKCS1_PSS_PADDING
   \<and> \<not> flag_sigalg (fst (snd (IMPL_RSA_SIGALG_init ''SHA1'' EVP_PKEY_OP_SIGN test_ext
                                 test_ctx_new test_heap (Some test_key_pss) [])))
   \<and> mdname (fst (snd (IMPL_RSA_SIGALG_init ''SHA1'' EVP_PKEY_OP_SIGN test_ext
                                 test_ctx_new test_heap (Some test_key_pss) [])))
     = ''SHA2-256''"
proof -
  have k: "(case Some test_key_pss of None \<Rightarrow> rsa test_ctx_new | Some v \<Rightarrow> Some v)
             = Some test_key_pss"
    by simp
  have p: "RSA_type_flags test_key_pss = RSA_FLAG_TYPE_RSASSAPSS"
    by (simp add: test_key_pss_def)
  have n: "\<not> flag_sigalg test_ctx_new"
    by (simp add: test_ctx_new_def PROV_RSA_CTX_zero_def)
  have i: "fst (rsa_signverify_init test_ext test_ctx_new test_heap (Some test_key_pss)
                  rsa_sigalg_set_ctx_params [] EVP_PKEY_OP_SIGN) = Inr ()"
    and m: "mdname (fst (snd (rsa_signverify_init test_ext test_ctx_new test_heap
                  (Some test_key_pss) rsa_sigalg_set_ctx_params [] EVP_PKEY_OP_SIGN)))
              = ''SHA2-256''"
    by (simp_all add: rsa_signverify_init_def rsa_setup_mgf1_md_def rsa_setup_md_def
          rsa_check_parameters_def rsa_sigalg_set_ctx_params_def RSA_up_ref_def RSA_free_def
          rsa_get_md_size_def rsa_check_padding_def rsa_pss_compute_saltlen_def
          ossl_param_is_empty_def OPENSSL_strlcpy_def rsa_pss_restricted_def
          test_ext_def test_key_pss_def test_heap_def test_ctx_new_def PROV_RSA_CTX_zero_def
          test_digest_size_def Let_def)
  note t = C10_sigalg_init_rejects_pss_key [OF k p, of "''SHA1''" EVP_PKEY_OP_SIGN test_ext
             test_heap "[]"]
  from t [THEN conjunct2, THEN conjunct2, THEN conjunct1, THEN mp, OF i]
       t [THEN conjunct2, THEN conjunct2, THEN conjunct2, THEN conjunct2, THEN conjunct1]
       t [THEN conjunct2, THEN conjunct1] n m
  show ?thesis by simp
qed

end
